theory Spec2Isabelle
  imports Complex_Main "HOL-Library.Sublist" "HOL-Library.AList"
begin

section \<open>JavaScript string operations used by the plugin\<close>

text \<open>
  Text is modelled as \<^typ>\<open>string\<close>: one list element per code unit of the JavaScript
  string. The functions below are the library operations the plugin calls.
\<close>

text \<open>\<^verbatim>\<open>s.startsWith(p)\<close> and \<^verbatim>\<open>s.endsWith(p)\<close>.\<close>

definition startsWith :: "string \<Rightarrow> string \<Rightarrow> bool" where
  "startsWith s p = prefix p s"

definition endsWith :: "string \<Rightarrow> string \<Rightarrow> bool" where
  "endsWith s p = prefix (rev p) (rev s)"

text \<open>\<^verbatim>\<open>s.split(c)\<close> for a one-character separator: never empty, \<^verbatim>\<open>''.split(c)\<close> is \<^verbatim>\<open>['']\<close>.\<close>

fun split :: "char \<Rightarrow> string \<Rightarrow> string list" where
  "split c [] = [[]]"
| "split c (x # xs) =
     (if x = c then [] # split c xs
      else (case split c xs of [] \<Rightarrow> [[x]] | l # ls \<Rightarrow> (x # l) # ls))"

text \<open>\<^verbatim>\<open>s.replace(/^\//, '')\<close>: drops one leading slash.\<close>

definition stripLeadingSlash :: "string \<Rightarrow> string" where
  "stripLeadingSlash s = (case s of [] \<Rightarrow> [] | c # t \<Rightarrow> if c = CHR ''/'' then t else s)"

text \<open>
  \<^verbatim>\<open>s.replace(/^\/|\/$/g, '')\<close>: the global regular expression matches a slash at
  position 0 and, scanning on from there, a slash that is the last character; both
  matches are deleted. A string that is a single slash has only the first match.
\<close>

definition stripSlashes :: "string \<Rightarrow> string" where
  "stripSlashes s =
     (let t = stripLeadingSlash s
      in if t \<noteq> [] \<and> last t = CHR ''/'' then butlast t else t)"

section \<open>Path mapping and the tracking predicate\<close>

text \<open>The fields of Obsidian's \<^verbatim>\<open>TFile\<close> that the plugin reads.\<close>

record TFile =
  tf_path :: string
  tf_name :: string
  tf_mtime :: int

text \<open>\<^verbatim>\<open>isMarkdownFile(filename)\<close>\<close>

definition isMarkdownFile :: "string \<Rightarrow> bool" where
  "isMarkdownFile filename = (endsWith filename ''.md'' \<or> endsWith filename ''.markdown'')"

text \<open>\<^verbatim>\<open>shouldSyncFile(file)\<close>, with \<^verbatim>\<open>this.settings.syncPath\<close> as first argument.\<close>

definition shouldSyncFile :: "string \<Rightarrow> TFile \<Rightarrow> bool" where
  "shouldSyncFile syncPath file =
     (let filePath = tf_path file;
          normalizedSyncPath = stripSlashes syncPath
      in if normalizedSyncPath = [] then isMarkdownFile (tf_name file)
         else (let normalizedLocalPath = stripLeadingSlash filePath
               in startsWith normalizedLocalPath (normalizedSyncPath @ ''/'')
                  \<and> isMarkdownFile (tf_name file)))"

text \<open>\<^verbatim>\<open>shouldSyncPath(path)\<close>\<close>

definition shouldSyncPath :: "string \<Rightarrow> string \<Rightarrow> bool" where
  "shouldSyncPath syncPath path =
     (let normalizedSyncPath = stripSlashes syncPath;
          normalizedPath = stripLeadingSlash path
      in if normalizedSyncPath = [] then isMarkdownFile path
         else startsWith normalizedPath (normalizedSyncPath @ ''/'') \<and> isMarkdownFile path)"

text \<open>\<^verbatim>\<open>getLocalPath(remotePath)\<close>\<close>

definition getLocalPath :: "string \<Rightarrow> string \<Rightarrow> string" where
  "getLocalPath syncPath remotePath =
     (let normalizedSyncPath = stripSlashes syncPath;
          normalizedRemotePath = stripLeadingSlash remotePath
      in if normalizedSyncPath = [] then normalizedRemotePath
         else if normalizedRemotePath = normalizedSyncPath then []
         else (let expectedPrefix = normalizedSyncPath @ ''/''
               in if startsWith normalizedRemotePath expectedPrefix
                  then drop (length expectedPrefix) normalizedRemotePath
                  else normalizedRemotePath))"

text \<open>\<^verbatim>\<open>getRemotePath(localPath)\<close>\<close>

definition getRemotePath :: "string \<Rightarrow> string \<Rightarrow> string" where
  "getRemotePath syncPath localPath =
     (let normalizedLocalPath = stripLeadingSlash localPath;
          normalizedSyncPath = stripSlashes syncPath
      in if normalizedSyncPath = [] then normalizedLocalPath
         else if normalizedLocalPath = [] then normalizedSyncPath
         else normalizedSyncPath @ ''/'' @ normalizedLocalPath)"

section \<open>The line merge\<close>

text \<open>
  The loop of \<^verbatim>\<open>mergeContent\<close> over \<^verbatim>\<open>remoteLines\<close>: the state is the pair of
  \<^verbatim>\<open>mergedLines\<close> and \<^verbatim>\<open>hasNewRemoteLines\<close>.
\<close>

fun mergeLoop :: "string list \<Rightarrow> string list \<Rightarrow> string list \<times> bool \<Rightarrow> string list \<times> bool" where
  "mergeLoop localLines [] acc = acc"
| "mergeLoop localLines (remoteLine # rest) (mergedLines, hasNewRemoteLines) =
     (if remoteLine \<notin> set localLines
      then mergeLoop localLines rest (mergedLines @ [remoteLine], True)
      else mergeLoop localLines rest (mergedLines, hasNewRemoteLines))"

text \<open>\<^verbatim>\<open>mergeContent(localContent, remoteContent)\<close>\<close>

definition mergeContent :: "string \<Rightarrow> string \<Rightarrow> string" where
  "mergeContent localContent remoteContent =
     (let localLines = split CHR 0x0A localContent;
          remoteLines = split CHR 0x0A remoteContent;
          (mergedLines, hasNewRemoteLines) = mergeLoop localLines remoteLines (localLines, False)
      in if hasNewRemoteLines
         then ''<<<<<<< local version\<newline>'' @ localContent @ ''\<newline>=======\<newline>''
              @ remoteContent @ ''\<newline>>>>>>>> remote version\<newline>''
         else localContent)"

text \<open>
  The merge as the specification words it, for comparison: the local content, then only
  the remote lines that are absent from the local version, between the same markers.
\<close>

definition joinLines :: "string list \<Rightarrow> string" where
  "joinLines ls = (case ls of [] \<Rightarrow> [] | l # rest \<Rightarrow> foldl (\<lambda>acc x. acc @ ''\<newline>'' @ x) l rest)"

definition mergeContent_as_specified :: "string \<Rightarrow> string \<Rightarrow> string" where
  "mergeContent_as_specified localContent remoteContent =
     (let localLines = split CHR 0x0A localContent;
          uniqueRemote = filter (\<lambda>l. l \<notin> set localLines) (split CHR 0x0A remoteContent)
      in if uniqueRemote \<noteq> []
         then ''<<<<<<< local version\<newline>'' @ localContent @ ''\<newline>=======\<newline>''
              @ joinLines uniqueRemote @ ''\<newline>>>>>>>> remote version\<newline>''
         else localContent)"

text \<open>\<^verbatim>\<open>s.includes(sub)\<close>: \<open>sub\<close> occurs in \<open>s\<close> as a contiguous block.\<close>

fun includesStr :: "string \<Rightarrow> string \<Rightarrow> bool" where
  "includesStr [] sub = (sub = [])"
| "includesStr (c # s) sub = (prefix sub (c # s) \<or> includesStr s sub)"

text \<open>A natural number in decimal, as template literals print a status code.\<close>

fun showNat :: "nat \<Rightarrow> string" where
  "showNat n =
     (if n < 10 then [''0123456789'' ! n]
      else showNat (n div 10) @ [''0123456789'' ! (n mod 10)])"

section \<open>Data model\<close>

datatype ConflictResolution = Local | Remote | Merge | Ask

datatype Verbosity = Quiet | Standard | Verbose

datatype SyncType = ManualSync | AutoSync | RealtimeSync | StartupSync | SaveOnCloseSync

record Settings =
  githubToken :: string
  repoOwner :: string
  repoName :: string
  branch :: string
  syncPath :: string
  autoSync :: bool
  syncInterval :: int
  conflictResolution :: ConflictResolution
  realtimeSync :: bool
  syncOnSave :: bool
  lastSyncTime :: int
  notificationVerbosity :: Verbosity

record FileMetadata =
  md_path :: string
  githubBlobSha :: string
  lastModified :: int
  localChecksum :: string
  remoteContentChecksum :: string
  conflicted :: bool

text \<open>
  \<^verbatim>\<open>SyncState\<close>. A JavaScript \<^verbatim>\<open>Set\<close> or \<^verbatim>\<open>Map\<close> that the code iterates is a
  list in insertion order; one that is only looked up is a map. The field
  \<^verbatim>\<open>lastActiveFile\<close> belongs to the editor event handlers and is left out.
\<close>

record SyncState =
  inProgress :: bool
  lastSync :: int
  pendingFiles :: "string list"
  fileMetadata :: "string \<rightharpoonup> FileMetadata"
  pendingDeletions :: "(string \<times> string) list"
  recentlyPushedFiles :: "string \<rightharpoonup> int"
  recentlyDeletedFromRemote :: "string \<rightharpoonup> int"
  remoteChangesPendingForActiveFiles :: "string list"

text \<open>The plugin object: \<^verbatim>\<open>this.settings\<close> and \<^verbatim>\<open>this.syncState\<close>.\<close>

record Plugin =
  settings :: Settings
  syncState :: SyncState

text \<open>\<^verbatim>\<open>PluginData\<close>, the object handed to \<^verbatim>\<open>saveData\<close>.\<close>

record PluginData =
  pd_settings :: Settings
  pd_fileMetadata :: "string \<rightharpoonup> FileMetadata"
  pd_pendingDeletions :: "(string \<times> string) list"
  pd_remoteChangesPendingForActiveFiles :: "string list"

text \<open>\<^verbatim>\<open>Set.add\<close> and \<^verbatim>\<open>Set.delete\<close> on a set kept in insertion order.\<close>

definition setAdd :: "'a \<Rightarrow> 'a list \<Rightarrow> 'a list" where
  "setAdd x xs = (if x \<in> set xs then xs else xs @ [x])"

definition setDelete :: "'a \<Rightarrow> 'a list \<Rightarrow> 'a list" where
  "setDelete x xs = removeAll x xs"

text \<open>The grace periods, in milliseconds.\<close>

definition RECENTLY_PUSHED_GRACE_PERIOD_MS :: int where
  "RECENTLY_PUSHED_GRACE_PERIOD_MS = 90 * 1000"

definition RECENTLY_DELETED_GRACE_PERIOD_MS :: int where
  "RECENTLY_DELETED_GRACE_PERIOD_MS = 120 * 1000"

section \<open>The remote API and the host application\<close>

text \<open>
  A thrown JavaScript value: its \<^verbatim>\<open>message\<close> (empty when it has none) and its
  \<^verbatim>\<open>status\<close> property, if any.
\<close>

record JsError =
  message :: string
  status :: "nat option"

text \<open>
  The JSON bodies of the GitHub contents API. An object carries the fields the plugin
  reads: \<^verbatim>\<open>type\<close>, \<^verbatim>\<open>name\<close>, \<^verbatim>\<open>path\<close>, \<^verbatim>\<open>sha\<close>, the base64 \<^verbatim>\<open>content\<close> of a
  file, and \<^verbatim>\<open>content.sha\<close> of the answer to a PUT. A directory listing is an array.
\<close>

record RemoteItem =
  ri_type :: string
  ri_name :: string
  ri_path :: string
  ri_sha :: string

record JsonObject =
  o_type :: string
  o_name :: string
  o_path :: string
  o_sha :: "string option"
  o_content :: "string option"
  o_content_sha :: "string option"

datatype Json = JNull | JObject JsonObject | JArray "RemoteItem list"

record HttpResponse =
  r_status :: nat
  r_text :: string
  r_json :: Json

text \<open>
  A request to \<^verbatim>\<open>/repos/{owner}/{repo}/contents/{path}\<close>: the method, the remote path
  (before \<^verbatim>\<open>encodeFilePath\<close>), the \<^verbatim>\<open>ref\<close> query parameter and the JSON body.
\<close>

datatype Method = GET | PUT | DELETE

record RequestBody =
  b_message :: string
  b_content :: "string option"
  b_sha :: "string option"
  b_branch :: string

record Request =
  req_method :: Method
  req_token :: string
  req_owner :: string
  req_repo :: string
  req_path :: string
  req_ref :: "string option"
  req_body :: "RequestBody option"

datatype AbstractFile = IsFile TFile | IsFolder string

text \<open>
  Everything outside the plugin is reached through a platform over a world \<open>'w\<close>: the
  HTTP client \<^verbatim>\<open>requestUrl\<close>, timers and the clock, the vault, the editor, the conflict
  dialog, the plugin storage and the notices. A call that can throw returns a sum.
  \<^verbatim>\<open>getBasename\<close> is \<^verbatim>\<open>metadataCache.getFirstLinkpathDest(path, '')?.basename\<close>.
  \<^verbatim>\<open>calculateChecksum\<close> (SHA-256) and the base64 transport are parameters as well.
  \<^verbatim>\<open>askForResolution\<close> is \<^verbatim>\<open>new ConflictResolutionModal(...).askForResolution()\<close>: its
  promise is resolved by the three buttons only, so the answer \<open>None\<close> is a dialog that
  is dismissed without a choice: the promise never settles and the caller never
  resumes. Every function that awaits the dialog therefore returns an option, and
  \<open>None\<close> is a call that does not return.
\<close>

record 'w Platform =
  requestUrl :: "Request \<Rightarrow> 'w \<Rightarrow> (JsError + HttpResponse) \<times> 'w"
  setTimeout :: "rat \<Rightarrow> 'w \<Rightarrow> 'w"
  dateNow :: "'w \<Rightarrow> int"
  calculateChecksum :: "string \<Rightarrow> string"
  encodeBase64 :: "string \<Rightarrow> string"
  decodeBase64 :: "string option \<Rightarrow> JsError + string"
  getMarkdownFiles :: "'w \<Rightarrow> TFile list"
  getAbstractFileByPath :: "string \<Rightarrow> 'w \<Rightarrow> AbstractFile option"
  vaultRead :: "TFile \<Rightarrow> 'w \<Rightarrow> (JsError + string) \<times> 'w"
  vaultCachedRead :: "TFile \<Rightarrow> 'w \<Rightarrow> (JsError + string) \<times> 'w"
  vaultModify :: "TFile \<Rightarrow> string \<Rightarrow> 'w \<Rightarrow> (JsError + unit) \<times> 'w"
  vaultCreate :: "string \<Rightarrow> string \<Rightarrow> 'w \<Rightarrow> (JsError + unit) \<times> 'w"
  vaultDelete :: "TFile \<Rightarrow> 'w \<Rightarrow> (JsError + unit) \<times> 'w"
  createFolder :: "string \<Rightarrow> 'w \<Rightarrow> (JsError + unit) \<times> 'w"
  getActiveFile :: "'w \<Rightarrow> TFile option"
  getBasename :: "string \<Rightarrow> 'w \<Rightarrow> string option"
  askForResolution :: "string \<Rightarrow> string \<Rightarrow> string \<Rightarrow> 'w \<Rightarrow> (ConflictResolution \<times> 'w) option"
  saveData :: "PluginData \<Rightarrow> 'w \<Rightarrow> 'w"
  showNotice :: "string \<Rightarrow> 'w \<Rightarrow> 'w"

section \<open>The remote client\<close>

text \<open>The retry test of \<^verbatim>\<open>makeGitHubRequest\<close>.\<close>

definition isRetryableError :: "JsError \<Rightarrow> bool" where
  "isRetryableError error =
     ((message error \<noteq> [] \<and>
        (includesStr (message error) ''net::ERR_TIMED_OUT''
         \<or> includesStr (message error) ''Failed to fetch''))
      \<or> (case status error of
            None \<Rightarrow> False
          | Some s \<Rightarrow> s \<noteq> 0 \<and> s \<in> set [500, 502, 503, 504, 409]))"

text \<open>The error thrown inside the \<^verbatim>\<open>try\<close> for a response with status 400 or more.\<close>

definition apiError :: "HttpResponse \<Rightarrow> JsError" where
  "apiError response =
     \<lparr>message = ''GitHub API Error: '' @ showNat (r_status response) @ '' - '' @ r_text response,
      status = Some (r_status response)\<rparr>"

text \<open>
  The body of the \<^verbatim>\<open>try\<close>: what one call of \<^verbatim>\<open>requestUrl\<close> amounts to, the JSON body
  or the error that reaches the \<^verbatim>\<open>catch\<close>.
\<close>

definition responseOutcome :: "JsError + HttpResponse \<Rightarrow> JsError + Json" where
  "responseOutcome r =
     (case r of
        Inl e \<Rightarrow> Inl e
      | Inr response \<Rightarrow>
          if r_status response \<ge> 400 then Inl (apiError response)
          else Inr (r_json response))"

text \<open>
  The \<^verbatim>\<open>while (attempts < retries)\<close> loop of \<^verbatim>\<open>makeGitHubRequest\<close>. The delay is a
  rational number of milliseconds: \<^verbatim>\<open>delay *= 1.5\<close> is exact on the doubles that occur.
  The \<^verbatim>\<open>throw newError\<close> of the last branch sits in a \<^verbatim>\<open>try\<close> whose \<^verbatim>\<open>catch\<close> discards
  it, so the original error is what leaves the function.
\<close>

function makeGitHubRequest_loop ::
  "'w Platform \<Rightarrow> Request \<Rightarrow> nat \<Rightarrow> rat \<Rightarrow> nat \<Rightarrow> 'w \<Rightarrow> (JsError + Json) \<times> 'w" where
  "makeGitHubRequest_loop P req retries delay attempts w =
     (if attempts < retries then
        (let attempts' = attempts + 1;
             (r, w1) = requestUrl P req w
         in case responseOutcome r of
              Inr json \<Rightarrow> (Inr json, w1)
            | Inl error \<Rightarrow>
                if attempts' < retries \<and> isRetryableError error
                then makeGitHubRequest_loop P req retries (delay * (3 / 2)) attempts'
                       (setTimeout P delay w1)
                else (Inl error, w1))
      else (Inl \<lparr>message = ''Max retries reached for GitHub request without successful response.'',
                 status = None\<rparr>, w))"
  by pat_completeness auto
termination
  by (relation "measure (\<lambda>(P, req, retries, delay, attempts, w). retries - attempts)") auto

declare makeGitHubRequest_loop.simps [simp del]

text \<open>\<^verbatim>\<open>makeGitHubRequest(endpoint, options, retries = 3, delay = 1000)\<close>\<close>

definition makeGitHubRequest ::
  "'w Platform \<Rightarrow> Request \<Rightarrow> nat \<Rightarrow> rat \<Rightarrow> 'w \<Rightarrow> (JsError + Json) \<times> 'w" where
  "makeGitHubRequest P req retries delay w = makeGitHubRequest_loop P req retries delay 0 w"

text \<open>The requests the engine builds from its settings.\<close>

definition contentsRequest ::
  "Plugin \<Rightarrow> Method \<Rightarrow> string \<Rightarrow> string option \<Rightarrow> RequestBody option \<Rightarrow> Request" where
  "contentsRequest st m p r b =
     \<lparr>req_method = m, req_token = githubToken (settings st), req_owner = repoOwner (settings st),
      req_repo = repoName (settings st), req_path = p, req_ref = r, req_body = b\<rparr>"

definition getContents :: "Plugin \<Rightarrow> string \<Rightarrow> Request" where
  "getContents st p = contentsRequest st GET p (Some (branch (settings st))) None"

section \<open>The delete protocol\<close>

definition markRecentlyDeleted :: "string \<Rightarrow> int \<Rightarrow> Plugin \<Rightarrow> Plugin" where
  "markRecentlyDeleted filePath t st =
     st\<lparr>syncState := (syncState st)\<lparr>recentlyDeletedFromRemote :=
           (recentlyDeletedFromRemote (syncState st))(filePath \<mapsto> t)\<rparr>\<rparr>"

definition deleteRequest :: "Plugin \<Rightarrow> string \<Rightarrow> string \<Rightarrow> string \<Rightarrow> Request" where
  "deleteRequest st filePath remotePath currentRemoteSha =
     contentsRequest st DELETE remotePath None
       (Some \<lparr>b_message = ''Delete '' @ filePath @ '' (Obsidian SyncMate)'', b_content = None,
              b_sha = Some currentRemoteSha, b_branch = branch (settings st)\<rparr>)"

text \<open>
  The \<^verbatim>\<open>for (let i = 0; i < maxRetries; i++)\<close> loop of \<^verbatim>\<open>deleteFileFromGitHub\<close>, from
  iteration \<open>i\<close> on. \<open>Inr ()\<close> is a normal return, \<open>Inl error\<close> a throw.
\<close>

function deleteLoop ::
  "'w Platform \<Rightarrow> Plugin \<Rightarrow> string \<Rightarrow> nat \<Rightarrow> nat \<Rightarrow> 'w \<Rightarrow> (JsError + unit) \<times> Plugin \<times> 'w" where
  "deleteLoop P st filePath maxRetries i w =
     (if i < maxRetries then
        (let remotePath = getRemotePath (syncPath (settings st)) filePath;
             (pre, w1) = makeGitHubRequest P (getContents st remotePath) 3 1000 w
         in case pre of
              Inl error \<Rightarrow>
                if status error = Some 404
                then (Inr (), markRecentlyDeleted filePath (dateNow P w1) st, w1)
                else if i < maxRetries - 1
                then deleteLoop P st filePath maxRetries (i + 1)
                       (setTimeout P (1000 * (of_nat i + 1)) w1)
                else (Inl error, st, w1)
            | Inr existingFileResponse \<Rightarrow>
                (let currentRemoteSha =
                       (case existingFileResponse of JObject obj \<Rightarrow> o_sha obj | _ \<Rightarrow> None)
                 in case currentRemoteSha of
                      None \<Rightarrow> (Inr (), markRecentlyDeleted filePath (dateNow P w1) st, w1)
                    | Some sha \<Rightarrow>
                        if sha = [] then (Inr (), markRecentlyDeleted filePath (dateNow P w1) st, w1)
                        else (let (del, w2) = makeGitHubRequest P
                                                (deleteRequest st filePath remotePath sha) 3 1000 w1
                              in case del of
                                   Inr _ \<Rightarrow> (Inr (), markRecentlyDeleted filePath (dateNow P w2) st, w2)
                                 | Inl error \<Rightarrow>
                                     if status error = Some 409 \<and> i < maxRetries - 1
                                     then deleteLoop P st filePath maxRetries (i + 1)
                                            (setTimeout P (1000 * (of_nat i + 1)) w2)
                                     else if status error = Some 404
                                     then (Inr (), markRecentlyDeleted filePath (dateNow P w2) st, w2)
                                     else (Inl error, st, w2))))
      else (Inr (), st, w))"
  by pat_completeness auto
termination
  by (relation "measure (\<lambda>(P, st, filePath, maxRetries, i, w). maxRetries - i)") auto

declare deleteLoop.simps [simp del]

text \<open>\<^verbatim>\<open>deleteFileFromGitHub(filePath, initialFileSha, maxRetries = 3)\<close>\<close>

definition deleteFileFromGitHub ::
  "'w Platform \<Rightarrow> Plugin \<Rightarrow> string \<Rightarrow> string \<Rightarrow> nat \<Rightarrow> 'w \<Rightarrow> (JsError + unit) \<times> Plugin \<times> 'w" where
  "deleteFileFromGitHub P st filePath initialFileSha maxRetries w =
     deleteLoop P st filePath maxRetries 0 w"

section \<open>Observing the remote calls\<close>

text \<open>
  To state what a protocol sends and how long it waits, a platform is wrapped so that
  the world also carries the list of HTTP exchanges and waits, in order. The wrapper
  changes no answer of the platform.
\<close>

datatype Event = Requested Request "JsError + HttpResponse" | Slept rat

definition logged :: "'w Platform \<Rightarrow> ('w \<times> Event list) Platform" where
  "logged P =
     \<lparr>requestUrl = (\<lambda>req (w, tr). let (r, w') = requestUrl P req w
                                   in (r, (w', tr @ [Requested req r]))),
      setTimeout = (\<lambda>d (w, tr). (setTimeout P d w, tr @ [Slept d])),
      dateNow = (\<lambda>(w, tr). dateNow P w),
      calculateChecksum = calculateChecksum P,
      encodeBase64 = encodeBase64 P,
      decodeBase64 = decodeBase64 P,
      getMarkdownFiles = (\<lambda>(w, tr). getMarkdownFiles P w),
      getAbstractFileByPath = (\<lambda>p (w, tr). getAbstractFileByPath P p w),
      vaultRead = (\<lambda>f (w, tr). let (r, w') = vaultRead P f w in (r, (w', tr))),
      vaultCachedRead = (\<lambda>f (w, tr). let (r, w') = vaultCachedRead P f w in (r, (w', tr))),
      vaultModify = (\<lambda>f c (w, tr). let (r, w') = vaultModify P f c w in (r, (w', tr))),
      vaultCreate = (\<lambda>p c (w, tr). let (r, w') = vaultCreate P p c w in (r, (w', tr))),
      vaultDelete = (\<lambda>f (w, tr). let (r, w') = vaultDelete P f w in (r, (w', tr))),
      createFolder = (\<lambda>p (w, tr). let (r, w') = createFolder P p w in (r, (w', tr))),
      getActiveFile = (\<lambda>(w, tr). getActiveFile P w),
      getBasename = (\<lambda>p (w, tr). getBasename P p w),
      askForResolution = (\<lambda>p l r (w, tr). case askForResolution P p l r w of
                                              None \<Rightarrow> None
                                            | Some (c, w') \<Rightarrow> Some (c, (w', tr))),
      saveData = (\<lambda>d (w, tr). (saveData P d w, tr)),
      showNotice = (\<lambda>m (w, tr). (showNotice P m w, tr))\<rparr>"

text \<open>
  The exchanges of one call of \<^verbatim>\<open>makeGitHubRequest\<close> that received the raw answers
  \<open>outs\<close>: the same request each time, a wait between two attempts, each wait one and a
  half times the one before.
\<close>

fun retryTrace :: "Request \<Rightarrow> (JsError + HttpResponse) list \<Rightarrow> rat \<Rightarrow> Event list" where
  "retryTrace req [] d = []"
| "retryTrace req [r] d = [Requested req r]"
| "retryTrace req (r # r' # rs) d =
     Requested req r # Slept d # retryTrace req (r' # rs) (d * (3 / 2))"

definition retryableFailure :: "JsError + HttpResponse \<Rightarrow> bool" where
  "retryableFailure r =
     (case responseOutcome r of Inl e \<Rightarrow> isRetryableError e | Inr _ \<Rightarrow> False)"

text \<open>
  A platform for closed instances: the world is the list of answers the server will
  give, in order; an exhausted list is a network failure.
\<close>

definition scripted :: "((JsError + HttpResponse) list) Platform" where
  "scripted =
     \<lparr>requestUrl = (\<lambda>req w. case w of
                        [] \<Rightarrow> (Inl \<lparr>message = ''Failed to fetch'', status = None\<rparr>, [])
                      | r # rest \<Rightarrow> (r, rest)),
      setTimeout = (\<lambda>d w. w),
      dateNow = (\<lambda>w. 1000000 - int (length w)),
      calculateChecksum = (\<lambda>c. c),
      encodeBase64 = (\<lambda>c. c),
      decodeBase64 = (\<lambda>c. case c of
                        None \<Rightarrow> Inl \<lparr>message = ''Failed to decode base64 string'', status = None\<rparr>
                      | Some t \<Rightarrow> Inr t),
      getMarkdownFiles = (\<lambda>w. []),
      getAbstractFileByPath = (\<lambda>p w. None),
      vaultRead = (\<lambda>f w. (Inr [], w)),
      vaultCachedRead = (\<lambda>f w. (Inr [], w)),
      vaultModify = (\<lambda>f c w. (Inr (), w)),
      vaultCreate = (\<lambda>p c w. (Inr (), w)),
      vaultDelete = (\<lambda>f w. (Inr (), w)),
      createFolder = (\<lambda>p w. (Inr (), w)),
      getActiveFile = (\<lambda>w. None),
      getBasename = (\<lambda>p w. None),
      askForResolution = (\<lambda>p l r w. Some (Local, w)),
      saveData = (\<lambda>d w. w),
      showNotice = (\<lambda>m w. w)\<rparr>"

definition httpResponse :: "nat \<Rightarrow> string \<Rightarrow> Json \<Rightarrow> JsError + HttpResponse" where
  "httpResponse s t j = Inr \<lparr>r_status = s, r_text = t, r_json = j\<rparr>"

definition exampleRequest :: Request where
  "exampleRequest =
     \<lparr>req_method = GET, req_token = ''t'', req_owner = ''o'', req_repo = ''r'',
      req_path = ''a.md'', req_ref = Some ''main'', req_body = None\<rparr>"

text \<open>
  The two remote calls of one iteration of \<^verbatim>\<open>deleteFileFromGitHub\<close>, and the reading
  of \<^verbatim>\<open>existingFileResponse.sha\<close> (absent for \<^verbatim>\<open>null\<close> and for an array).
\<close>

definition preCheck :: "'w Platform \<Rightarrow> Plugin \<Rightarrow> string \<Rightarrow> 'w \<Rightarrow> (JsError + Json) \<times> 'w" where
  "preCheck P st filePath w =
     makeGitHubRequest P (getContents st (getRemotePath (syncPath (settings st)) filePath)) 3 1000 w"

definition deleteCall ::
  "'w Platform \<Rightarrow> Plugin \<Rightarrow> string \<Rightarrow> string \<Rightarrow> 'w \<Rightarrow> (JsError + Json) \<times> 'w" where
  "deleteCall P st filePath sha w =
     makeGitHubRequest P
       (deleteRequest st filePath (getRemotePath (syncPath (settings st)) filePath) sha) 3 1000 w"

definition currentSha :: "Json \<Rightarrow> string option" where
  "currentSha j = (case j of JObject obj \<Rightarrow> o_sha obj | _ \<Rightarrow> None)"

text \<open>
  What one call of \<^verbatim>\<open>makeGitHubRequest\<close> with its default bounds can receive: one to
  three answers, every answer but the last a failure that the client retries, and fewer
  than three only when the last one is not retried.
\<close>

definition clientAttempts :: "(JsError + HttpResponse) list \<Rightarrow> bool" where
  "clientAttempts outs =
     (outs \<noteq> [] \<and> length outs \<le> 3 \<and> list_all retryableFailure (butlast outs)
      \<and> (length outs < 3 \<longrightarrow> \<not> retryableFailure (last outs)))"

text \<open>
  The exchanges of the rounds \<open>i\<close>, \<open>i + 1\<close>, ... of the \<^verbatim>\<open>for\<close> loop of
  \<^verbatim>\<open>deleteFileFromGitHub\<close> and the outcome of the call, one rule for each way through
  the loop body: \<open>fetch\<close> is the GET of the pre-check, \<open>submit sha\<close> the DELETE that
  carries the revision id \<open>sha\<close>.
\<close>

inductive deleteRounds ::
  "Request \<Rightarrow> (string \<Rightarrow> Request) \<Rightarrow> nat \<Rightarrow> nat \<Rightarrow> Event list \<Rightarrow> JsError + unit \<Rightarrow> bool"
  for fetch :: Request and submit :: "string \<Rightarrow> Request" and maxRetries :: nat where
  gone_at_fetch:
    "i < maxRetries \<Longrightarrow> clientAttempts fetched
     \<Longrightarrow> responseOutcome (last fetched) = Inl e \<Longrightarrow> status e = Some 404
     \<Longrightarrow> deleteRounds fetch submit maxRetries i (retryTrace fetch fetched 1000) (Inr ())"
| fetch_again:
    "i < maxRetries - 1 \<Longrightarrow> clientAttempts fetched
     \<Longrightarrow> responseOutcome (last fetched) = Inl e \<Longrightarrow> status e \<noteq> Some 404
     \<Longrightarrow> deleteRounds fetch submit maxRetries (i + 1) rest res
     \<Longrightarrow> deleteRounds fetch submit maxRetries i
           (retryTrace fetch fetched 1000 @ Slept (1000 * (of_nat i + 1)) # rest) res"
| fetch_fails:
    "i < maxRetries \<Longrightarrow> \<not> i < maxRetries - 1 \<Longrightarrow> clientAttempts fetched
     \<Longrightarrow> responseOutcome (last fetched) = Inl e \<Longrightarrow> status e \<noteq> Some 404
     \<Longrightarrow> deleteRounds fetch submit maxRetries i (retryTrace fetch fetched 1000) (Inl e)"
| nothing_to_delete:
    "i < maxRetries \<Longrightarrow> clientAttempts fetched
     \<Longrightarrow> responseOutcome (last fetched) = Inr j
     \<Longrightarrow> currentSha j = None \<or> currentSha j = Some []
     \<Longrightarrow> deleteRounds fetch submit maxRetries i (retryTrace fetch fetched 1000) (Inr ())"
| deleted:
    "i < maxRetries \<Longrightarrow> clientAttempts fetched
     \<Longrightarrow> responseOutcome (last fetched) = Inr j \<Longrightarrow> currentSha j = Some sha \<Longrightarrow> sha \<noteq> []
     \<Longrightarrow> clientAttempts submitted \<Longrightarrow> responseOutcome (last submitted) = Inr j'
     \<Longrightarrow> deleteRounds fetch submit maxRetries i
           (retryTrace fetch fetched 1000 @ retryTrace (submit sha) submitted 1000) (Inr ())"
| conflict_again:
    "i < maxRetries - 1 \<Longrightarrow> clientAttempts fetched
     \<Longrightarrow> responseOutcome (last fetched) = Inr j \<Longrightarrow> currentSha j = Some sha \<Longrightarrow> sha \<noteq> []
     \<Longrightarrow> clientAttempts submitted \<Longrightarrow> responseOutcome (last submitted) = Inl e
     \<Longrightarrow> status e = Some 409
     \<Longrightarrow> deleteRounds fetch submit maxRetries (i + 1) rest res
     \<Longrightarrow> deleteRounds fetch submit maxRetries i
           (retryTrace fetch fetched 1000 @ retryTrace (submit sha) submitted 1000
              @ Slept (1000 * (of_nat i + 1)) # rest) res"
| gone_at_delete:
    "i < maxRetries \<Longrightarrow> clientAttempts fetched
     \<Longrightarrow> responseOutcome (last fetched) = Inr j \<Longrightarrow> currentSha j = Some sha \<Longrightarrow> sha \<noteq> []
     \<Longrightarrow> clientAttempts submitted \<Longrightarrow> responseOutcome (last submitted) = Inl e
     \<Longrightarrow> status e = Some 404
     \<Longrightarrow> deleteRounds fetch submit maxRetries i
           (retryTrace fetch fetched 1000 @ retryTrace (submit sha) submitted 1000) (Inr ())"
| delete_fails:
    "i < maxRetries \<Longrightarrow> clientAttempts fetched
     \<Longrightarrow> responseOutcome (last fetched) = Inr j \<Longrightarrow> currentSha j = Some sha \<Longrightarrow> sha \<noteq> []
     \<Longrightarrow> clientAttempts submitted \<Longrightarrow> responseOutcome (last submitted) = Inl e
     \<Longrightarrow> status e \<noteq> Some 404 \<Longrightarrow> \<not> (status e = Some 409 \<and> i < maxRetries - 1)
     \<Longrightarrow> deleteRounds fetch submit maxRetries i
           (retryTrace fetch fetched 1000 @ retryTrace (submit sha) submitted 1000) (Inl e)"

text \<open>\<^verbatim>\<open>DEFAULT_SETTINGS\<close>, and the \<^verbatim>\<open>syncState\<close> that \<^verbatim>\<open>onload\<close> creates.\<close>

definition DEFAULT_SETTINGS :: Settings where
  "DEFAULT_SETTINGS =
     \<lparr>githubToken = [], repoOwner = [], repoName = [], branch = ''main'', syncPath = [],
      autoSync = True, syncInterval = 300000, conflictResolution = Ask, realtimeSync = False,
      syncOnSave = False, lastSyncTime = 0, notificationVerbosity = Standard\<rparr>"

definition initialSyncState :: SyncState where
  "initialSyncState =
     \<lparr>inProgress = False, lastSync = 0, pendingFiles = [], fileMetadata = Map.empty,
      pendingDeletions = [], recentlyPushedFiles = Map.empty,
      recentlyDeletedFromRemote = Map.empty, remoteChangesPendingForActiveFiles = []\<rparr>"

text \<open>Values for closed instances: a configured plugin and the JSON of a remote file.\<close>

definition examplePlugin :: Plugin where
  "examplePlugin =
     \<lparr>settings = DEFAULT_SETTINGS\<lparr>githubToken := ''t'', repoOwner := ''o'', repoName := ''r''\<rparr>,
      syncState = initialSyncState\<rparr>"

definition fileJson :: "string \<Rightarrow> string \<Rightarrow> string \<Rightarrow> Json" where
  "fileJson p sha content =
     JObject \<lparr>o_type = ''file'', o_name = p, o_path = p, o_sha = Some sha,
              o_content = Some content, o_content_sha = None\<rparr>"

text \<open>
  A server that answers the first DELETE and its two retries with 409, then delivers a
  new revision id and accepts the DELETE that carries it.
\<close>

definition conflictThenOk :: "(JsError + HttpResponse) list" where
  "conflictThenOk =
     [httpResponse 200 ''ok'' (fileJson ''a.md'' ''s1'' ''QQ==''),
      httpResponse 409 ''conflict'' JNull, httpResponse 409 ''conflict'' JNull,
      httpResponse 409 ''conflict'' JNull,
      httpResponse 200 ''ok'' (fileJson ''a.md'' ''s2'' ''Qg==''),
      httpResponse 200 ''ok'' JNull]"

text \<open>
  A server that answers every DELETE with 409, and the tests that pick the GET and the
  DELETE exchanges out of a list of exchanges.
\<close>

definition alwaysConflict :: "(JsError + HttpResponse) list" where
  "alwaysConflict =
     [httpResponse 200 ''ok'' (fileJson ''a.md'' ''s1'' ''QQ==''),
      httpResponse 409 ''conflict'' JNull, httpResponse 409 ''conflict'' JNull,
      httpResponse 409 ''conflict'' JNull,
      httpResponse 200 ''ok'' (fileJson ''a.md'' ''s1'' ''QQ==''),
      httpResponse 409 ''conflict'' JNull, httpResponse 409 ''conflict'' JNull,
      httpResponse 409 ''conflict'' JNull,
      httpResponse 200 ''ok'' (fileJson ''a.md'' ''s1'' ''QQ==''),
      httpResponse 409 ''conflict'' JNull, httpResponse 409 ''conflict'' JNull,
      httpResponse 409 ''conflict'' JNull]"

definition isDelete :: "Event \<Rightarrow> bool" where
  "isDelete ev = (case ev of Requested q r \<Rightarrow> req_method q = DELETE | Slept d \<Rightarrow> False)"

definition isGet :: "Event \<Rightarrow> bool" where
  "isGet ev = (case ev of Requested q r \<Rightarrow> req_method q = GET | Slept d \<Rightarrow> False)"

section \<open>Engine state helpers and persistence\<close>

text \<open>Local and remote file states as the engine keeps them in its maps.\<close>

record LocalFileState =
  lf_file :: TFile
  lf_content :: string
  lf_checksum :: string
  lf_mtime :: int

record RemoteFileInfo =
  rf_path :: string
  rf_sha :: string
  rf_type :: string

text \<open>The entry of the \<^verbatim>\<open>conflicts\<close> map: both versions and the metadata.\<close>

record Conflict =
  c_local :: LocalFileState
  c_remote :: RemoteFileInfo
  c_remoteContent :: string
  c_metadata :: FileMetadata

definition addPending :: "string \<Rightarrow> Plugin \<Rightarrow> Plugin" where
  "addPending p st =
     st\<lparr>syncState := (syncState st)\<lparr>pendingFiles := setAdd p (pendingFiles (syncState st))\<rparr>\<rparr>"

definition deletePending :: "string \<Rightarrow> Plugin \<Rightarrow> Plugin" where
  "deletePending p st =
     st\<lparr>syncState := (syncState st)\<lparr>pendingFiles := setDelete p (pendingFiles (syncState st))\<rparr>\<rparr>"

definition setMetadata :: "string \<Rightarrow> FileMetadata \<Rightarrow> Plugin \<Rightarrow> Plugin" where
  "setMetadata p m st =
     st\<lparr>syncState := (syncState st)\<lparr>fileMetadata := (fileMetadata (syncState st))(p \<mapsto> m)\<rparr>\<rparr>"

definition deleteMetadata :: "string \<Rightarrow> Plugin \<Rightarrow> Plugin" where
  "deleteMetadata p st =
     st\<lparr>syncState := (syncState st)\<lparr>fileMetadata := (fileMetadata (syncState st))(p := None)\<rparr>\<rparr>"

definition deleteRemoteChangePending :: "string \<Rightarrow> Plugin \<Rightarrow> Plugin" where
  "deleteRemoteChangePending p st =
     st\<lparr>syncState := (syncState st)\<lparr>remoteChangesPendingForActiveFiles :=
           setDelete p (remoteChangesPendingForActiveFiles (syncState st))\<rparr>\<rparr>"

text \<open>\<^verbatim>\<open>savePluginData()\<close>\<close>

definition savePluginData :: "'w Platform \<Rightarrow> Plugin \<Rightarrow> 'w \<Rightarrow> 'w" where
  "savePluginData P st w =
     saveData P
       \<lparr>pd_settings = settings st,
        pd_fileMetadata = fileMetadata (syncState st),
        pd_pendingDeletions = pendingDeletions (syncState st),
        pd_remoteChangesPendingForActiveFiles = remoteChangesPendingForActiveFiles (syncState st)\<rparr>
       w"

text \<open>\<^verbatim>\<open>validateSettings()\<close>: the notice on failure, and the verdict.\<close>

definition validateSettings :: "'w Platform \<Rightarrow> Plugin \<Rightarrow> 'w \<Rightarrow> bool \<times> 'w" where
  "validateSettings P st w =
     (if githubToken (settings st) = [] \<or> repoOwner (settings st) = [] \<or> repoName (settings st) = []
      then (False, showNotice P ''Please configure GitHub settings first (Token, Owner, Repo Name).'' w)
      else (True, w))"

section \<open>The rename listener\<close>

text \<open>\<^verbatim>\<open>this.syncState.pendingDeletions.set(path, sha)\<close>\<close>

definition setPendingDeletion :: "string \<Rightarrow> string \<Rightarrow> Plugin \<Rightarrow> Plugin" where
  "setPendingDeletion p sha st =
     st\<lparr>syncState := (syncState st)\<lparr>pendingDeletions :=
           AList.update p sha (pendingDeletions (syncState st))\<rparr>\<rparr>"

text \<open>
  \<^verbatim>\<open>onFileRenamed(file, oldPath)\<close>: the old path is queued for remote deletion when it
  was known under a revision id, and the new path gets metadata that inherits this id
  and is marked for push. A failed read of the renamed file rejects the handler after
  the old path has been cleared. The debounced run that the handler schedules when
  \<^verbatim>\<open>realtimeSync\<close> or \<^verbatim>\<open>autoSync\<close> is set is a timer and is left out.
\<close>

definition onFileRenamed ::
  "'w Platform \<Rightarrow> TFile \<Rightarrow> string \<Rightarrow> Plugin \<Rightarrow> 'w \<Rightarrow> (JsError + unit) \<times> Plugin \<times> 'w" where
  "onFileRenamed P file oldPath st w =
     (let oldMetadata = fileMetadata (syncState st) oldPath;
          st1 = (case oldMetadata of
                   Some m \<Rightarrow> if githubBlobSha m \<noteq> []
                             then setPendingDeletion oldPath (githubBlobSha m) st else st
                 | None \<Rightarrow> st);
          st2 = deleteRemoteChangePending oldPath (deleteMetadata oldPath (deletePending oldPath st1))
      in case vaultRead P file w of
           (Inl error, w1) \<Rightarrow> (Inl error, st2, w1)
         | (Inr content, w1) \<Rightarrow>
             (let newMetadata =
                    \<lparr>md_path = tf_path file,
                     githubBlobSha = (case oldMetadata of Some m \<Rightarrow> githubBlobSha m | None \<Rightarrow> []),
                     lastModified = tf_mtime file,
                     localChecksum = calculateChecksum P content,
                     remoteContentChecksum =
                       (case oldMetadata of Some m \<Rightarrow> remoteContentChecksum m | None \<Rightarrow> []),
                     conflicted = False\<rparr>;
                  st3 = addPending (tf_path file) (setMetadata (tf_path file) newMetadata st2)
              in (Inr (), st3, savePluginData P st3 w1)))"

text \<open>
  The listener that \<^verbatim>\<open>setupEventListeners\<close> registers for \<^verbatim>\<open>rename\<close>, for a file (not a
  folder): the handler runs when the renamed file or its old path is tracked.
\<close>

definition renameListener ::
  "'w Platform \<Rightarrow> TFile \<Rightarrow> string \<Rightarrow> Plugin \<Rightarrow> 'w \<Rightarrow> (JsError + unit) \<times> Plugin \<times> 'w" where
  "renameListener P file oldPath st w =
     (if shouldSyncFile (syncPath (settings st)) file \<or> shouldSyncPath (syncPath (settings st)) oldPath
      then onFileRenamed P file oldPath st w
      else (Inr (), st, w))"

section \<open>Reading the local and the remote state\<close>

text \<open>The loop of \<^verbatim>\<open>getLocalFileStates\<close>; a file that cannot be read is skipped.\<close>

fun localStatesLoop ::
  "'w Platform \<Rightarrow> Plugin \<Rightarrow> TFile list \<Rightarrow> (string \<times> LocalFileState) list \<Rightarrow> 'w
   \<Rightarrow> (string \<times> LocalFileState) list \<times> 'w" where
  "localStatesLoop P st [] fileStates w = (fileStates, w)"
| "localStatesLoop P st (file # files) fileStates w =
     (if shouldSyncFile (syncPath (settings st)) file
      then (case vaultCachedRead P file w of
              (Inr content, w1) \<Rightarrow>
                localStatesLoop P st files
                  (AList.update (tf_path file)
                     \<lparr>lf_file = file, lf_content = content,
                      lf_checksum = calculateChecksum P content, lf_mtime = tf_mtime file\<rparr>
                     fileStates) w1
            | (Inl error, w1) \<Rightarrow> localStatesLoop P st files fileStates w1)
      else localStatesLoop P st files fileStates w)"

definition getLocalFileStates ::
  "'w Platform \<Rightarrow> Plugin \<Rightarrow> 'w \<Rightarrow> (string \<times> LocalFileState) list \<times> 'w" where
  "getLocalFileStates P st w = localStatesLoop P st (getMarkdownFiles P w) [] w"

text \<open>
  \<^verbatim>\<open>processRemoteDirectory(items, remoteStates)\<close>. The walk descends as deep as the server
  nests directories, so it carries fuel for the depth: \<open>None\<close> is a walk that did not
  come back within it. A subdirectory whose listing fails is skipped.
\<close>

fun processRemoteDirectory ::
  "nat \<Rightarrow> 'w Platform \<Rightarrow> Plugin \<Rightarrow> RemoteItem list \<Rightarrow> (string \<times> RemoteFileInfo) list \<Rightarrow> 'w
   \<Rightarrow> ((string \<times> RemoteFileInfo) list \<times> 'w) option" where
  "processRemoteDirectory n P st [] remoteStates w = Some (remoteStates, w)"
| "processRemoteDirectory n P st (item # items) remoteStates w =
     (if ri_type item = ''file'' \<and> isMarkdownFile (ri_name item)
      then processRemoteDirectory n P st items
             (AList.update (getLocalPath (syncPath (settings st)) (ri_path item))
                \<lparr>rf_path = ri_path item, rf_sha = ri_sha item, rf_type = ri_type item\<rparr>
                remoteStates) w
      else if ri_type item = ''dir''
      then (case n of
              0 \<Rightarrow> None
            | Suc m \<Rightarrow>
                (case makeGitHubRequest P (getContents st (ri_path item)) 3 1000 w of
                   (Inr (JArray subContents), w1) \<Rightarrow>
                     (case processRemoteDirectory m P st subContents remoteStates w1 of
                        None \<Rightarrow> None
                      | Some (remoteStates1, w2) \<Rightarrow>
                          processRemoteDirectory n P st items remoteStates1 w2)
                 | (_, w1) \<Rightarrow> processRemoteDirectory n P st items remoteStates w1))
      else processRemoteDirectory n P st items remoteStates w)"

text \<open>\<^verbatim>\<open>s.trim()\<close> on the whitespace characters of the first 256 code units.\<close>

definition isWhitespace :: "char \<Rightarrow> bool" where
  "isWhitespace c = (c \<in> set [CHR '' '', CHR 0x09, CHR 0x0A, CHR 0x0B, CHR 0x0C, CHR 0x0D, CHR 0xA0])"

definition trim :: "string \<Rightarrow> string" where
  "trim s = rev (dropWhile isWhitespace (rev (dropWhile isWhitespace s)))"

text \<open>
  The first part of \<^verbatim>\<open>getRemoteFileStates\<close>: the listing \<^verbatim>\<open>remoteStatesFromApi\<close>, or the
  error that the \<^verbatim>\<open>catch\<close> receives. Reading \<^verbatim>\<open>contents.type\<close> of \<^verbatim>\<open>null\<close> is a
  \<^verbatim>\<open>TypeError\<close>.
\<close>

definition listRemote ::
  "nat \<Rightarrow> 'w Platform \<Rightarrow> Plugin \<Rightarrow> 'w \<Rightarrow> ((JsError + (string \<times> RemoteFileInfo) list) \<times> 'w) option" where
  "listRemote n P st w =
     (let syncPathClean = stripSlashes (trim (syncPath (settings st)))
      in case makeGitHubRequest P (getContents st syncPathClean) 3 1000 w of
           (Inl error, w1) \<Rightarrow> Some (Inl error, w1)
         | (Inr (JArray contents), w1) \<Rightarrow>
             (case processRemoteDirectory n P st contents [] w1 of
                None \<Rightarrow> None
              | Some (remoteStates, w2) \<Rightarrow> Some (Inr remoteStates, w2))
         | (Inr (JObject contents), w1) \<Rightarrow>
             (if o_type contents = ''file'' \<and> isMarkdownFile (o_name contents)
              then Some (Inr [(getLocalPath (syncPath (settings st)) (o_path contents),
                               \<lparr>rf_path = o_path contents,
                                rf_sha = (case o_sha contents of Some s \<Rightarrow> s | None \<Rightarrow> []),
                                rf_type = o_type contents\<rparr>)], w1)
              else Some (Inr [], w1))
         | (Inr JNull, w1) \<Rightarrow>
             Some (Inl \<lparr>message = ''Cannot read properties of null (reading type)'',
                        status = None\<rparr>, w1))"

text \<open>
  The loop that builds \<^verbatim>\<open>finalRemoteStates\<close>: a recently deleted path is filtered out,
  and a recently pushed path whose listed revision id differs from the one in the
  metadata is reported under the id of the metadata.
\<close>

definition recentlyDeletedAt :: "Plugin \<Rightarrow> int \<Rightarrow> string \<Rightarrow> bool" where
  "recentlyDeletedAt st now p =
     (case recentlyDeletedFromRemote (syncState st) p of
        None \<Rightarrow> False
      | Some deletedTimestamp \<Rightarrow>
          deletedTimestamp \<noteq> 0 \<and> now - deletedTimestamp < RECENTLY_DELETED_GRACE_PERIOD_MS)"

definition recentlyPushedAt :: "Plugin \<Rightarrow> int \<Rightarrow> string \<Rightarrow> bool" where
  "recentlyPushedAt st now p =
     (case recentlyPushedFiles (syncState st) p of
        None \<Rightarrow> False
      | Some pushedTimestamp \<Rightarrow>
          pushedTimestamp \<noteq> 0 \<and> now - pushedTimestamp < RECENTLY_PUSHED_GRACE_PERIOD_MS)"

fun finalRemoteStates ::
  "Plugin \<Rightarrow> int \<Rightarrow> (string \<times> RemoteFileInfo) list \<Rightarrow> (string \<times> RemoteFileInfo) list
   \<Rightarrow> (string \<times> RemoteFileInfo) list" where
  "finalRemoteStates st now [] final = final"
| "finalRemoteStates st now ((p, fileInfoFromApi) # rest) final =
     (if recentlyDeletedAt st now p then finalRemoteStates st now rest final
      else (case fileMetadata (syncState st) p of
              Some metadata \<Rightarrow>
                if recentlyPushedAt st now p \<and> githubBlobSha metadata \<noteq> []
                   \<and> githubBlobSha metadata \<noteq> rf_sha fileInfoFromApi
                then finalRemoteStates st now rest
                       (AList.update p (fileInfoFromApi\<lparr>rf_sha := githubBlobSha metadata\<rparr>) final)
                else finalRemoteStates st now rest (AList.update p fileInfoFromApi final)
            | None \<Rightarrow> finalRemoteStates st now rest (AList.update p fileInfoFromApi final)))"

text \<open>The two loops that clear expired entries of the grace-period caches.\<close>

definition expireCaches :: "int \<Rightarrow> Plugin \<Rightarrow> Plugin" where
  "expireCaches now st =
     st\<lparr>syncState := (syncState st)
          \<lparr>recentlyPushedFiles :=
             (\<lambda>p. case recentlyPushedFiles (syncState st) p of
                     None \<Rightarrow> None
                   | Some timestamp \<Rightarrow>
                       if now - timestamp > RECENTLY_PUSHED_GRACE_PERIOD_MS then None
                       else Some timestamp),
           recentlyDeletedFromRemote :=
             (\<lambda>p. case recentlyDeletedFromRemote (syncState st) p of
                     None \<Rightarrow> None
                   | Some timestamp \<Rightarrow>
                       if now - timestamp > RECENTLY_DELETED_GRACE_PERIOD_MS then None
                       else Some timestamp)\<rparr>\<rparr>"

text \<open>\<^verbatim>\<open>getRemoteFileStates()\<close>: \<open>None\<close> inside is the \<^verbatim>\<open>null\<close> of an unreliable state.\<close>

definition getRemoteFileStates ::
  "nat \<Rightarrow> 'w Platform \<Rightarrow> Plugin \<Rightarrow> 'w
   \<Rightarrow> ((string \<times> RemoteFileInfo) list option \<times> Plugin \<times> 'w) option" where
  "getRemoteFileStates n P st w =
     (case listRemote n P st w of
        None \<Rightarrow> None
      | Some (Inr remoteStatesFromApi, w1) \<Rightarrow>
          (let now = dateNow P w1
           in Some (Some (finalRemoteStates st now remoteStatesFromApi []), expireCaches now st, w1))
      | Some (Inl error, w1) \<Rightarrow>
          Some (None, st,
                showNotice P ''Failed to fetch remote file states. This may affect sync accuracy. Check your GitHub settings and network connection.'' w1))"

section \<open>The conflict detector\<close>

text \<open>
  Reading \<^verbatim>\<open>data.content\<close> of a JSON answer: a \<^verbatim>\<open>TypeError\<close> on \<^verbatim>\<open>null\<close>, absent on an
  array. \<^verbatim>\<open>fetchRemoteContent\<close> is the pair of statements that requests the contents of a
  remote path and decodes them; either statement can throw.
\<close>

definition contentField :: "Json \<Rightarrow> JsError + string option" where
  "contentField j =
     (case j of
        JNull \<Rightarrow> Inl \<lparr>message = ''Cannot read properties of null (reading content)'', status = None\<rparr>
      | JArray items \<Rightarrow> Inr None
      | JObject obj \<Rightarrow> Inr (o_content obj))"

definition fetchRemoteContent ::
  "'w Platform \<Rightarrow> Plugin \<Rightarrow> string \<Rightarrow> 'w \<Rightarrow> (JsError + string) \<times> 'w" where
  "fetchRemoteContent P st remotePath w =
     (case makeGitHubRequest P (getContents st remotePath) 3 1000 w of
        (Inl error, w1) \<Rightarrow> (Inl error, w1)
      | (Inr remoteContentData, w1) \<Rightarrow>
          (case contentField remoteContentData of
             Inl error \<Rightarrow> (Inl error, w1)
           | Inr c \<Rightarrow> (decodeBase64 P c, w1)))"

text \<open>
  The loop of \<^verbatim>\<open>detectConflicts\<close> for \<^verbatim>\<open>remoteFiles === null\<close>: only pending marks.
\<close>

fun detectOffline :: "(string \<times> LocalFileState) list \<Rightarrow> Plugin \<Rightarrow> Plugin" where
  "detectOffline [] st = st"
| "detectOffline ((p, localFile) # rest) st =
     (case fileMetadata (syncState st) p of
        None \<Rightarrow> detectOffline rest (addPending p st)
      | Some metadata \<Rightarrow>
          if lf_checksum localFile \<noteq> remoteContentChecksum metadata
          then detectOffline rest (addPending p st)
          else detectOffline rest st)"

text \<open>
  One iteration of the main loop of \<^verbatim>\<open>detectConflicts\<close>, for the local file at path
  \<open>p\<close>. \<open>Inl\<close> is an exception that leaves \<^verbatim>\<open>detectConflicts\<close>: the fetch of the
  conflict branch is outside any \<^verbatim>\<open>try\<close>.
\<close>

definition detectOne ::
  "'w Platform \<Rightarrow> (string \<times> RemoteFileInfo) list \<Rightarrow> string \<Rightarrow> LocalFileState
   \<Rightarrow> (string \<times> Conflict) list \<Rightarrow> Plugin \<Rightarrow> 'w
   \<Rightarrow> (JsError + (string \<times> Conflict) list) \<times> Plugin \<times> 'w" where
  "detectOne P remoteFiles p localFile conflicts st w =
     (case map_of remoteFiles p of
        None \<Rightarrow>
          if map_of (pendingDeletions (syncState st)) p = None
             \<and> (case fileMetadata (syncState st) p of
                   None \<Rightarrow> True
                 | Some metadata \<Rightarrow> githubBlobSha metadata = [])
          then (Inr conflicts, addPending p st, w)
          else (Inr conflicts, st, w)
      | Some remoteFileMetadata \<Rightarrow>
          (case fileMetadata (syncState st) p of
             None \<Rightarrow>
               (case fetchRemoteContent P st (rf_path remoteFileMetadata) w of
                  (Inr remoteContent, w1) \<Rightarrow>
                    (let remoteChecksum = calculateChecksum P remoteContent;
                         newMetadata =
                           \<lparr>md_path = p, githubBlobSha = rf_sha remoteFileMetadata,
                            lastModified = lf_mtime localFile,
                            localChecksum = lf_checksum localFile,
                            remoteContentChecksum = remoteChecksum, conflicted = False\<rparr>;
                         st1 = setMetadata p newMetadata st
                     in if lf_checksum localFile \<noteq> remoteContentChecksum newMetadata
                        then (Inr conflicts, addPending p st1, w1)
                        else (Inr conflicts, deletePending p st1, w1))
                | (Inl fetchError, w1) \<Rightarrow>
                    (Inr conflicts, addPending p st,
                     showNotice P (''Warning: Could not fetch remote content for '' @ [CHR 0x27] @ p
                        @ [CHR 0x27] @ ''. Sync accuracy might be affected.'') w1))
           | Some metadata \<Rightarrow>
               (let localChanged = (lf_checksum localFile \<noteq> remoteContentChecksum metadata);
                    remoteChanged = (rf_sha remoteFileMetadata \<noteq> githubBlobSha metadata)
                in if localChanged \<and> remoteChanged
                   then (case fetchRemoteContent P st (rf_path remoteFileMetadata) w of
                           (Inl error, w1) \<Rightarrow> (Inl error, st, w1)
                         | (Inr remoteContent, w1) \<Rightarrow>
                             (Inr (AList.update p
                                     \<lparr>c_local = localFile, c_remote = remoteFileMetadata,
                                      c_remoteContent = remoteContent, c_metadata = metadata\<rparr>
                                     conflicts),
                              addPending p st, w1))
                   else if localChanged \<and> \<not> remoteChanged
                   then (Inr conflicts, addPending p st, w)
                   else if \<not> localChanged \<and> remoteChanged
                   then (Inr conflicts, deletePending p st, w)
                   else (Inr conflicts, deletePending p st, w))))"

fun detectLoop ::
  "'w Platform \<Rightarrow> (string \<times> RemoteFileInfo) list \<Rightarrow> (string \<times> LocalFileState) list
   \<Rightarrow> (string \<times> Conflict) list \<Rightarrow> Plugin \<Rightarrow> 'w
   \<Rightarrow> (JsError + (string \<times> Conflict) list) \<times> Plugin \<times> 'w" where
  "detectLoop P remoteFiles [] conflicts st w = (Inr conflicts, st, w)"
| "detectLoop P remoteFiles ((p, localFile) # rest) conflicts st w =
     (case detectOne P remoteFiles p localFile conflicts st w of
        (Inl error, st1, w1) \<Rightarrow> (Inl error, st1, w1)
      | (Inr conflicts1, st1, w1) \<Rightarrow> detectLoop P remoteFiles rest conflicts1 st1 w1)"

text \<open>
  \<^verbatim>\<open>detectConflicts(localFiles, remoteFiles)\<close>. Its last loop, over the remote files, only
  writes to the console.
\<close>

definition detectConflicts ::
  "'w Platform \<Rightarrow> (string \<times> LocalFileState) list \<Rightarrow> (string \<times> RemoteFileInfo) list option
   \<Rightarrow> Plugin \<Rightarrow> 'w \<Rightarrow> (JsError + (string \<times> Conflict) list) \<times> Plugin \<times> 'w" where
  "detectConflicts P localFiles remoteFiles st w =
     (case remoteFiles of
        None \<Rightarrow> (Inr [], detectOffline localFiles st, w)
      | Some remote \<Rightarrow> detectLoop P remote localFiles [] st w)"

section \<open>The conflict resolver\<close>

text \<open>\<^verbatim>\<open>ensureDirectoryExists(filePath)\<close>; an error of \<^verbatim>\<open>createFolder\<close> is only logged.\<close>

fun ensureLoop :: "'w Platform \<Rightarrow> string list \<Rightarrow> string \<Rightarrow> 'w \<Rightarrow> 'w" where
  "ensureLoop P [] currentPath w = w"
| "ensureLoop P (part # parts) currentPath w =
     (let currentPath1 = (if currentPath \<noteq> [] then currentPath @ ''/'' @ part else part)
      in case getAbstractFileByPath P currentPath1 w of
           None \<Rightarrow> ensureLoop P parts currentPath1 (snd (createFolder P currentPath1 w))
         | Some folder \<Rightarrow> ensureLoop P parts currentPath1 w)"

definition ensureDirectoryExists :: "'w Platform \<Rightarrow> string \<Rightarrow> 'w \<Rightarrow> 'w" where
  "ensureDirectoryExists P filePath w = ensureLoop P (butlast (split CHR ''/'' filePath)) [] w"

definition isQuietMode :: "Plugin \<Rightarrow> bool" where
  "isQuietMode st = (notificationVerbosity (settings st) = Quiet)"

definition noticeUnlessQuiet :: "'w Platform \<Rightarrow> Plugin \<Rightarrow> string \<Rightarrow> 'w \<Rightarrow> 'w" where
  "noticeUnlessQuiet P st msg w = (if \<not> isQuietMode st then showNotice P msg w else w)"

text \<open>
  \<^verbatim>\<open>applyConflictResolution(path, conflict, resolution)\<close>. The cast of
  \<^verbatim>\<open>getAbstractFileByPath(path)\<close> to a file is modelled by its failure on a folder.
\<close>

definition applyConflictResolution ::
  "'w Platform \<Rightarrow> string \<Rightarrow> Conflict \<Rightarrow> ConflictResolution \<Rightarrow> Plugin \<Rightarrow> 'w
   \<Rightarrow> (JsError + unit) \<times> Plugin \<times> 'w" where
  "applyConflictResolution P p conflict resolution st w =
     (case getAbstractFileByPath P p w of
        Some (IsFolder d) \<Rightarrow>
          (if resolution = Local
           then (Inr (), addPending p st,
                 savePluginData P (addPending p st)
                   (noticeUnlessQuiet P st (''Conflict resolved for '' @ p @ '': Kept local version.'') w))
           else if resolution = Ask then (Inr (), st, savePluginData P st w)
           else (Inl \<lparr>message = ''The path is a folder'', status = None\<rparr>, st, w))
      | fileOpt \<Rightarrow>
          (let file = (case fileOpt of Some (IsFile f) \<Rightarrow> Some f | _ \<Rightarrow> None)
           in case resolution of
                Local \<Rightarrow>
                  (let st1 = addPending p st
                   in (Inr (), st1,
                       savePluginData P st1
                         (noticeUnlessQuiet P st (''Conflict resolved for '' @ p @ '': Kept local version.'') w)))
              | Remote \<Rightarrow>
                  (case file of
                     Some f \<Rightarrow>
                       (case vaultModify P f (c_remoteContent conflict) w of
                          (Inl error, w1) \<Rightarrow> (Inl error, st, w1)
                        | (Inr u, w1) \<Rightarrow>
                            (let checksum = calculateChecksum P (c_remoteContent conflict);
                                 st1 = (case fileMetadata (syncState st) p of
                                          None \<Rightarrow> st
                                        | Some metadata \<Rightarrow>
                                            setMetadata p
                                              (metadata\<lparr>localChecksum := checksum,
                                                 remoteContentChecksum := checksum,
                                                 githubBlobSha := rf_sha (c_remote conflict)\<rparr>) st);
                                 st2 = deletePending p st1;
                                 w2 = noticeUnlessQuiet P st
                                        (''Conflict resolved for '' @ p @ '': Kept remote version. (You may need to reopen the file to see changes.)'') w1
                             in (Inr (), st2, savePluginData P st2 w2)))
                   | None \<Rightarrow>
                       (let localPath = getLocalPath (syncPath (settings st)) p;
                            w1 = ensureDirectoryExists P localPath w
                        in case vaultCreate P localPath (c_remoteContent conflict) w1 of
                             (Inl error, w2) \<Rightarrow> (Inl error, st, w2)
                           | (Inr u, w2) \<Rightarrow>
                               (let checksum = calculateChecksum P (c_remoteContent conflict);
                                    metadata =
                                      \<lparr>md_path = localPath, githubBlobSha = rf_sha (c_remote conflict),
                                       lastModified = dateNow P w2, localChecksum = checksum,
                                       remoteContentChecksum = checksum, conflicted = False\<rparr>;
                                    st1 = setMetadata localPath metadata st;
                                    w3 = noticeUnlessQuiet P st
                                           (''Conflict resolved for '' @ p @ '': Created local file with remote version. (You may need to reopen the file to see changes.)'') w2
                                in (Inr (), st1, savePluginData P st1 w3))))
              | Merge \<Rightarrow>
                  (let merged = mergeContent (lf_content (c_local conflict)) (c_remoteContent conflict)
                   in case file of
                        Some f \<Rightarrow>
                          (case vaultModify P f merged w of
                             (Inl error, w1) \<Rightarrow> (Inl error, st, w1)
                           | (Inr u, w1) \<Rightarrow>
                               (let st1 = addPending p st;
                                    w2 = noticeUnlessQuiet P st
                                           (''Conflict resolved for '' @ p @ '': Auto-merged. (This version will be pushed.)'') w1
                                in (Inr (), st1, savePluginData P st1 w2)))
                      | None \<Rightarrow> (Inr (), st, savePluginData P st w))
              | Ask \<Rightarrow> (Inr (), st, savePluginData P st w)))"

text \<open>
  The loop of \<^verbatim>\<open>resolveConflicts\<close>. For the policy \<open>ask\<close> a manual or automatic run opens
  the dialog; a real-time or save-on-close run keeps the local version and shows a
  notice.
\<close>

definition isRealtimeOrSaveOnClose :: "SyncType \<Rightarrow> bool" where
  "isRealtimeOrSaveOnClose syncType = (syncType = RealtimeSync \<or> syncType = SaveOnCloseSync)"

fun resolveLoop ::
  "'w Platform \<Rightarrow> SyncType \<Rightarrow> (string \<times> Conflict) list \<Rightarrow> Plugin \<Rightarrow> 'w
   \<Rightarrow> ((JsError + unit) \<times> Plugin \<times> 'w) option" where
  "resolveLoop P syncType [] st w = Some (Inr (), st, w)"
| "resolveLoop P syncType ((p, conflict) # rest) st w =
     (case (if conflictResolution (settings st) = Ask \<and> \<not> isRealtimeOrSaveOnClose syncType
            then askForResolution P p (lf_content (c_local conflict)) (c_remoteContent conflict) w
            else if conflictResolution (settings st) = Ask \<and> isRealtimeOrSaveOnClose syncType
            then Some (Local,
                       noticeUnlessQuiet P st
                         (''Conflict detected in '' @ [CHR 0x27] @ p @ [CHR 0x27]
                            @ ''! Kept local version to avoid interruption. Please review and sync manually if needed.'') w)
            else Some (conflictResolution (settings st), w)) of
        None \<Rightarrow> None
      | Some (effectiveResolution, w1) \<Rightarrow>
          (case applyConflictResolution P p conflict effectiveResolution st w1 of
             (Inl error, st1, w2) \<Rightarrow> Some (Inl error, st1, w2)
           | (Inr u, st1, w2) \<Rightarrow> resolveLoop P syncType rest st1 w2))"

definition resolveConflicts ::
  "'w Platform \<Rightarrow> (string \<times> Conflict) list \<Rightarrow> SyncType \<Rightarrow> Plugin \<Rightarrow> 'w
   \<Rightarrow> ((JsError + unit) \<times> Plugin \<times> 'w) option" where
  "resolveConflicts P conflicts syncType st w =
     (if conflicts = [] then Some (Inr (), st, w)
      else resolveLoop P syncType conflicts st
             (noticeUnlessQuiet P st (''Resolving '' @ showNat (length conflicts) @ '' conflicts...'') w))"

section \<open>Pull and push of one document\<close>

text \<open>\<^verbatim>\<open>downloadFile(fileInfo)\<close>: every error is thrown on to the caller.\<close>

definition downloadFile ::
  "'w Platform \<Rightarrow> RemoteFileInfo \<Rightarrow> Plugin \<Rightarrow> 'w \<Rightarrow> (JsError + unit) \<times> Plugin \<times> 'w" where
  "downloadFile P fileInfo st w =
     (case fetchRemoteContent P st (rf_path fileInfo) w of
        (Inl error, w1) \<Rightarrow> (Inl error, st, w1)
      | (Inr remoteContent, w1) \<Rightarrow>
          (let localPath = getLocalPath (syncPath (settings st)) (rf_path fileInfo);
               w2 = ensureDirectoryExists P localPath w1;
               existingFile = getAbstractFileByPath P localPath w2;
               remoteContentChecksum1 = calculateChecksum P remoteContent;
               (written, w3) =
                 (case existingFile of
                    Some (IsFile f) \<Rightarrow>
                      (case vaultRead P f w2 of
                         (Inl error, w') \<Rightarrow> (Inl error, w')
                       | (Inr localContent, w') \<Rightarrow>
                           if localContent \<noteq> remoteContent then vaultModify P f remoteContent w'
                           else (Inr (), w'))
                  | _ \<Rightarrow> vaultCreate P localPath remoteContent w2)
           in case written of
                Inl error \<Rightarrow> (Inl error, st, w3)
              | Inr u \<Rightarrow>
                  (let metadata0 =
                         (case fileMetadata (syncState st) localPath of
                            Some m \<Rightarrow> m
                          | None \<Rightarrow>
                              \<lparr>md_path = localPath, githubBlobSha = [], lastModified = dateNow P w3,
                               localChecksum = [], remoteContentChecksum = [], conflicted = False\<rparr>);
                       metadata =
                         metadata0\<lparr>githubBlobSha := rf_sha fileInfo,
                                   remoteContentChecksum := remoteContentChecksum1,
                                   localChecksum := remoteContentChecksum1,
                                   lastModified := dateNow P w3\<rparr>;
                       st1 = deleteRemoteChangePending localPath
                               (deletePending localPath (setMetadata localPath metadata st))
                   in (Inr (), st1, savePluginData P st1 w3))))"

text \<open>
  The first \<^verbatim>\<open>try\<close> of an attempt of \<^verbatim>\<open>uploadFile\<close>: the current remote revision id
  and content (both absent on 404, on \<^verbatim>\<open>null\<close> and on an array), with the metadata
  refreshed from them; any other error is thrown.
\<close>

definition fetchCurrent ::
  "'w Platform \<Rightarrow> TFile \<Rightarrow> FileMetadata \<Rightarrow> Plugin \<Rightarrow> 'w
   \<Rightarrow> (JsError + (string option \<times> string option \<times> FileMetadata)) \<times> Plugin \<times> 'w" where
  "fetchCurrent P file metadata st w =
     (let remotePath = getRemotePath (syncPath (settings st)) (tf_path file)
      in case makeGitHubRequest P (getContents st remotePath) 3 1000 w of
           (Inl error, w1) \<Rightarrow>
             if status error = Some 404 then (Inr (None, None, metadata), st, w1)
             else (Inl error, st, w1)
         | (Inr (JObject obj), w1) \<Rightarrow>
             (case decodeBase64 P (o_content obj) of
                Inl error \<Rightarrow>
                  if status error = Some 404 then (Inr (None, None, metadata), st, w1)
                  else (Inl error, st, w1)
              | Inr remoteContentFromGitHub \<Rightarrow>
                  (let metadata1 =
                         metadata\<lparr>remoteContentChecksum := calculateChecksum P remoteContentFromGitHub,
                                  githubBlobSha := (case o_sha obj of Some s \<Rightarrow> s | None \<Rightarrow> [])\<rparr>;
                       st1 = setMetadata (tf_path file) metadata1 st
                   in (Inr (o_sha obj, Some remoteContentFromGitHub, metadata1), st1,
                       savePluginData P st1 w1)))
         | (Inr other, w1) \<Rightarrow> (Inr (None, None, metadata), st, w1))"

text \<open>\<^verbatim>\<open>x || ''\<close> and \<^verbatim>\<open>x ?? ''\<close> for an optional string.\<close>

definition orEmpty :: "string option \<Rightarrow> string" where
  "orEmpty x = (case x of Some s \<Rightarrow> s | None \<Rightarrow> [])"

text \<open>The revision id of the answer to a PUT, \<^verbatim>\<open>result.content.sha\<close>.\<close>

definition putResultSha :: "Json \<Rightarrow> JsError + string" where
  "putResultSha j =
     (case j of
        JObject obj \<Rightarrow>
          (case o_content_sha obj of
             Some s \<Rightarrow> Inr s
           | None \<Rightarrow> Inl \<lparr>message = ''Cannot read properties of undefined (reading sha)'',
                          status = None\<rparr>)
      | _ \<Rightarrow> Inl \<lparr>message = ''Cannot read properties of undefined (reading sha)'', status = None\<rparr>)"

definition putRequest :: "Plugin \<Rightarrow> TFile \<Rightarrow> string \<Rightarrow> string option \<Rightarrow> Request" where
  "putRequest st file encoded shaForPut =
     (let hasSha = (case shaForPut of Some s \<Rightarrow> s \<noteq> [] | None \<Rightarrow> False)
      in contentsRequest st PUT (getRemotePath (syncPath (settings st)) (tf_path file)) None
           (Some \<lparr>b_message = (if hasSha then ''Update '' else ''Add '') @ tf_name file
                               @ '' (Obsidian SyncMate)'',
                  b_content = Some encoded,
                  b_sha = (if hasSha then shaForPut else None),
                  b_branch = branch (settings st)\<rparr>))"

text \<open>
  One iteration of the \<^verbatim>\<open>while (currentAttempt < maxRetries)\<close> loop of
  \<^verbatim>\<open>uploadFile\<close>, in two parts. \<open>chosen\<close> is \<^verbatim>\<open>chosenConflictResolution\<close>, kept
  across attempts. The first part runs up to the request body: it refreshes the
  metadata, fetches the remote state and, when the remote content differs from the
  local one, resolves the conflict; it yields \<^verbatim>\<open>contentToPush\<close> (the local content, the
  remote content or their merge), \<^verbatim>\<open>shaForPut\<close> and the metadata, or the error thrown.
\<close>

definition prepareUpload ::
  "'w Platform \<Rightarrow> TFile \<Rightarrow> string \<Rightarrow> ConflictResolution option \<Rightarrow> Plugin \<Rightarrow> 'w
   \<Rightarrow> ((JsError \<times> Plugin \<times> 'w)
       + (string \<times> string option \<times> FileMetadata \<times> ConflictResolution option \<times> Plugin \<times> 'w))
      option" where
  "prepareUpload P file localContent chosen st w =
     (let (metadata, st1, w1) =
            (case fileMetadata (syncState st) (tf_path file) of
               Some m \<Rightarrow> (m, st, w)
             | None \<Rightarrow>
                 (let m = \<lparr>md_path = tf_path file, githubBlobSha = [],
                           lastModified = tf_mtime file,
                           localChecksum = calculateChecksum P localContent,
                           remoteContentChecksum = [], conflicted = False\<rparr>;
                      st' = setMetadata (tf_path file) m st
                  in (m, st', savePluginData P st' w)))
      in case fetchCurrent P file metadata st1 w1 of
           (Inl error, st2, w2) \<Rightarrow> Some (Inl (error, st2, w2))
         | (Inr (currentRemoteSha, remoteContentFromGitHub, metadata2), st2, w2) \<Rightarrow>
             (let conflictNow =
                    (case remoteContentFromGitHub of
                       Some remoteContent \<Rightarrow> localContent \<noteq> remoteContent
                     | None \<Rightarrow> False)
              in case (if conflictNow \<and> chosen = None
                       then (if realtimeSync (settings st2)
                                \<or> (syncOnSave (settings st2) \<and> \<not> realtimeSync (settings st2))
                             then Some (None, w2)
                             else if conflictResolution (settings st2) = Ask
                             then (case askForResolution P (tf_path file) localContent
                                          (orEmpty remoteContentFromGitHub) w2 of
                                     None \<Rightarrow> None
                                   | Some (c, w') \<Rightarrow> Some (Some c, w'))
                             else Some (Some (conflictResolution (settings st2)), w2))
                       else Some (chosen, w2)) of
                   None \<Rightarrow> None
                 | Some (chosen1, w3) \<Rightarrow>
             (let (written, contentToPush, w4) =
                    (if conflictNow
                     then (case chosen1 of
                             Some Remote \<Rightarrow>
                               (case vaultModify P file (orEmpty remoteContentFromGitHub) w3 of
                                  (r, w') \<Rightarrow> (r, orEmpty remoteContentFromGitHub, w'))
                           | Some Merge \<Rightarrow>
                               (let merged = mergeContent localContent
                                               (orEmpty remoteContentFromGitHub)
                                in case vaultModify P file merged w3 of
                                     (r, w') \<Rightarrow> (r, merged, w'))
                           | _ \<Rightarrow> (Inr (), localContent, w3))
                     else (Inr (), localContent, w3))
              in case written of
                   Inl error \<Rightarrow> Some (Inl (error, st2, w4))
                 | Inr u \<Rightarrow>
                     (let shaForPut = currentRemoteSha
                      in if conflictNow
                         then (let resolvedContentChecksum = calculateChecksum P contentToPush;
                                   m = metadata2\<lparr>githubBlobSha := orEmpty shaForPut,
                                         lastModified := dateNow P w4,
                                         localChecksum := resolvedContentChecksum,
                                         remoteContentChecksum := resolvedContentChecksum,
                                         conflicted := False\<rparr>;
                                   st' = setMetadata (tf_path file) m st2
                               in Some (Inr (contentToPush, shaForPut, m, chosen1, st',
                                             savePluginData P st' w4)))
                         else Some (Inr (contentToPush, shaForPut, metadata2, chosen1, st2, w4))))))"

text \<open>
  The second part submits the content: on success the metadata takes the revision id
  of the answer and the hash of \<^verbatim>\<open>contentToPush\<close>; a 409 with an attempt left waits and
  asks for the next iteration (\<open>currentAttempt1\<close> is the counter after its increment);
  any other error is thrown.
\<close>

datatype 'w Attempt =
    Finished "(JsError + unit) \<times> Plugin \<times> 'w"
  | Again "ConflictResolution option" Plugin 'w

definition submitUpload ::
  "'w Platform \<Rightarrow> TFile \<Rightarrow> string \<Rightarrow> string option \<Rightarrow> FileMetadata \<Rightarrow> nat \<Rightarrow> nat
   \<Rightarrow> ConflictResolution option \<Rightarrow> Plugin \<Rightarrow> 'w \<Rightarrow> 'w Attempt" where
  "submitUpload P file contentToPush shaForPut metadata maxRetries currentAttempt1 chosen1 st w =
     (case makeGitHubRequest P (putRequest st file (encodeBase64 P contentToPush) shaForPut)
             3 1000 w of
        (Inr result, w1) \<Rightarrow>
          (case putResultSha result of
             Inr newSha \<Rightarrow>
               (let finalLocalChecksum = calculateChecksum P contentToPush;
                    m = metadata\<lparr>githubBlobSha := newSha,
                          lastModified := tf_mtime file,
                          localChecksum := finalLocalChecksum,
                          remoteContentChecksum := finalLocalChecksum,
                          conflicted := False\<rparr>;
                    st1 = setMetadata (tf_path file) m st
                in Finished (Inr (), st1, savePluginData P st1 w1))
           | Inl error \<Rightarrow> Finished (Inl error, st, w1))
      | (Inl error, w1) \<Rightarrow>
          if status error = Some 409 \<and> currentAttempt1 < maxRetries
          then Again chosen1 st (setTimeout P (1000 * of_nat currentAttempt1) w1)
          else Finished (Inl error, st, w1))"

definition uploadAttempt ::
  "'w Platform \<Rightarrow> TFile \<Rightarrow> string \<Rightarrow> nat \<Rightarrow> nat \<Rightarrow> ConflictResolution option \<Rightarrow> Plugin \<Rightarrow> 'w
   \<Rightarrow> 'w Attempt option" where
  "uploadAttempt P file localContent maxRetries currentAttempt1 chosen st w =
     (case prepareUpload P file localContent chosen st w of
        None \<Rightarrow> None
      | Some (Inl (error, st1, w1)) \<Rightarrow> Some (Finished (Inl error, st1, w1))
      | Some (Inr (contentToPush, shaForPut, metadata, chosen1, st1, w1)) \<Rightarrow>
          Some (submitUpload P file contentToPush shaForPut metadata maxRetries currentAttempt1
                  chosen1 st1 w1))"

text \<open>The loop; falling out of it is a normal return.\<close>

function uploadLoop ::
  "'w Platform \<Rightarrow> TFile \<Rightarrow> string \<Rightarrow> nat \<Rightarrow> nat \<Rightarrow> ConflictResolution option \<Rightarrow> Plugin \<Rightarrow> 'w
   \<Rightarrow> ((JsError + unit) \<times> Plugin \<times> 'w) option" where
  "uploadLoop P file localContent maxRetries currentAttempt chosen st w =
     (if currentAttempt < maxRetries
      then (case uploadAttempt P file localContent maxRetries (currentAttempt + 1) chosen st w of
              None \<Rightarrow> None
            | Some (Finished r) \<Rightarrow> Some r
            | Some (Again chosen1 st1 w1) \<Rightarrow>
                uploadLoop P file localContent maxRetries (currentAttempt + 1) chosen1 st1 w1)
      else Some (Inr (), st, w))"
  by pat_completeness auto
termination
  by (relation "measure (\<lambda>(P, file, localContent, maxRetries, currentAttempt, chosen, st, w).
                 maxRetries - currentAttempt)") auto

declare uploadLoop.simps [simp del]

text \<open>\<^verbatim>\<open>uploadFile(file, maxRetries = 3)\<close>\<close>

definition uploadFile ::
  "'w Platform \<Rightarrow> TFile \<Rightarrow> nat \<Rightarrow> Plugin \<Rightarrow> 'w
   \<Rightarrow> ((JsError + unit) \<times> Plugin \<times> 'w) option" where
  "uploadFile P file maxRetries st w =
     (case vaultRead P file w of
        (Inl error, w1) \<Rightarrow> Some (Inl error, st, w1)
      | (Inr localContent, w1) \<Rightarrow> uploadLoop P file localContent maxRetries 0 None st w1)"

section \<open>The synchronization run\<close>

text \<open>\<^verbatim>\<open>processPendingDeletions()\<close>: the loop, then the removal of the successes.\<close>

fun pendingDeletionsLoop ::
  "'w Platform \<Rightarrow> (string \<times> string) list \<Rightarrow> string list \<Rightarrow> nat \<Rightarrow> Plugin \<Rightarrow> 'w
   \<Rightarrow> string list \<times> nat \<times> Plugin \<times> 'w" where
  "pendingDeletionsLoop P [] successfulDeletions deletedRemotelyCount st w =
     (successfulDeletions, deletedRemotelyCount, st, w)"
| "pendingDeletionsLoop P ((p, sha) # rest) successfulDeletions deletedRemotelyCount st w =
     (case deleteFileFromGitHub P st p sha 3 w of
        (Inr u, st1, w1) \<Rightarrow>
          pendingDeletionsLoop P rest (setAdd p successfulDeletions) (deletedRemotelyCount + 1) st1 w1
      | (Inl error, st1, w1) \<Rightarrow>
          pendingDeletionsLoop P rest successfulDeletions deletedRemotelyCount st1
            (showNotice P (''Failed to delete '' @ p @ '' from GitHub. Check console for details.'') w1))"

definition processPendingDeletions :: "'w Platform \<Rightarrow> Plugin \<Rightarrow> 'w \<Rightarrow> nat \<times> Plugin \<times> 'w" where
  "processPendingDeletions P st w =
     (case pendingDeletionsLoop P (pendingDeletions (syncState st)) [] 0 st w of
        (successfulDeletions, deletedRemotelyCount, st1, w1) \<Rightarrow>
          (let st2 = st1\<lparr>syncState := (syncState st1)\<lparr>pendingDeletions :=
                       filter (\<lambda>(p, sha). p \<notin> set successfulDeletions)
                         (pendingDeletions (syncState st1))\<rparr>\<rparr>
           in (deletedRemotelyCount, st2, savePluginData P st2 w1)))"

text \<open>
  \<^verbatim>\<open>performSync\<close>, first loop: the push queue from \<^verbatim>\<open>pendingFiles\<close>; a pending path
  without a local file is dropped from the set.
\<close>

fun pushQueueLoop ::
  "(string \<times> LocalFileState) list \<Rightarrow> string list \<Rightarrow> TFile list \<Rightarrow> Plugin \<Rightarrow> TFile list \<times> Plugin" where
  "pushQueueLoop localFiles [] filesToPush st = (filesToPush, st)"
| "pushQueueLoop localFiles (p # rest) filesToPush st =
     (case map_of localFiles p of
        Some localFile \<Rightarrow> pushQueueLoop localFiles rest (setAdd (lf_file localFile) filesToPush) st
      | None \<Rightarrow> pushQueueLoop localFiles rest filesToPush (deletePending p st))"

definition isActivelyEditing :: "'w Platform \<Rightarrow> string \<Rightarrow> 'w \<Rightarrow> bool" where
  "isActivelyEditing P p w =
     (case getActiveFile P w of None \<Rightarrow> False | Some activeFile \<Rightarrow> tf_path activeFile = p)"

text \<open>
  The proactive pull before a push (only with \<^verbatim>\<open>realtimeSync\<close>); an error of the
  download is thrown into the \<^verbatim>\<open>catch\<close> of the push. A path that the fresh local listing
  lacks is taken out of \<^verbatim>\<open>localFiles\<close>.
\<close>

definition proactivePull ::
  "'w Platform \<Rightarrow> (string \<times> RemoteFileInfo) list option \<Rightarrow> TFile
   \<Rightarrow> (string \<times> LocalFileState) list \<Rightarrow> Plugin \<Rightarrow> 'w
   \<Rightarrow> (JsError + (string \<times> LocalFileState) list) \<times> Plugin \<times> 'w" where
  "proactivePull P currentRemoteFiles file localFiles st w =
     (case fileMetadata (syncState st) (tf_path file) of
        None \<Rightarrow> (Inr localFiles, st, w)
      | Some metadata \<Rightarrow>
          if \<not> isActivelyEditing P (tf_path file) w \<and> realtimeSync (settings st)
          then (case (case currentRemoteFiles of
                        None \<Rightarrow> None
                      | Some remote \<Rightarrow> map_of remote (tf_path file)) of
                  None \<Rightarrow> (Inr localFiles, st, w)
                | Some remoteFileMetadata \<Rightarrow>
                    if rf_sha remoteFileMetadata \<noteq> githubBlobSha metadata
                    then (case downloadFile P remoteFileMetadata st w of
                            (Inl error, st1, w1) \<Rightarrow> (Inl error, st1, w1)
                          | (Inr u, st1, w1) \<Rightarrow>
                              (case getLocalFileStates P st1 w1 of
                                 (fresh, w2) \<Rightarrow>
                                   (Inr (case map_of fresh (tf_path file) of
                                           Some s \<Rightarrow> AList.update (tf_path file) s localFiles
                                         | None \<Rightarrow> AList.delete (tf_path file) localFiles),
                                    st1, w2)))
                    else (Inr localFiles, st, w))
          else (Inr localFiles, st, w))"

text \<open>The push loop: a failed push is reported and leaves the path pending.\<close>

fun pushLoop ::
  "'w Platform \<Rightarrow> (string \<times> RemoteFileInfo) list option \<Rightarrow> TFile list
   \<Rightarrow> (string \<times> LocalFileState) list \<Rightarrow> nat \<Rightarrow> Plugin \<Rightarrow> 'w
   \<Rightarrow> ((string \<times> LocalFileState) list \<times> nat \<times> Plugin \<times> 'w) option" where
  "pushLoop P currentRemoteFiles [] localFiles pushedCount st w =
     Some (localFiles, pushedCount, st, w)"
| "pushLoop P currentRemoteFiles (file # rest) localFiles pushedCount st w =
     (case proactivePull P currentRemoteFiles file localFiles st w of
        (Inl error, st1, w1) \<Rightarrow>
          pushLoop P currentRemoteFiles rest localFiles pushedCount st1
            (showNotice P (''Failed to push '' @ tf_path file @ ''. Check console for details.'') w1)
      | (Inr localFiles1, st1, w1) \<Rightarrow>
          (case uploadFile P file 3 st1 w1 of
             None \<Rightarrow> None
           | Some (Inl error, st2, w2) \<Rightarrow>
               pushLoop P currentRemoteFiles rest localFiles1 pushedCount st2
                 (showNotice P (''Failed to push '' @ tf_path file @ ''. Check console for details.'') w2)
           | Some (Inr u, st2, w2) \<Rightarrow>
               (let st3 = deletePending (tf_path file) st2;
                    st4 = st3\<lparr>syncState := (syncState st3)\<lparr>recentlyPushedFiles :=
                            (recentlyPushedFiles (syncState st3))(tf_path file \<mapsto> dateNow P w2)\<rparr>\<rparr>
                in pushLoop P currentRemoteFiles rest localFiles1 (pushedCount + 1) st4 w2)))"

text \<open>
  The loop over the re-fetched remote state: what to pull. A remote change of the
  document that is being edited is deferred and noted.
\<close>

fun pullQueueLoop ::
  "'w Platform \<Rightarrow> TFile list \<Rightarrow> (string \<times> LocalFileState) list \<Rightarrow> (string \<times> RemoteFileInfo) list
   \<Rightarrow> RemoteFileInfo list \<Rightarrow> Plugin \<Rightarrow> 'w \<Rightarrow> RemoteFileInfo list \<times> Plugin \<times> 'w" where
  "pullQueueLoop P filesToPush localFiles [] filesToPull st w = (filesToPull, st, w)"
| "pullQueueLoop P filesToPush localFiles ((p, remoteFileMetadata) # rest) filesToPull st w =
     (case map_of localFiles p of
        None \<Rightarrow>
          if map_of (pendingDeletions (syncState st)) p = None
          then pullQueueLoop P filesToPush localFiles rest (setAdd remoteFileMetadata filesToPull) st w
          else pullQueueLoop P filesToPush localFiles rest filesToPull st w
      | Some localFile \<Rightarrow>
          (case fileMetadata (syncState st) p of
             None \<Rightarrow> pullQueueLoop P filesToPush localFiles rest filesToPull st w
           | Some metadata \<Rightarrow>
               if rf_sha remoteFileMetadata \<noteq> githubBlobSha metadata
               then (if isActivelyEditing P p w
                     then (if p \<notin> set (remoteChangesPendingForActiveFiles (syncState st))
                           then pullQueueLoop P filesToPush localFiles rest filesToPull
                                  (st\<lparr>syncState := (syncState st)\<lparr>remoteChangesPendingForActiveFiles :=
                                        setAdd p (remoteChangesPendingForActiveFiles (syncState st))\<rparr>\<rparr>)
                                  (noticeUnlessQuiet P st
                                     (''Remote changes for '' @ [CHR 0x27]
                                        @ (case getBasename P p w of Some b \<Rightarrow> if b = [] then p else b
                                           | None \<Rightarrow> p)
                                        @ [CHR 0x27] @ '' detected. Pull skipped to prevent overwrite. Close file to pull, or manually resolve.'') w)
                           else pullQueueLoop P filesToPush localFiles rest filesToPull st w)
                     else if lf_file localFile \<notin> set filesToPush
                             \<or> conflictResolution (settings st) = Remote
                     then pullQueueLoop P filesToPush localFiles rest
                            (setAdd remoteFileMetadata filesToPull)
                            (deleteRemoteChangePending p st) w
                     else pullQueueLoop P filesToPush localFiles rest filesToPull st w)
               else pullQueueLoop P filesToPush localFiles rest filesToPull st w))"

text \<open>
  The loop that schedules local deletions: present locally, missing in the remote
  state, known to have had a remote revision, and not pushed within the grace period.
\<close>

definition wasRecentlyPushed :: "Plugin \<Rightarrow> int \<Rightarrow> string \<Rightarrow> bool" where
  "wasRecentlyPushed st now p =
     (case recentlyPushedFiles (syncState st) p of
        None \<Rightarrow> False
      | Some t \<Rightarrow> now - t < RECENTLY_PUSHED_GRACE_PERIOD_MS)"

definition wasTrackedRemotely :: "Plugin \<Rightarrow> string \<Rightarrow> bool" where
  "wasTrackedRemotely st p =
     (case fileMetadata (syncState st) p of None \<Rightarrow> False | Some metadata \<Rightarrow> githubBlobSha metadata \<noteq> [])"

fun deleteQueueLoop ::
  "Plugin \<Rightarrow> int \<Rightarrow> (string \<times> RemoteFileInfo) list \<Rightarrow> (string \<times> LocalFileState) list
   \<Rightarrow> TFile list \<Rightarrow> TFile list" where
  "deleteQueueLoop st now currentRemoteFiles [] filesToDeleteLocally = filesToDeleteLocally"
| "deleteQueueLoop st now currentRemoteFiles ((p, localFileState) # rest) filesToDeleteLocally =
     (let isRemoteMissing = (map_of currentRemoteFiles p = None)
      in if isRemoteMissing \<and> wasTrackedRemotely st p \<and> \<not> wasRecentlyPushed st now p
         then deleteQueueLoop st now currentRemoteFiles rest
                (setAdd (lf_file localFileState) filesToDeleteLocally)
         else deleteQueueLoop st now currentRemoteFiles rest filesToDeleteLocally)"

fun localDeleteLoop ::
  "'w Platform \<Rightarrow> TFile list \<Rightarrow> nat \<Rightarrow> Plugin \<Rightarrow> 'w \<Rightarrow> nat \<times> Plugin \<times> 'w" where
  "localDeleteLoop P [] deletedLocallyCount st w = (deletedLocallyCount, st, w)"
| "localDeleteLoop P (file # rest) deletedLocallyCount st w =
     (case vaultDelete P file w of
        (Inr u, w1) \<Rightarrow>
          localDeleteLoop P rest (deletedLocallyCount + 1)
            (deleteRemoteChangePending (tf_path file) (deleteMetadata (tf_path file) st)) w1
      | (Inl error, w1) \<Rightarrow>
          localDeleteLoop P rest deletedLocallyCount st
            (showNotice P (''Failed to delete local file '' @ tf_path file @ ''. Check console.'') w1))"

fun pullLoop ::
  "'w Platform \<Rightarrow> RemoteFileInfo list \<Rightarrow> nat \<Rightarrow> Plugin \<Rightarrow> 'w \<Rightarrow> nat \<times> Plugin \<times> 'w" where
  "pullLoop P [] pulledCount st w = (pulledCount, st, w)"
| "pullLoop P (remoteFileMetadata # rest) pulledCount st w =
     (case downloadFile P remoteFileMetadata st w of
        (Inr u, st1, w1) \<Rightarrow> pullLoop P rest (pulledCount + 1) st1 w1
      | (Inl error, st1, w1) \<Rightarrow>
          pullLoop P rest pulledCount st1
            (showNotice P (''Failed to pull '' @ rf_path remoteFileMetadata
                             @ ''. Check console for details.'') w1))"

text \<open>The counts of a run.\<close>

record ChangesMade =
  pushedCount :: nat
  pulledCount :: nat
  deletedLocallyCount :: nat
  deletedRemotelyCount :: nat

text \<open>
  \<^verbatim>\<open>performSync(localFiles, currentRemoteFiles)\<close>; the result is the triple of its
  counts. \<open>None\<close> is a run that does not return: its directory walk did not come back,
  or a push waits for a dialog that is never answered.
\<close>

definition performSync ::
  "nat \<Rightarrow> 'w Platform \<Rightarrow> (string \<times> LocalFileState) list \<Rightarrow> (string \<times> RemoteFileInfo) list option
   \<Rightarrow> Plugin \<Rightarrow> 'w \<Rightarrow> ((nat \<times> nat \<times> nat) \<times> Plugin \<times> 'w) option" where
  "performSync n P localFiles0 currentRemoteFiles0 st0 w0 =
     (case pushQueueLoop localFiles0 (pendingFiles (syncState st0)) [] st0 of
        (filesToPush, st1) \<Rightarrow>
     (case pushLoop P currentRemoteFiles0 filesToPush localFiles0 0 st1 w0 of
        None \<Rightarrow> None
      | Some (localFiles, pushed, st2, w2) \<Rightarrow>
     (case getRemoteFileStates n P st2 w2 of
        None \<Rightarrow> None
      | Some (None, st3, w3) \<Rightarrow>
          (let w4 = showNotice P ''Skipping some pull/delete operations due to network issues after push. Please check connection and try again.'' w3
           in Some ((pushed, 0, 0), expireCaches (dateNow P w4) st3, w4))
      | Some (Some currentRemoteFiles, st3, w3) \<Rightarrow>
          (case pullQueueLoop P filesToPush localFiles currentRemoteFiles [] st3 w3 of
             (filesToPull, st4, w4) \<Rightarrow>
          (case localDeleteLoop P
                  (deleteQueueLoop st4 (dateNow P w4) currentRemoteFiles localFiles []) 0 st4 w4 of
             (deletedLocally, st5, w5) \<Rightarrow>
          (case pullLoop P filesToPull 0 st5 w5 of
             (pulled, st6, w6) \<Rightarrow>
               Some ((pushed, pulled, deletedLocally), expireCaches (dateNow P w6) st6, w6)))))))"

text \<open>The texts of the notices of a run; the pictographs of the messages are left out.\<close>

definition syncTypeName :: "SyncType \<Rightarrow> string" where
  "syncTypeName t =
     (case t of ManualSync \<Rightarrow> ''Manual Sync'' | AutoSync \<Rightarrow> ''Auto Sync''
      | RealtimeSync \<Rightarrow> ''Real-time sync'' | StartupSync \<Rightarrow> ''Startup Sync''
      | SaveOnCloseSync \<Rightarrow> ''Save on Close Sync'')"

definition syncTypeLowerCase :: "SyncType \<Rightarrow> string" where
  "syncTypeLowerCase t =
     (case t of ManualSync \<Rightarrow> ''manual sync'' | AutoSync \<Rightarrow> ''auto sync''
      | RealtimeSync \<Rightarrow> ''real-time sync'' | StartupSync \<Rightarrow> ''startup sync''
      | SaveOnCloseSync \<Rightarrow> ''save on close sync'')"

definition specificFileName :: "'w Platform \<Rightarrow> string option \<Rightarrow> 'w \<Rightarrow> string" where
  "specificFileName P specificFilePath w =
     (case specificFilePath of
        None \<Rightarrow> []
      | Some p \<Rightarrow> if p = [] then [] else orEmpty (getBasename P p w))"

definition startNotice :: "'w Platform \<Rightarrow> SyncType \<Rightarrow> Plugin \<Rightarrow> 'w \<Rightarrow> 'w" where
  "startNotice P syncType st w =
     (if syncType = StartupSync
      then showNotice P ''GitHub SyncMate: Starting initial vault synchronization...'' w
      else if \<not> isRealtimeOrSaveOnClose syncType \<or> notificationVerbosity (settings st) = Verbose
      then showNotice P (''GitHub SyncMate: Starting '' @ syncTypeLowerCase syncType @ ''...'') w
      else w)"

definition totalChanges :: "ChangesMade \<Rightarrow> nat" where
  "totalChanges c = pushedCount c + pulledCount c + deletedLocallyCount c + deletedRemotelyCount c"

definition completionNotice ::
  "'w Platform \<Rightarrow> SyncType \<Rightarrow> string option \<Rightarrow> ChangesMade \<Rightarrow> Plugin \<Rightarrow> 'w \<Rightarrow> 'w" where
  "completionNotice P syncType specificFilePath c st w =
     (if syncType = StartupSync
      then showNotice P (''GitHub SyncMate: Vault synchronized. '' @ showNat (pushedCount c)
                           @ '' files uploaded, '' @ showNat (pulledCount c) @ '' files downloaded.'') w
      else if isRealtimeOrSaveOnClose syncType
      then (if isQuietMode st then w
            else if totalChanges c = 0 then w
            else if totalChanges c = 1
            then (let fileName = specificFileName P specificFilePath w
                  in showNotice P
                       (if pushedCount c = 1 \<and> fileName \<noteq> []
                        then [CHR 0x27] @ fileName @ [CHR 0x27] @ '' uploaded.''
                        else if pulledCount c = 1 \<and> fileName \<noteq> []
                        then [CHR 0x27] @ fileName @ [CHR 0x27] @ '' downloaded.''
                        else if deletedRemotelyCount c = 1
                        then (if fileName \<noteq> []
                              then [CHR 0x27] @ fileName @ [CHR 0x27] @ '' deleted from GitHub.''
                              else ''A file deleted from GitHub.'')
                        else if deletedLocallyCount c = 1
                        then (if fileName \<noteq> []
                              then [CHR 0x27] @ fileName @ [CHR 0x27] @ '' deleted locally.''
                              else ''A file deleted locally.;'')
                        else ''1 file synced.'') w)
            else showNotice P (''GitHub SyncMate: '' @ showNat (totalChanges c)
                                 @ '' changes processed ('' @ showNat (pushedCount c)
                                 @ '' uploaded, '' @ showNat (pulledCount c) @ '' downloaded).'') w)
      else showNotice P
             (syncTypeName syncType @ '': Sync completed.''
              @ (if pushedCount c > 0 then '' Pushed '' @ showNat (pushedCount c) @ '' file(s).'' else [])
              @ (if pulledCount c > 0 then '' Pulled '' @ showNat (pulledCount c) @ '' file(s).'' else [])
              @ (if deletedLocallyCount c > 0
                 then '' Deleted '' @ showNat (deletedLocallyCount c) @ '' local file(s).'' else [])
              @ (if deletedRemotelyCount c > 0
                 then '' Deleted '' @ showNat (deletedRemotelyCount c) @ '' remote file(s).'' else [])
              @ (if totalChanges c = 0 then '' No changes detected.'' else [])) w)"

definition failureNotice ::
  "'w Platform \<Rightarrow> SyncType \<Rightarrow> string option \<Rightarrow> JsError \<Rightarrow> 'w \<Rightarrow> 'w" where
  "failureNotice P syncType specificFilePath error w =
     (let errorFileName = specificFileName P specificFilePath w
      in showNotice P
           (''GitHub SyncMate: ''
            @ (if isRealtimeOrSaveOnClose syncType \<and> errorFileName \<noteq> []
               then ''Failed to sync '' @ [CHR 0x27] @ errorFileName @ [CHR 0x27] @ ''.''
               else ''Failed to sync changes.'')
            @ '' Error: '' @ (if message error \<noteq> [] then message error else ''Unknown error'')
            @ ''. Please check your connection or plugin settings.'') w)"

text \<open>
  The \<^verbatim>\<open>try\<close> block of \<^verbatim>\<open>syncWithGitHub\<close>: the error that reaches the \<^verbatim>\<open>catch\<close>, if
  any, and \<^verbatim>\<open>changesMade\<close> as far as it was filled in.
\<close>

definition noChanges :: ChangesMade where
  "noChanges = \<lparr>pushedCount = 0, pulledCount = 0, deletedLocallyCount = 0, deletedRemotelyCount = 0\<rparr>"

definition syncPhases ::
  "nat \<Rightarrow> 'w Platform \<Rightarrow> SyncType \<Rightarrow> string option \<Rightarrow> Plugin \<Rightarrow> 'w
   \<Rightarrow> (JsError option \<times> ChangesMade \<times> Plugin \<times> 'w) option" where
  "syncPhases n P syncType specificFilePath st0 w0 =
     (case getLocalFileStates P st0 (startNotice P syncType st0 w0) of
        (localFiles, w1) \<Rightarrow>
     (case processPendingDeletions P st0 w1 of
        (deletedRemotely, st2, w2) \<Rightarrow>
     (let changes2 = noChanges\<lparr>deletedRemotelyCount := deletedRemotely\<rparr>
      in case getRemoteFileStates n P st2 w2 of
           None \<Rightarrow> None
         | Some (remoteFiles, st3, w3) \<Rightarrow>
     (case detectConflicts P localFiles remoteFiles st3 w3 of
        (Inl error, st4, w4) \<Rightarrow> Some (Some error, changes2, st4, w4)
      | (Inr conflicts, st4, w4) \<Rightarrow>
     (case resolveConflicts P conflicts syncType st4 w4 of
        None \<Rightarrow> None
      | Some (Inl error, st5, w5) \<Rightarrow> Some (Some error, changes2, st5, w5)
      | Some (Inr u, st5, w5) \<Rightarrow>
     (case performSync n P localFiles remoteFiles st5 w5 of
        None \<Rightarrow> None
      | Some ((pushed, pulled, deletedLocally), st6, w6) \<Rightarrow>
          (let changes = changes2\<lparr>pushedCount := pushed, pulledCount := pulled,
                                   deletedLocallyCount := deletedLocally\<rparr>;
               now = dateNow P w6;
               st7 = st6\<lparr>syncState := (syncState st6)\<lparr>lastSync := now\<rparr>,
                         settings := (settings st6)\<lparr>lastSyncTime := now\<rparr>\<rparr>;
               w7 = savePluginData P st7 w6
           in Some (None, changes, st7,
                    completionNotice P syncType specificFilePath changes st7 w7))))))))"

text \<open>
  \<^verbatim>\<open>syncWithGitHub(syncType, specificFilePath)\<close>. The function returns nothing; the
  model returns how the run ended and \<^verbatim>\<open>changesMade\<close>. The status bar is left out.
\<close>

datatype RunOutcome = Refused | Failed JsError | Completed

definition syncWithGitHub ::
  "nat \<Rightarrow> 'w Platform \<Rightarrow> SyncType \<Rightarrow> string option \<Rightarrow> Plugin \<Rightarrow> 'w
   \<Rightarrow> (RunOutcome \<times> ChangesMade \<times> Plugin \<times> 'w) option" where
  "syncWithGitHub n P syncType specificFilePath st w =
     (case validateSettings P st w of
        (valid, w1) \<Rightarrow>
          if \<not> valid \<or> inProgress (syncState st)
          then Some (Refused, noChanges, st,
                     if inProgress (syncState st)
                     then showNotice P ''Sync in progress, please wait.'' w1 else w1)
          else (let st1 = st\<lparr>syncState := (syncState st)\<lparr>inProgress := True\<rparr>\<rparr>
                in case syncPhases n P syncType specificFilePath st1 w1 of
                     None \<Rightarrow> None
                   | Some (thrown, changes, st2, w2) \<Rightarrow>
                       (let w3 = (case thrown of
                                    None \<Rightarrow> w2
                                  | Some error \<Rightarrow> failureNotice P syncType specificFilePath error w2);
                            st3 = st2\<lparr>syncState := (syncState st2)\<lparr>inProgress := False\<rparr>\<rparr>
                        in Some ((case thrown of None \<Rightarrow> Completed | Some error \<Rightarrow> Failed error),
                                 changes, st3, savePluginData P st3 w3))))"

section \<open>A simulated host and server for closed instances\<close>

text \<open>
  A world for running the engine on concrete inputs: a clock, the remote repository and
  the vault as lists of path and content, the notices shown and the number of saves.
  The server behaves like the contents API: the revision id of a file is a function of
  its content, a GET of a directory lists its direct entries, a PUT or DELETE with a
  stale or missing revision id is answered with 409, and an absent path with 404. The
  remote repository changes only through such a PUT or DELETE. Nobody edits a document,
  and the dialog answers \<open>local\<close>.
\<close>

record World =
  w_now :: int
  w_remote :: "(string \<times> string) list"
  w_local :: "(string \<times> string) list"
  w_notices :: "string list"
  w_saves :: nat

definition blobSha :: "string \<Rightarrow> string" where
  "blobSha content = ''blob:'' @ content"

definition baseName :: "string \<Rightarrow> string" where
  "baseName p = last (split CHR ''/'' p)"

definition simItem :: "string \<Rightarrow> string \<times> string \<Rightarrow> RemoteItem" where
  "simItem pre entry =
     (let rest = drop (length pre) (fst entry)
      in if CHR ''/'' \<in> set rest
         then \<lparr>ri_type = ''dir'', ri_name = hd (split CHR ''/'' rest),
               ri_path = pre @ hd (split CHR ''/'' rest), ri_sha = ''tree''\<rparr>
         else \<lparr>ri_type = ''file'', ri_name = rest, ri_path = fst entry,
               ri_sha = blobSha (snd entry)\<rparr>)"

definition simListing :: "string \<Rightarrow> (string \<times> string) list \<Rightarrow> RemoteItem list" where
  "simListing dir remote =
     (let pre = (if dir = [] then [] else dir @ ''/'')
      in remdups (map (simItem pre) (filter (\<lambda>entry. prefix pre (fst entry)) remote)))"

definition simResponse :: "nat \<Rightarrow> Json \<Rightarrow> JsError + HttpResponse" where
  "simResponse s j = Inr \<lparr>r_status = s, r_text = showNat s, r_json = j\<rparr>"

definition simRequest :: "Request \<Rightarrow> World \<Rightarrow> (JsError + HttpResponse) \<times> World" where
  "simRequest req w0 =
     (let w = w0\<lparr>w_now := w_now w0 + 100\<rparr>;
          p = req_path req;
          current = map_of (w_remote w) p
      in case req_method req of
           GET \<Rightarrow>
             (case current of
                Some content \<Rightarrow>
                  (simResponse 200
                     (JObject \<lparr>o_type = ''file'', o_name = baseName p, o_path = p,
                               o_sha = Some (blobSha content), o_content = Some content,
                               o_content_sha = None\<rparr>), w)
              | None \<Rightarrow>
                  if simListing p (w_remote w) = [] \<and> p \<noteq> [] then (simResponse 404 JNull, w)
                  else (simResponse 200 (JArray (simListing p (w_remote w))), w))
         | PUT \<Rightarrow>
             (case req_body req of
                None \<Rightarrow> (simResponse 422 JNull, w)
              | Some b \<Rightarrow>
                  if b_sha b = map_option blobSha current
                  then (simResponse 200
                          (JObject \<lparr>o_type = ''file'', o_name = baseName p, o_path = p,
                                    o_sha = None, o_content = None,
                                    o_content_sha = Some (blobSha (orEmpty (b_content b)))\<rparr>),
                        w\<lparr>w_remote := AList.update p (orEmpty (b_content b)) (w_remote w)\<rparr>)
                  else (simResponse 409 JNull, w))
         | DELETE \<Rightarrow>
             (case current of
                None \<Rightarrow> (simResponse 404 JNull, w)
              | Some content \<Rightarrow>
                  (case req_body req of
                     None \<Rightarrow> (simResponse 422 JNull, w)
                   | Some b \<Rightarrow>
                       if b_sha b = Some (blobSha content)
                       then (simResponse 200 JNull, w\<lparr>w_remote := AList.delete p (w_remote w)\<rparr>)
                       else (simResponse 409 JNull, w))))"

definition simFile :: "string \<Rightarrow> TFile" where
  "simFile p = \<lparr>tf_path = p, tf_name = baseName p, tf_mtime = 0\<rparr>"

definition simRead :: "TFile \<Rightarrow> World \<Rightarrow> (JsError + string) \<times> World" where
  "simRead f w =
     (case map_of (w_local w) (tf_path f) of
        Some content \<Rightarrow> (Inr content, w)
      | None \<Rightarrow> (Inl \<lparr>message = ''File not found'', status = None\<rparr>, w))"

definition sim :: "World Platform" where
  "sim =
     \<lparr>requestUrl = simRequest,
      setTimeout = (\<lambda>d w. w\<lparr>w_now := w_now w + \<lfloor>d\<rfloor>\<rparr>),
      dateNow = w_now,
      calculateChecksum = (\<lambda>c. ''sum:'' @ c),
      encodeBase64 = (\<lambda>c. c),
      decodeBase64 = (\<lambda>c. case c of
                        None \<Rightarrow> Inl \<lparr>message = ''Failed to decode base64 string'', status = None\<rparr>
                      | Some t \<Rightarrow> Inr t),
      getMarkdownFiles = (\<lambda>w. map simFile (filter (\<lambda>p. endsWith p ''.md'') (map fst (w_local w)))),
      getAbstractFileByPath =
        (\<lambda>p w. if map_of (w_local w) p \<noteq> None then Some (IsFile (simFile p))
                else if list_ex (\<lambda>q. prefix (p @ ''/'') q) (map fst (w_local w))
                then Some (IsFolder p) else None),
      vaultRead = simRead,
      vaultCachedRead = simRead,
      vaultModify =
        (\<lambda>f c w. if map_of (w_local w) (tf_path f) \<noteq> None
                  then (Inr (), w\<lparr>w_local := AList.update (tf_path f) c (w_local w)\<rparr>)
                  else (Inl \<lparr>message = ''File not found'', status = None\<rparr>, w)),
      vaultCreate =
        (\<lambda>p c w. if map_of (w_local w) p = None
                  then (Inr (), w\<lparr>w_local := AList.update p c (w_local w)\<rparr>)
                  else (Inl \<lparr>message = ''File already exists.'', status = None\<rparr>, w)),
      vaultDelete = (\<lambda>f w. (Inr (), w\<lparr>w_local := AList.delete (tf_path f) (w_local w)\<rparr>)),
      createFolder = (\<lambda>p w. (Inr (), w)),
      getActiveFile = (\<lambda>w. None),
      getBasename = (\<lambda>p w. Some (baseName p)),
      askForResolution = (\<lambda>p l r w. Some (Local, w)),
      saveData = (\<lambda>d w. w\<lparr>w_saves := w_saves w + 1\<rparr>),
      showNotice = (\<lambda>m w. w\<lparr>w_notices := w_notices w @ [m]\<rparr>)\<rparr>"

definition simWorld :: "(string \<times> string) list \<Rightarrow> (string \<times> string) list \<Rightarrow> World" where
  "simWorld remote local =
     \<lparr>w_now = 1700000000000, w_remote = remote, w_local = local, w_notices = [], w_saves = 0\<rparr>"

definition configured :: "string \<Rightarrow> ConflictResolution \<Rightarrow> Plugin" where
  "configured sp policy =
     \<lparr>settings = DEFAULT_SETTINGS\<lparr>githubToken := ''t'', repoOwner := ''o'', repoName := ''r'',
                   syncPath := sp, conflictResolution := policy\<rparr>,
      syncState = initialSyncState\<rparr>"

text \<open>
  Further closed instances: two runs in a row with nothing happening in between, a
  document recorded as synchronized with a given content, a plugin whose guard is set,
  and a host whose base64 decoder rejects every input.
\<close>

definition twoRuns ::
  "nat \<Rightarrow> 'w Platform \<Rightarrow> SyncType \<Rightarrow> Plugin \<Rightarrow> 'w
   \<Rightarrow> ((RunOutcome \<times> ChangesMade \<times> 'w) \<times> (RunOutcome \<times> ChangesMade \<times> 'w)) option" where
  "twoRuns n P syncType st0 w0 =
     (case syncWithGitHub n P syncType None st0 w0 of
        None \<Rightarrow> None
      | Some (out1, c1, st1, w1) \<Rightarrow>
          (case syncWithGitHub n P syncType None st1 w1 of
             None \<Rightarrow> None
           | Some (out2, c2, st2, w2) \<Rightarrow> Some ((out1, c1, w1), (out2, c2, w2))))"

definition trackedAt :: "string \<Rightarrow> string \<Rightarrow> Plugin \<Rightarrow> Plugin" where
  "trackedAt p content st =
     setMetadata p
       \<lparr>md_path = p, githubBlobSha = blobSha content, lastModified = 0,
        localChecksum = ''sum:'' @ content, remoteContentChecksum = ''sum:'' @ content,
        conflicted = False\<rparr> st"

definition busy :: "Plugin \<Rightarrow> Plugin" where
  "busy st = st\<lparr>syncState := (syncState st)\<lparr>inProgress := True\<rparr>\<rparr>"

definition simUndecodable :: "World Platform" where
  "simUndecodable =
     sim\<lparr>decodeBase64 :=
           (\<lambda>c. Inl \<lparr>message = ''Failed to decode base64 string'', status = None\<rparr>)\<rparr>"

text \<open>A state in which the push of a path is recorded at a given time.\<close>

definition pushedAt :: "string \<Rightarrow> int \<Rightarrow> Plugin \<Rightarrow> Plugin" where
  "pushedAt p t st =
     st\<lparr>syncState := (syncState st)\<lparr>recentlyPushedFiles :=
           (recentlyPushedFiles (syncState st))(p \<mapsto> t)\<rparr>\<rparr>"

definition localState :: "string \<Rightarrow> string \<Rightarrow> string \<times> LocalFileState" where
  "localState p content =
     (p, \<lparr>lf_file = simFile p, lf_content = content, lf_checksum = ''sum:'' @ content,
          lf_mtime = 0\<rparr>)"

definition remoteState :: "string \<Rightarrow> string \<Rightarrow> string \<times> RemoteFileInfo" where
  "remoteState p content = (p, \<lparr>rf_path = p, rf_sha = blobSha content, rf_type = ''file''\<rparr>)"

text \<open>
  A host whose user dismisses the conflict dialog without pressing one of its buttons
  (the Escape key, or a click outside the dialog).
\<close>

definition simDismissed :: "World Platform" where
  "simDismissed = sim\<lparr>askForResolution := (\<lambda>p l r w. None)\<rparr>"

text \<open>
  A state in which two documents are known under a remote revision id and the push of
  the first one is recorded.
\<close>

definition twoTracked :: Plugin where
  "twoTracked =
     pushedAt ''x.md'' 1699999990000
       (trackedAt ''x.md'' ''NEW'' (trackedAt ''y.md'' ''Y'' (configured [] Local)))"

text \<open>
  The command and the ribbon icon of the plugin: \<^verbatim>\<open>this.syncWithGitHub('Manual Sync')\<close>,
  a run of the whole vault.
\<close>

definition manualSync ::
  "nat \<Rightarrow> 'w Platform \<Rightarrow> Plugin \<Rightarrow> 'w \<Rightarrow> (RunOutcome \<times> ChangesMade \<times> Plugin \<times> 'w) option" where
  "manualSync n P st w = syncWithGitHub n P ManualSync None st w"

text \<open>
  A rename by the user in the simulated vault, a plugin with automatic runs switched
  off, and the state and world after two renames: the tracked document \<open>x.md\<close> is
  renamed to \<open>x.txt\<close> and then to \<open>y.md\<close>, the listener running after each. The
  repository holds a file \<open>x.txt\<close> of its own next to \<open>x.md\<close>.
\<close>

definition renameInVault :: "string \<Rightarrow> string \<Rightarrow> World \<Rightarrow> World" where
  "renameInVault oldPath newPath w =
     w\<lparr>w_local := map (\<lambda>(p, content). if p = oldPath then (newPath, content) else (p, content))
                     (w_local w)\<rparr>"

definition manualOnly :: Plugin where
  "manualOnly =
     (configured [] Local)\<lparr>settings := (settings (configured [] Local))\<lparr>autoSync := False\<rparr>\<rparr>"

definition renamedTwice :: "Plugin \<times> World" where
  "renamedTwice =
     (case renameListener sim (simFile ''x.txt'') ''x.md'' (trackedAt ''x.md'' ''A'' manualOnly)
             (renameInVault ''x.md'' ''x.txt''
                (simWorld [(''x.md'', ''A''), (''x.txt'', ''T'')] [(''x.md'', ''A'')])) of
        (r1, st1, w1) \<Rightarrow>
          (case renameListener sim (simFile ''y.md'') ''x.txt'' st1
                  (renameInVault ''x.txt'' ''y.md'' w1) of
             (r2, st2, w2) \<Rightarrow> (st2, w2)))"

section \<open>What a listing was recorded from\<close>

text \<open>
  For the properties of the remote listing: the items that the answers of the server in
  a list of exchanges hold (the entries of an array, or the single object), and the
  relation between such an item and an entry of the listing made from it.
\<close>

fun answerItems :: "Event \<Rightarrow> RemoteItem list" where
  "answerItems (Requested q (Inr response)) =
     (case r_json response of
        JArray items \<Rightarrow> items
      | JObject obj \<Rightarrow> [\<lparr>ri_type = o_type obj, ri_name = o_name obj, ri_path = o_path obj,
                         ri_sha = orEmpty (o_sha obj)\<rparr>]
      | JNull \<Rightarrow> [])"
| "answerItems (Requested q (Inl e)) = []"
| "answerItems (Slept d) = []"

definition listedItems :: "Event list \<Rightarrow> RemoteItem list" where
  "listedItems tr = concat (map answerItems tr)"

definition recordedFrom :: "Plugin \<Rightarrow> RemoteItem \<Rightarrow> string \<times> RemoteFileInfo \<Rightarrow> bool" where
  "recordedFrom st item e =
     (ri_type item = ''file'' \<and> isMarkdownFile (ri_name item)
      \<and> fst e = getLocalPath (syncPath (settings st)) (ri_path item)
      \<and> rf_path (snd e) = ri_path item \<and> rf_type (snd e) = ''file'')"

text \<open>
  A closed instance with the sync path \<open>notes\<close>: one tracked document in the vault next
  to files that are not tracked, and a Markdown file and a picture in the remote folder.
\<close>

definition notesPlugin :: Plugin where
  "notesPlugin = trackedAt ''notes/x.md'' ''X'' (configured ''notes'' Local)"

definition notesWorld :: World where
  "notesWorld = simWorld [(''notes/a.md'', ''B''), (''notes/pic.png'', ''P'')]
                           [(''notes/x.md'', ''X''), (''c.md'', ''C''), (''notes/y.txt'', ''Y'')]"

definition notesListing :: "(string \<times> RemoteFileInfo) list" where
  "notesListing = [(''a.md'', \<lparr>rf_path = ''notes/a.md'', rf_sha = ''blob:B'', rf_type = ''file''\<rparr>)]"

section \<open>Properties of the string operations\<close>

lemma split_not_Nil: "split c s \<noteq> []"
  by (induction s) (auto split: list.splits)

lemma split_append_sep: "split c (a @ c # b) = split c a @ split c b"
proof (induction a)
  case Nil
  show ?case by simp
next
  case (Cons x a)
  show ?case
  proof (cases "x = c")
    case True
    with Cons show ?thesis by simp
  next
    case False
    obtain l ls where sa: "split c a = l # ls"
      using split_not_Nil [of c a] by (cases "split c a") auto
    with Cons False show ?thesis by simp
  qed
qed

lemma split_no_sep: "c \<notin> set s \<Longrightarrow> split c s = [s]"
  by (induction s) auto

lemma mergeLoop_flag:
  "snd (mergeLoop ll rl (m, h)) = (h \<or> \<not> set rl \<subseteq> set ll)"
  by (induction rl arbitrary: m h) auto

lemma mergeLoop_lines:
  "fst (mergeLoop ll rl (m, h)) = m @ filter (\<lambda>l. l \<notin> set ll) rl"
  by (induction rl arbitrary: m h) auto

section \<open>The merge policy\<close>

lemma mergeContent_cases:
  "mergeContent l r =
     (if set (split CHR 0x0A r) \<subseteq> set (split CHR 0x0A l) then l
      else ''<<<<<<< local version\<newline>'' @ l @ ''\<newline>=======\<newline>''
           @ r @ ''\<newline>>>>>>>> remote version\<newline>'')"
proof -
  obtain m h where mh: "mergeLoop (split CHR 0x0A l) (split CHR 0x0A r) (split CHR 0x0A l, False) = (m, h)"
    by (cases "mergeLoop (split CHR 0x0A l) (split CHR 0x0A r) (split CHR 0x0A l, False)")
  have "h = (\<not> set (split CHR 0x0A r) \<subseteq> set (split CHR 0x0A l))"
    using mergeLoop_flag [of "split CHR 0x0A l" "split CHR 0x0A r" "split CHR 0x0A l" False] mh
    by simp
  with mh show ?thesis
    by (simp add: mergeContent_def Let_def)
qed

lemma split_markers:
  "split CHR 0x0A (''<<<<<<< local version\<newline>'' @ l @ ''\<newline>=======\<newline>''
       @ r @ ''\<newline>>>>>>>> remote version\<newline>'')
   = [''<<<<<<< local version''] @ split CHR 0x0A l @ [''=======''] @ split CHR 0x0A r
     @ [''>>>>>>> remote version'', '''']"
proof -
  have a: "''<<<<<<< local version\<newline>'' @ l @ ''\<newline>=======\<newline>''
       @ r @ ''\<newline>>>>>>>> remote version\<newline>''
     = ''<<<<<<< local version'' @ CHR 0x0A # (l @ CHR 0x0A # (''======='' @ CHR 0x0A #
         (r @ CHR 0x0A # (''>>>>>>> remote version'' @ CHR 0x0A # ''''))))"
    by simp
  show ?thesis
    unfolding a split_append_sep by (simp add: split_no_sep)
qed

text \<open>
  C2, as the code has it. When every remote line occurs among the local lines the merge
  returns the local content unchanged. Otherwise the result is the marker line
  \<open><<<<<<< local version\<close>, the whole local content, the separator \<open>=======\<close>, the
  whole remote content (shared lines included) and the marker line
  \<open>>>>>>>> remote version\<close>; its lines then contain both marker lines, the separator,
  every local line and every remote line.
\<close>

theorem mergeContent_policy:
  "mergeContent l r =
     (if set (split CHR 0x0A r) \<subseteq> set (split CHR 0x0A l) then l
      else ''<<<<<<< local version\<newline>'' @ l @ ''\<newline>=======\<newline>''
           @ r @ ''\<newline>>>>>>>> remote version\<newline>'')
   \<and> (\<not> set (split CHR 0x0A r) \<subseteq> set (split CHR 0x0A l) \<longrightarrow>
        split CHR 0x0A (mergeContent l r)
          = [''<<<<<<< local version''] @ split CHR 0x0A l @ [''=======''] @ split CHR 0x0A r
            @ [''>>>>>>> remote version'', ''''])"
  using mergeContent_cases [of l r] split_markers [of l r] by simp

theorem mergeContent_policy_witness:
  "mergeContent ''a\<newline>b'' ''a'' = ''a\<newline>b''
   \<and> \<not> set (split CHR 0x0A ''a\<newline>c'') \<subseteq> set (split CHR 0x0A ''a\<newline>b'')
   \<and> split CHR 0x0A (mergeContent ''a\<newline>b'' ''a\<newline>c'')
      = [''<<<<<<< local version'', ''a'', ''b'', ''======='', ''a'', ''c'',
         ''>>>>>>> remote version'', '''']"
  using mergeContent_policy [of "''a\<newline>b''" "''a''"]
        mergeContent_policy [of "''a\<newline>b''" "''a\<newline>c''"]
  by simp

text \<open>
  The claim as stated fails: for local lines \<open>a, b\<close> and remote lines \<open>a, c\<close> the part
  after the separator is the whole remote content \<open>a, c\<close>, not only the line \<open>c\<close> that
  is absent from the local version.
\<close>

theorem mergeContent_not_only_unique_lines:
  "mergeContent ''a\<newline>b'' ''a\<newline>c''
     = ''<<<<<<< local version\<newline>a\<newline>b\<newline>=======\<newline>a\<newline>c\<newline>>>>>>>> remote version\<newline>''
   \<and> mergeContent_as_specified ''a\<newline>b'' ''a\<newline>c''
     = ''<<<<<<< local version\<newline>a\<newline>b\<newline>=======\<newline>c\<newline>>>>>>>> remote version\<newline>''
   \<and> mergeContent ''a\<newline>b'' ''a\<newline>c'' \<noteq> mergeContent_as_specified ''a\<newline>b'' ''a\<newline>c''"
  by (simp add: mergeContent_def mergeContent_as_specified_def joinLines_def)

section \<open>The retry policy of the remote client\<close>

lemma logged_requestUrl:
  "requestUrl (logged P) req (w, tr) =
     (fst (requestUrl P req w),
      (snd (requestUrl P req w), tr @ [Requested req (fst (requestUrl P req w))]))"
  by (simp add: logged_def split: prod.splits)

lemma logged_setTimeout: "setTimeout (logged P) d (w, tr) = (setTimeout P d w, tr @ [Slept d])"
  by (simp add: logged_def)

lemma logged_dateNow: "dateNow (logged P) (w, tr) = dateNow P w"
  by (simp add: logged_def)

lemma retry_loop_trace:
  "attempts < retries \<Longrightarrow>
   \<exists>outs. snd (snd (makeGitHubRequest_loop (logged P) req retries delay attempts (w, tr0)))
             = tr0 @ retryTrace req outs delay
        \<and> outs \<noteq> [] \<and> length outs \<le> retries - attempts
        \<and> (\<forall>r \<in> set (butlast outs). retryableFailure r)
        \<and> fst (makeGitHubRequest_loop (logged P) req retries delay attempts (w, tr0))
            = responseOutcome (last outs)
        \<and> (length outs < retries - attempts \<longrightarrow> \<not> retryableFailure (last outs))"
proof (induction "retries - attempts" arbitrary: attempts delay w tr0)
  case 0
  then show ?case by simp
next
  case (Suc n)
  obtain r w1 where rw: "requestUrl P req w = (r, w1)" by (cases "requestUrl P req w")
  show ?case
  proof (cases "Suc attempts < retries \<and> retryableFailure r")
    case False
    have "makeGitHubRequest_loop (logged P) req retries delay attempts (w, tr0)
          = (responseOutcome r, (w1, tr0 @ [Requested req r]))"
      using Suc.prems False rw
      by (subst makeGitHubRequest_loop.simps)
         (auto simp: logged_requestUrl retryableFailure_def split: sum.splits)
    moreover have "\<not> retryableFailure r \<or> retries - attempts = 1" using False Suc.prems by auto
    ultimately show ?thesis
      using Suc.prems by (intro exI [of _ "[r]"]) auto
  next
    case True
    then obtain e where e: "responseOutcome r = Inl e" "isRetryableError e"
      by (auto simp: retryableFailure_def split: sum.splits)
    have step: "makeGitHubRequest_loop (logged P) req retries delay attempts (w, tr0)
          = makeGitHubRequest_loop (logged P) req retries (delay * (3 / 2)) (Suc attempts)
              (setTimeout P delay w1, tr0 @ [Requested req r, Slept delay])"
      using Suc.prems True rw e
      by (subst makeGitHubRequest_loop.simps)
         (simp add: logged_requestUrl logged_setTimeout)
    have n: "n = retries - Suc attempts" using Suc.hyps(2) by simp
    from Suc.hyps(1) [OF n, of "delay * (3 / 2)" "setTimeout P delay w1"
        "tr0 @ [Requested req r, Slept delay]"] True
    obtain outs where outs:
      "snd (snd (makeGitHubRequest_loop (logged P) req retries (delay * (3 / 2)) (Suc attempts)
              (setTimeout P delay w1, tr0 @ [Requested req r, Slept delay])))
         = (tr0 @ [Requested req r, Slept delay]) @ retryTrace req outs (delay * (3 / 2))"
      "outs \<noteq> []" "length outs \<le> retries - Suc attempts"
      "\<forall>r \<in> set (butlast outs). retryableFailure r"
      "fst (makeGitHubRequest_loop (logged P) req retries (delay * (3 / 2)) (Suc attempts)
              (setTimeout P delay w1, tr0 @ [Requested req r, Slept delay]))
         = responseOutcome (last outs)"
      "length outs < retries - Suc attempts \<longrightarrow> \<not> retryableFailure (last outs)"
      by blast
    obtain o1 os where os: "outs = o1 # os" using outs(2) by (cases outs) auto
    show ?thesis
      using outs True Suc.prems unfolding step os
      by (intro exI [of _ "r # o1 # os"]) auto
  qed
qed

text \<open>The wrapper does not change what the loop returns nor the world it leaves.\<close>

lemma logged_retry_loop:
  "fst (makeGitHubRequest_loop (logged P) req retries delay attempts (w, tr))
     = fst (makeGitHubRequest_loop P req retries delay attempts w)
   \<and> fst (snd (makeGitHubRequest_loop (logged P) req retries delay attempts (w, tr)))
     = snd (makeGitHubRequest_loop P req retries delay attempts w)"
proof (induction "retries - attempts" arbitrary: attempts delay w tr)
  case 0
  then show ?case
    by (simp add: makeGitHubRequest_loop.simps [of _ _ retries _ attempts])
next
  case (Suc n)
  then have n: "n = retries - Suc attempts" and lt: "attempts < retries" by auto
  obtain r w1 where rw: "requestUrl P req w = (r, w1)" by (cases "requestUrl P req w")
  note ih = Suc.hyps(1) [OF n, of "delay * (3 / 2)" "setTimeout P delay w1"
      "tr @ [Requested req r, Slept delay]"]
  show ?case
    using lt rw ih
    by (subst (1 2 3 4) makeGitHubRequest_loop.simps)
       (auto simp: logged_requestUrl logged_setTimeout split: sum.splits)
qed

lemma first_failure_propagates:
  assumes "responseOutcome (fst (requestUrl P req w)) = Inl e" and "\<not> isRetryableError e"
  shows "makeGitHubRequest (logged P) req 3 1000 (w, [])
           = (Inl e, snd (requestUrl P req w), [Requested req (fst (requestUrl P req w))])"
  using assms unfolding makeGitHubRequest_def
  by (subst makeGitHubRequest_loop.simps) (simp add: logged_requestUrl)

lemma isRetryableError_iff:
  "isRetryableError e \<longleftrightarrow>
     (includesStr (message e) ''net::ERR_TIMED_OUT'' \<or> includesStr (message e) ''Failed to fetch''
      \<or> status e \<in> {Some 500, Some 502, Some 503, Some 504, Some 409})"
  by (cases "message e") (auto simp: isRetryableError_def split: option.splits)

text \<open>
  Claim C4, as it holds on the code. A call of \<^verbatim>\<open>makeGitHubRequest\<close> with its default
  arguments makes between one and three attempts, all with the same request; it waits
  1000 ms after the first failed attempt and 1500 ms after the second; every attempt but
  the last failed with a retryable error, and a call that stops before the third attempt
  stops on a success or on a failure that is not retryable; the result is the outcome of
  the last attempt. A first failure that is not retryable is returned after that single
  attempt. An error is retryable exactly when its message contains
  \<open>net::ERR_TIMED_OUT\<close> or \<open>Failed to fetch\<close>, or its status is 500, 502, 503, 504 or 409:
  the test reads these two markers and five numbers and nothing else, so any other
  failure of the transport is not retried, and a 404 or 401 is returned at once only if
  its text holds neither marker.
\<close>

theorem makeGitHubRequest_retry_policy:
  "(\<exists>outs. snd (snd (makeGitHubRequest (logged P) req 3 1000 (w, []))) = retryTrace req outs 1000
        \<and> outs \<noteq> [] \<and> length outs \<le> 3
        \<and> (\<forall>r \<in> set (butlast outs). retryableFailure r)
        \<and> (length outs < 3 \<longrightarrow> \<not> retryableFailure (last outs))
        \<and> fst (makeGitHubRequest (logged P) req 3 1000 (w, [])) = responseOutcome (last outs))
   \<and> (\<forall>e. responseOutcome (fst (requestUrl P req w)) = Inl e \<and> \<not> isRetryableError e \<longrightarrow>
          makeGitHubRequest (logged P) req 3 1000 (w, [])
            = (Inl e, snd (requestUrl P req w), [Requested req (fst (requestUrl P req w))]))
   \<and> (\<forall>e. isRetryableError e \<longleftrightarrow>
          (includesStr (message e) ''net::ERR_TIMED_OUT''
           \<or> includesStr (message e) ''Failed to fetch''
           \<or> status e \<in> {Some 500, Some 502, Some 503, Some 504, Some 409}))
   \<and> fst (makeGitHubRequest (logged P) req 3 1000 (w, [])) = fst (makeGitHubRequest P req 3 1000 w)"
proof -
  have a: "\<exists>outs. snd (snd (makeGitHubRequest (logged P) req 3 1000 (w, [])))
                    = retryTrace req outs 1000
        \<and> outs \<noteq> [] \<and> length outs \<le> 3
        \<and> (\<forall>r \<in> set (butlast outs). retryableFailure r)
        \<and> (length outs < 3 \<longrightarrow> \<not> retryableFailure (last outs))
        \<and> fst (makeGitHubRequest (logged P) req 3 1000 (w, [])) = responseOutcome (last outs)"
    using retry_loop_trace [of 0 3 P req 1000 w "[]"]
    unfolding makeGitHubRequest_def by auto
  have d: "fst (makeGitHubRequest (logged P) req 3 1000 (w, [])) = fst (makeGitHubRequest P req 3 1000 w)"
    unfolding makeGitHubRequest_def using logged_retry_loop [of P req 3 1000 0 w "[]"] by simp
  show ?thesis
    using a d first_failure_propagates [of P req w] isRetryableError_iff by blast
qed

theorem makeGitHubRequest_retry_policy_witness:
  "makeGitHubRequest (logged scripted) exampleRequest 3 1000
     ([httpResponse 503 ''busy'' JNull, httpResponse 503 ''busy'' JNull,
       httpResponse 200 ''ok'' JNull], [])
   = (Inr JNull, [],
      [Requested exampleRequest (httpResponse 503 ''busy'' JNull), Slept 1000,
       Requested exampleRequest (httpResponse 503 ''busy'' JNull), Slept 1500,
       Requested exampleRequest (httpResponse 200 ''ok'' JNull)])
   \<and> makeGitHubRequest (logged scripted) exampleRequest 3 1000
       ([httpResponse 404 ''Not Found'' JNull, httpResponse 200 ''ok'' JNull], [])
     = (Inl \<lparr>message = ''GitHub API Error: 404 - Not Found'', status = Some 404\<rparr>,
        [httpResponse 200 ''ok'' JNull],
        [Requested exampleRequest (httpResponse 404 ''Not Found'' JNull)])
   \<and> \<not> isRetryableError \<lparr>message = ''GitHub API Error: 404 - Not Found'', status = Some 404\<rparr>"
proof -
  let ?w = "[httpResponse 404 ''Not Found'' JNull, httpResponse 200 ''ok'' JNull]"
  let ?e = "\<lparr>message = ''GitHub API Error: 404 - Not Found'', status = Some 404\<rparr>"
  have o: "responseOutcome (fst (requestUrl scripted exampleRequest ?w)) = Inl ?e"
    by (simp add: scripted_def httpResponse_def responseOutcome_def apiError_def)
  have n: "\<not> isRetryableError ?e"
    by (simp add: isRetryableError_def)
  have "makeGitHubRequest (logged scripted) exampleRequest 3 1000 (?w, [])
          = (Inl ?e, snd (requestUrl scripted exampleRequest ?w),
             [Requested exampleRequest (fst (requestUrl scripted exampleRequest ?w))])"
    using makeGitHubRequest_retry_policy [of scripted exampleRequest ?w] o n by blast
  then have b: "makeGitHubRequest (logged scripted) exampleRequest 3 1000 (?w, [])
          = (Inl ?e, [httpResponse 200 ''ok'' JNull],
             [Requested exampleRequest (httpResponse 404 ''Not Found'' JNull)])"
    by (simp add: scripted_def)
  have a: "makeGitHubRequest (logged scripted) exampleRequest 3 1000
     ([httpResponse 503 ''busy'' JNull, httpResponse 503 ''busy'' JNull,
       httpResponse 200 ''ok'' JNull], [])
   = (Inr JNull, [],
      [Requested exampleRequest (httpResponse 503 ''busy'' JNull), Slept 1000,
       Requested exampleRequest (httpResponse 503 ''busy'' JNull), Slept 1500,
       Requested exampleRequest (httpResponse 200 ''ok'' JNull)])"
    by (simp add: makeGitHubRequest_def makeGitHubRequest_loop.simps logged_def scripted_def
        httpResponse_def responseOutcome_def isRetryableError_def apiError_def)
  show ?thesis using a b n by simp
qed

text \<open>
  Claim C4 fails as stated: not every network-transport failure is retried. A
  \<^verbatim>\<open>requestUrl\<close> that throws \<open>net::ERR_CONNECTION_RESET\<close> (no status) is given up after the
  first attempt, although the server would have answered the second one.
\<close>

theorem connection_reset_is_not_retried:
  "makeGitHubRequest (logged scripted) exampleRequest 3 1000
     ([Inl \<lparr>message = ''net::ERR_CONNECTION_RESET'', status = None\<rparr>,
       httpResponse 200 ''ok'' JNull], [])
   = (Inl \<lparr>message = ''net::ERR_CONNECTION_RESET'', status = None\<rparr>,
      [httpResponse 200 ''ok'' JNull],
      [Requested exampleRequest (Inl \<lparr>message = ''net::ERR_CONNECTION_RESET'', status = None\<rparr>)])"
  by (simp add: makeGitHubRequest_def makeGitHubRequest_loop.simps logged_def scripted_def
      httpResponse_def responseOutcome_def isRetryableError_def)

section \<open>The delete protocol: properties\<close>

lemma mgr_logged:
  "\<exists>outs w'. makeGitHubRequest (logged P) req 3 1000 (w, tr0)
       = (responseOutcome (last outs), (w', tr0 @ retryTrace req outs 1000)) \<and> outs \<noteq> []"
proof -
  obtain outs where o: "snd (snd (makeGitHubRequest_loop (logged P) req 3 1000 0 (w, tr0)))
             = tr0 @ retryTrace req outs 1000" "outs \<noteq> []"
      "fst (makeGitHubRequest_loop (logged P) req 3 1000 0 (w, tr0)) = responseOutcome (last outs)"
    using retry_loop_trace [of 0 3 P req 1000 w tr0] by auto
  show ?thesis
    unfolding makeGitHubRequest_def using o
    by (intro exI [of _ outs] exI [of _ "fst (snd (makeGitHubRequest_loop (logged P) req 3 1000 0 (w, tr0)))"])
       (simp add: prod_eq_iff)
qed

lemma deleteLoop_unfold:
  "deleteLoop P st filePath maxRetries i w =
     (if i < maxRetries then
        (case preCheck P st filePath w of
           (Inl error, w1) \<Rightarrow>
             if status error = Some 404
             then (Inr (), markRecentlyDeleted filePath (dateNow P w1) st, w1)
             else if i < maxRetries - 1
             then deleteLoop P st filePath maxRetries (i + 1) (setTimeout P (1000 * (of_nat i + 1)) w1)
             else (Inl error, st, w1)
         | (Inr existingFileResponse, w1) \<Rightarrow>
             (case currentSha existingFileResponse of
                None \<Rightarrow> (Inr (), markRecentlyDeleted filePath (dateNow P w1) st, w1)
              | Some sha \<Rightarrow>
                  if sha = [] then (Inr (), markRecentlyDeleted filePath (dateNow P w1) st, w1)
                  else (case deleteCall P st filePath sha w1 of
                          (Inr _, w2) \<Rightarrow> (Inr (), markRecentlyDeleted filePath (dateNow P w2) st, w2)
                        | (Inl error, w2) \<Rightarrow>
                            if status error = Some 409 \<and> i < maxRetries - 1
                            then deleteLoop P st filePath maxRetries (i + 1)
                                   (setTimeout P (1000 * (of_nat i + 1)) w2)
                            else if status error = Some 404
                            then (Inr (), markRecentlyDeleted filePath (dateNow P w2) st, w2)
                            else (Inl error, st, w2))))
      else (Inr (), st, w))"
  by (subst deleteLoop.simps)
     (simp add: preCheck_def deleteCall_def currentSha_def Let_def split: prod.splits sum.splits option.splits)

lemma deleteLoop_result:
  "i < maxRetries \<Longrightarrow> deleteLoop P st filePath maxRetries i w = (res, st', w') \<Longrightarrow>
   (case res of
      Inr _ \<Rightarrow> st' = markRecentlyDeleted filePath (dateNow P w') st
    | Inl e \<Rightarrow> st' = st)"
proof (induction "maxRetries - i" arbitrary: i w)
  case 0
  then show ?case by simp
next
  case (Suc n)
  have ih: "\<And>w0. Suc i < maxRetries \<Longrightarrow> deleteLoop P st filePath maxRetries (Suc i) w0 = (res, st', w') \<Longrightarrow>
     (case res of Inr _ \<Rightarrow> st' = markRecentlyDeleted filePath (dateNow P w') st | Inl e \<Rightarrow> st' = st)"
    using Suc.hyps(1) [of "Suc i"] Suc.hyps(2) by simp
  have lt: "i < maxRetries - 1 \<Longrightarrow> Suc i < maxRetries" by simp
  show ?case
    using Suc.prems ih lt
    by (subst (asm) deleteLoop_unfold)
       (auto split: prod.splits sum.splits option.splits if_splits)
qed

lemma mgr_logged_attempts:
  "\<exists>outs w'. makeGitHubRequest (logged P) req 3 1000 (w, tr0)
       = (responseOutcome (last outs), (w', tr0 @ retryTrace req outs 1000)) \<and> clientAttempts outs"
proof -
  obtain outs where o: "snd (snd (makeGitHubRequest_loop (logged P) req 3 1000 0 (w, tr0)))
             = tr0 @ retryTrace req outs 1000" "outs \<noteq> []" "length outs \<le> 3"
      "\<forall>r \<in> set (butlast outs). retryableFailure r"
      "fst (makeGitHubRequest_loop (logged P) req 3 1000 0 (w, tr0)) = responseOutcome (last outs)"
      "length outs < 3 \<longrightarrow> \<not> retryableFailure (last outs)"
    using retry_loop_trace [of 0 3 P req 1000 w tr0] by auto
  then have c: "clientAttempts outs" by (simp add: clientAttempts_def list_all_iff)
  show ?thesis
    unfolding makeGitHubRequest_def using o(1,5) c
    by (intro exI [of _ outs] exI [of _ "fst (snd (makeGitHubRequest_loop (logged P) req 3 1000 0 (w, tr0)))"])
       (simp add: prod_eq_iff)
qed

lemma deleteLoop_rounds:
  "i < maxRetries \<Longrightarrow>
   deleteLoop (logged P) st filePath maxRetries i (w, tr0) = (res, st', (w', tr)) \<Longrightarrow>
   \<exists>tr1. tr = tr0 @ tr1
     \<and> deleteRounds (getContents st (getRemotePath (syncPath (settings st)) filePath))
          (deleteRequest st filePath (getRemotePath (syncPath (settings st)) filePath))
          maxRetries i tr1 res"
proof (induction "maxRetries - i" arbitrary: i w tr0)
  case 0
  then show ?case by simp
next
  case (Suc n)
  let ?g = "getContents st (getRemotePath (syncPath (settings st)) filePath)"
  let ?d = "deleteRequest st filePath (getRemotePath (syncPath (settings st)) filePath)"
  note lt = Suc.prems(1)
  note run = Suc.prems(2)
  have ih: "\<And>w0 t. i < maxRetries - 1 \<Longrightarrow>
       deleteLoop (logged P) st filePath maxRetries (i + 1) (w0, t) = (res, st', (w', tr)) \<Longrightarrow>
       \<exists>tr1. tr = t @ tr1 \<and> deleteRounds ?g ?d maxRetries (i + 1) tr1 res"
    using Suc.hyps(1) [of "i + 1"] Suc.hyps(2) by simp
  obtain fetched w1 where pre: "preCheck (logged P) st filePath (w, tr0)
       = (responseOutcome (last fetched), (w1, tr0 @ retryTrace ?g fetched 1000))"
    and cf: "clientAttempts fetched"
    unfolding preCheck_def using mgr_logged_attempts [of P ?g w tr0] by blast
  let ?G = "retryTrace ?g fetched 1000"
  show ?case
  proof (cases "responseOutcome (last fetched)")
    case (Inl e)
    show ?thesis
    proof (cases "status e = Some 404")
      case True
      with run pre Inl lt have "res = Inr () \<and> tr = tr0 @ ?G"
        by (subst (asm) deleteLoop_unfold) simp
      with deleteRounds.gone_at_fetch [OF lt cf Inl True] show ?thesis by blast
    next
      case False
      show ?thesis
      proof (cases "i < maxRetries - 1")
        case True
        with run pre Inl lt False
        have "deleteLoop (logged P) st filePath maxRetries (i + 1)
                (setTimeout P (1000 * (of_nat i + 1)) w1, (tr0 @ ?G) @ [Slept (1000 * (of_nat i + 1))])
              = (res, st', (w', tr))"
          by (subst (asm) deleteLoop_unfold) (simp add: logged_setTimeout)
        from ih [OF True this] obtain rest where r: "tr = ((tr0 @ ?G) @ [Slept (1000 * (of_nat i + 1))]) @ rest"
          "deleteRounds ?g ?d maxRetries (i + 1) rest res" by blast
        from deleteRounds.fetch_again [OF True cf Inl False r(2)] r(1) show ?thesis by simp
      next
        case nl: False
        with run pre Inl lt False have "res = Inl e \<and> tr = tr0 @ ?G"
          by (subst (asm) deleteLoop_unfold) auto
        with deleteRounds.fetch_fails [OF lt nl cf Inl False] show ?thesis by blast
      qed
    qed
  next
    case (Inr j)
    show ?thesis
    proof (cases "currentSha j = None \<or> currentSha j = Some []")
      case True
      with run pre Inr lt have "res = Inr () \<and> tr = tr0 @ ?G"
        by (subst (asm) deleteLoop_unfold) auto
      with deleteRounds.nothing_to_delete [OF lt cf Inr True] show ?thesis by blast
    next
      case False
      then obtain sha where sha: "currentSha j = Some sha" "sha \<noteq> []" by auto
      obtain submitted w2 where del: "deleteCall (logged P) st filePath sha (w1, tr0 @ ?G)
           = (responseOutcome (last submitted), (w2, (tr0 @ ?G) @ retryTrace (?d sha) submitted 1000))"
        and cs: "clientAttempts submitted"
        unfolding deleteCall_def using mgr_logged_attempts [of P "?d sha" w1 "tr0 @ ?G"] by blast
      let ?D = "retryTrace (?d sha) submitted 1000"
      show ?thesis
      proof (cases "responseOutcome (last submitted)")
        case ok: (Inr j')
        with run pre Inr lt sha del have "res = Inr () \<and> tr = tr0 @ ?G @ ?D"
          by (subst (asm) deleteLoop_unfold) simp
        with deleteRounds.deleted [OF lt cf Inr sha cs ok] show ?thesis by blast
      next
        case err: (Inl e)
        show ?thesis
        proof (cases "status e = Some 409 \<and> i < maxRetries - 1")
          case True
          with run pre Inr lt sha del err
          have "deleteLoop (logged P) st filePath maxRetries (i + 1)
                (setTimeout P (1000 * (of_nat i + 1)) w2,
                 ((tr0 @ ?G) @ ?D) @ [Slept (1000 * (of_nat i + 1))])
              = (res, st', (w', tr))"
            by (subst (asm) deleteLoop_unfold) (simp add: logged_setTimeout)
          from ih [OF conjunct2 [OF True] this] obtain rest where
            r: "tr = (((tr0 @ ?G) @ ?D) @ [Slept (1000 * (of_nat i + 1))]) @ rest"
            "deleteRounds ?g ?d maxRetries (i + 1) rest res" by blast
          from deleteRounds.conflict_again [OF conjunct2 [OF True] cf Inr sha cs err
              conjunct1 [OF True] r(2)] r(1)
          show ?thesis by simp
        next
          case nc: False
          show ?thesis
          proof (cases "status e = Some 404")
            case True
            with run pre Inr lt sha del err nc have "res = Inr () \<and> tr = tr0 @ ?G @ ?D"
              by (subst (asm) deleteLoop_unfold) (auto split: if_splits)
            with deleteRounds.gone_at_delete [OF lt cf Inr sha cs err True] show ?thesis by blast
          next
            case False
            with run pre Inr lt sha del err nc have "res = Inl e \<and> tr = tr0 @ ?G @ ?D"
              by (subst (asm) deleteLoop_unfold) (auto split: if_splits)
            with deleteRounds.delete_fails [OF lt cf Inr sha cs err False nc] show ?thesis by blast
          qed
        qed
      qed
    qed
  qed
qed

lemma deleteLoop_state:
  assumes "0 < maxRetries"
    and "deleteFileFromGitHub (logged P) st filePath sha0 maxRetries (w, tr0) = (res, st', (w', tr))"
  shows "case res of
           Inr u \<Rightarrow> st' = st\<lparr>syncState := (syncState st)\<lparr>recentlyDeletedFromRemote :=
                           (recentlyDeletedFromRemote (syncState st))(filePath \<mapsto> dateNow P w')\<rparr>\<rparr>
         | Inl e \<Rightarrow> st' = st"
  using deleteLoop_result [OF assms(1), of "logged P" st filePath "(w, tr0)" res st' "(w', tr)"]
    assms(2)
  by (simp add: deleteFileFromGitHub_def markRecentlyDeleted_def logged_dateNow split: sum.splits)

lemmas delete_eval =
  deleteFileFromGitHub_def deleteLoop.simps makeGitHubRequest_def
  makeGitHubRequest_loop.simps scripted_def logged_def httpResponse_def
  fileJson_def responseOutcome_def apiError_def isRetryableError_def getContents_def
  contentsRequest_def deleteRequest_def examplePlugin_def DEFAULT_SETTINGS_def
  getRemotePath_def stripSlashes_def stripLeadingSlash_def Let_def

lemma delete_instance_run:
  "deleteFileFromGitHub (logged scripted) examplePlugin ''a.md'' ''stale'' 3 (conflictThenOk, [])
     = (Inr (), markRecentlyDeleted ''a.md'' 1000000 examplePlugin, [],
        [Requested (getContents examplePlugin ''a.md'')
           (httpResponse 200 ''ok'' (fileJson ''a.md'' ''s1'' ''QQ=='')),
         Requested (deleteRequest examplePlugin ''a.md'' ''a.md'' ''s1'')
           (httpResponse 409 ''conflict'' JNull),
         Slept 1000,
         Requested (deleteRequest examplePlugin ''a.md'' ''a.md'' ''s1'')
           (httpResponse 409 ''conflict'' JNull),
         Slept 1500,
         Requested (deleteRequest examplePlugin ''a.md'' ''a.md'' ''s1'')
           (httpResponse 409 ''conflict'' JNull),
         Slept 1000,
         Requested (getContents examplePlugin ''a.md'')
           (httpResponse 200 ''ok'' (fileJson ''a.md'' ''s2'' ''Qg=='')),
         Requested (deleteRequest examplePlugin ''a.md'' ''a.md'' ''s2'')
           (httpResponse 200 ''ok'' JNull)])"
  by (simp add: delete_eval conflictThenOk_def)

lemma delete_instance_conflicts:
  "(case deleteFileFromGitHub (logged scripted) examplePlugin ''a.md'' ''stale'' 3
           (alwaysConflict, []) of
      (res, st', w', tr) \<Rightarrow>
        (res, length (filter isGet tr), length (filter isDelete tr)))
   = (Inl \<lparr>message = ''GitHub API Error: 409 - conflict'', status = Some 409\<rparr>, 3, 9)"
  by (simp add: delete_eval alwaysConflict_def isGet_def isDelete_def showNat.simps)

text \<open>
  Claim C3, as it holds on the code. A call of \<^verbatim>\<open>deleteFileFromGitHub\<close> with a
  positive bound runs at most \<^verbatim>\<open>maxRetries\<close> rounds. Each round sends the GET of the
  remote path on the configured branch; a 404 there, or an answer without a revision id,
  is a normal return. Otherwise the round sends the DELETE of the same remote path with
  the revision id of that GET, whatever \<^verbatim>\<open>initialFileSha\<close> the caller passed; an
  accepted DELETE or a 404 is a normal return. The remote client sends each of the two
  requests up to three times while the answer is a failure that it retries, and 409 is
  one of them: the DELETE is then sent again with the same revision id and with no GET in
  between. A 409 that is left after the client's attempts, or a failed pre-check other
  than 404, waits \<open>1000 * (i + 1)\<close> ms and starts the next round when there is one, and is
  thrown in the last round; any other failure of the DELETE is thrown at once. Every
  normal return has recorded the path in \<^verbatim>\<open>recentlyDeletedFromRemote\<close> at the current
  time, and a throw leaves the plugin state as it was.
\<close>

theorem deleteFileFromGitHub_rounds:
  assumes "deleteFileFromGitHub (logged P) st filePath initialFileSha maxRetries (w, [])
             = (res, st', (w', tr))"
    and "0 < maxRetries"
  shows "deleteRounds
           \<lparr>req_method = GET, req_token = githubToken (settings st),
            req_owner = repoOwner (settings st), req_repo = repoName (settings st),
            req_path = getRemotePath (syncPath (settings st)) filePath,
            req_ref = Some (branch (settings st)), req_body = None\<rparr>
           (\<lambda>sha. \<lparr>req_method = DELETE, req_token = githubToken (settings st),
                    req_owner = repoOwner (settings st), req_repo = repoName (settings st),
                    req_path = getRemotePath (syncPath (settings st)) filePath,
                    req_ref = None,
                    req_body = Some \<lparr>b_message = ''Delete '' @ filePath @ '' (Obsidian SyncMate)'',
                                     b_content = None, b_sha = Some sha,
                                     b_branch = branch (settings st)\<rparr>\<rparr>)
           maxRetries 0 tr res
       \<and> (case res of
             Inr u \<Rightarrow> st' = st\<lparr>syncState := (syncState st)\<lparr>recentlyDeletedFromRemote :=
                             (recentlyDeletedFromRemote (syncState st))(filePath \<mapsto> dateNow P w')\<rparr>\<rparr>
           | Inl e \<Rightarrow> st' = st)
       \<and> deleteFileFromGitHub (logged P) st filePath otherSha maxRetries (w, [])
           = (res, st', (w', tr))"
proof -
  let ?g = "getContents st (getRemotePath (syncPath (settings st)) filePath)"
  let ?d = "deleteRequest st filePath (getRemotePath (syncPath (settings st)) filePath)"
  from assms(1) have loop: "deleteLoop (logged P) st filePath maxRetries 0 (w, []) = (res, st', (w', tr))"
    by (simp add: deleteFileFromGitHub_def)
  from deleteLoop_rounds [OF assms(2) loop]
  have r: "deleteRounds ?g ?d maxRetries 0 tr res" by simp
  have g: "?g = \<lparr>req_method = GET, req_token = githubToken (settings st),
            req_owner = repoOwner (settings st), req_repo = repoName (settings st),
            req_path = getRemotePath (syncPath (settings st)) filePath,
            req_ref = Some (branch (settings st)), req_body = None\<rparr>"
    by (simp add: getContents_def contentsRequest_def)
  have d: "?d = (\<lambda>sha. \<lparr>req_method = DELETE, req_token = githubToken (settings st),
                    req_owner = repoOwner (settings st), req_repo = repoName (settings st),
                    req_path = getRemotePath (syncPath (settings st)) filePath,
                    req_ref = None,
                    req_body = Some \<lparr>b_message = ''Delete '' @ filePath @ '' (Obsidian SyncMate)'',
                                     b_content = None, b_sha = Some sha,
                                     b_branch = branch (settings st)\<rparr>\<rparr>)"
    by (rule ext) (simp add: deleteRequest_def contentsRequest_def)
  from assms(1) have o: "deleteFileFromGitHub (logged P) st filePath otherSha maxRetries (w, [])
           = (res, st', (w', tr))"
    by (simp add: deleteFileFromGitHub_def)
  from r g d deleteLoop_state [OF assms(2) assms(1)] o show ?thesis by simp
qed

theorem deleteFileFromGitHub_rounds_witness:
  "deleteFileFromGitHub (logged scripted) examplePlugin ''a.md'' ''stale'' 3 (conflictThenOk, [])
     = (Inr (), markRecentlyDeleted ''a.md'' 1000000 examplePlugin, [],
        [Requested (getContents examplePlugin ''a.md'')
           (httpResponse 200 ''ok'' (fileJson ''a.md'' ''s1'' ''QQ=='')),
         Requested (deleteRequest examplePlugin ''a.md'' ''a.md'' ''s1'')
           (httpResponse 409 ''conflict'' JNull),
         Slept 1000,
         Requested (deleteRequest examplePlugin ''a.md'' ''a.md'' ''s1'')
           (httpResponse 409 ''conflict'' JNull),
         Slept 1500,
         Requested (deleteRequest examplePlugin ''a.md'' ''a.md'' ''s1'')
           (httpResponse 409 ''conflict'' JNull),
         Slept 1000,
         Requested (getContents examplePlugin ''a.md'')
           (httpResponse 200 ''ok'' (fileJson ''a.md'' ''s2'' ''Qg=='')),
         Requested (deleteRequest examplePlugin ''a.md'' ''a.md'' ''s2'')
           (httpResponse 200 ''ok'' JNull)])
   \<and> (0::nat) < 3
   \<and> deleteRounds (getContents examplePlugin ''a.md'') (deleteRequest examplePlugin ''a.md'' ''a.md'')
         3 0
         [Requested (getContents examplePlugin ''a.md'')
           (httpResponse 200 ''ok'' (fileJson ''a.md'' ''s1'' ''QQ=='')),
         Requested (deleteRequest examplePlugin ''a.md'' ''a.md'' ''s1'')
           (httpResponse 409 ''conflict'' JNull),
         Slept 1000,
         Requested (deleteRequest examplePlugin ''a.md'' ''a.md'' ''s1'')
           (httpResponse 409 ''conflict'' JNull),
         Slept 1500,
         Requested (deleteRequest examplePlugin ''a.md'' ''a.md'' ''s1'')
           (httpResponse 409 ''conflict'' JNull),
         Slept 1000,
         Requested (getContents examplePlugin ''a.md'')
           (httpResponse 200 ''ok'' (fileJson ''a.md'' ''s2'' ''Qg=='')),
         Requested (deleteRequest examplePlugin ''a.md'' ''a.md'' ''s2'')
           (httpResponse 200 ''ok'' JNull)]
         (Inr ())
   \<and> recentlyDeletedFromRemote (syncState (markRecentlyDeleted ''a.md'' 1000000 examplePlugin)) ''a.md''
       = Some (dateNow scripted [])
   \<and> deleteFileFromGitHub (logged scripted) examplePlugin ''a.md'' ''s1'' 3 (conflictThenOk, [])
       = deleteFileFromGitHub (logged scripted) examplePlugin ''a.md'' ''stale'' 3 (conflictThenOk, [])"
proof -
  have pos: "(0::nat) < 3" by simp
  note t = deleteFileFromGitHub_rounds [OF delete_instance_run pos, of "''s1''"]
  have g: "getContents examplePlugin ''a.md''
      = \<lparr>req_method = GET, req_token = githubToken (settings examplePlugin),
         req_owner = repoOwner (settings examplePlugin), req_repo = repoName (settings examplePlugin),
         req_path = getRemotePath (syncPath (settings examplePlugin)) ''a.md'',
         req_ref = Some (branch (settings examplePlugin)), req_body = None\<rparr>"
    by (simp add: getContents_def contentsRequest_def getRemotePath_def examplePlugin_def
        DEFAULT_SETTINGS_def stripSlashes_def stripLeadingSlash_def)
  have d: "deleteRequest examplePlugin ''a.md'' ''a.md''
      = (\<lambda>sha. \<lparr>req_method = DELETE, req_token = githubToken (settings examplePlugin),
                req_owner = repoOwner (settings examplePlugin),
                req_repo = repoName (settings examplePlugin),
                req_path = getRemotePath (syncPath (settings examplePlugin)) ''a.md'',
                req_ref = None,
                req_body = Some \<lparr>b_message = ''Delete '' @ ''a.md'' @ '' (Obsidian SyncMate)'',
                                 b_content = None, b_sha = Some sha,
                                 b_branch = branch (settings examplePlugin)\<rparr>\<rparr>)"
    by (rule ext)
       (simp add: deleteRequest_def contentsRequest_def getRemotePath_def examplePlugin_def
          DEFAULT_SETTINGS_def stripSlashes_def stripLeadingSlash_def)
  have r: "deleteRounds (getContents examplePlugin ''a.md'') (deleteRequest examplePlugin ''a.md'' ''a.md'')
         3 0
         [Requested (getContents examplePlugin ''a.md'')
           (httpResponse 200 ''ok'' (fileJson ''a.md'' ''s1'' ''QQ=='')),
         Requested (deleteRequest examplePlugin ''a.md'' ''a.md'' ''s1'')
           (httpResponse 409 ''conflict'' JNull),
         Slept 1000,
         Requested (deleteRequest examplePlugin ''a.md'' ''a.md'' ''s1'')
           (httpResponse 409 ''conflict'' JNull),
         Slept 1500,
         Requested (deleteRequest examplePlugin ''a.md'' ''a.md'' ''s1'')
           (httpResponse 409 ''conflict'' JNull),
         Slept 1000,
         Requested (getContents examplePlugin ''a.md'')
           (httpResponse 200 ''ok'' (fileJson ''a.md'' ''s2'' ''Qg=='')),
         Requested (deleteRequest examplePlugin ''a.md'' ''a.md'' ''s2'')
           (httpResponse 200 ''ok'' JNull)]
         (Inr ())"
    using t [THEN conjunct1] by (simp only: g [symmetric] d [symmetric])
  have c: "recentlyDeletedFromRemote (syncState (markRecentlyDeleted ''a.md'' 1000000 examplePlugin)) ''a.md''
       = Some (dateNow scripted [])"
    using t [THEN conjunct2, THEN conjunct1] by simp
  have o: "deleteFileFromGitHub (logged scripted) examplePlugin ''a.md'' ''s1'' 3 (conflictThenOk, [])
       = deleteFileFromGitHub (logged scripted) examplePlugin ''a.md'' ''stale'' 3 (conflictThenOk, [])"
    using t [THEN conjunct2, THEN conjunct2] delete_instance_run by simp
  show ?thesis
    using delete_instance_run pos r c o by (intro conjI)
qed

text \<open>
  Claim C3 fails as worded: the first GET delivers the revision id \<^verbatim>\<open>s1\<close>, the DELETE
  that carries it is answered with 409, and the remote client sends the same DELETE two
  more times with no GET before either of them. On a server that answers every DELETE
  with 409 the call sends three GET and nine DELETE requests before it throws, three
  times the bound of three.
\<close>

theorem delete_resent_without_refetch:
  "take 6 (snd (snd (snd (deleteFileFromGitHub (logged scripted) examplePlugin ''a.md'' ''stale'' 3
                            (conflictThenOk, [])))))
     = [Requested (getContents examplePlugin ''a.md'')
           (httpResponse 200 ''ok'' (fileJson ''a.md'' ''s1'' ''QQ=='')),
         Requested (deleteRequest examplePlugin ''a.md'' ''a.md'' ''s1'')
           (httpResponse 409 ''conflict'' JNull),
         Slept 1000,
         Requested (deleteRequest examplePlugin ''a.md'' ''a.md'' ''s1'')
           (httpResponse 409 ''conflict'' JNull),
         Slept 1500,
         Requested (deleteRequest examplePlugin ''a.md'' ''a.md'' ''s1'')
           (httpResponse 409 ''conflict'' JNull)]
   \<and> fst (deleteFileFromGitHub (logged scripted) examplePlugin ''a.md'' ''stale'' 3
            (alwaysConflict, []))
       = Inl \<lparr>message = ''GitHub API Error: 409 - conflict'', status = Some 409\<rparr>
   \<and> length (filter isGet
         (snd (snd (snd (deleteFileFromGitHub (logged scripted) examplePlugin ''a.md'' ''stale'' 3
                           (alwaysConflict, [])))))) = 3
   \<and> length (filter isDelete
         (snd (snd (snd (deleteFileFromGitHub (logged scripted) examplePlugin ''a.md'' ''stale'' 3
                           (alwaysConflict, [])))))) = 9"
proof -
  obtain res st' w' tr where
    r: "deleteFileFromGitHub (logged scripted) examplePlugin ''a.md'' ''stale'' 3 (alwaysConflict, [])
          = (res, st', w', tr)"
    by (rule prod_cases4)
  from delete_instance_conflicts
  have "res = Inl \<lparr>message = ''GitHub API Error: 409 - conflict'', status = Some 409\<rparr>"
    and "length (filter isGet tr) = 3" and "length (filter isDelete tr) = 9"
    by (simp_all add: r)
  then show ?thesis
    by (simp add: r delete_instance_run)
qed

section \<open>The run guard\<close>

text \<open>
  The guard on the runs that return. A run requested while \<^verbatim>\<open>inProgress\<close> is set is
  refused: the state is unchanged and the notice \<open>Sync in progress, please wait.\<close> is
  requested. Every run that is not refused and returns, whether its phases completed or
  one of them threw, ends with \<^verbatim>\<open>inProgress\<close> false and with \<^verbatim>\<open>savePluginData\<close> of the
  final state as its last effect. A run that is not refused returns whenever its phases
  do.
\<close>

lemma syncWithGitHub_guard:
  "(inProgress (syncState st) \<longrightarrow>
      syncWithGitHub n P syncType f st w
        = Some (Refused, noChanges, st,
                showNotice P ''Sync in progress, please wait.'' (snd (validateSettings P st w))))
   \<and> (\<forall>out c st' w'. syncWithGitHub n P syncType f st w = Some (out, c, st', w') \<and> out \<noteq> Refused \<longrightarrow>
          \<not> inProgress (syncState st') \<and> (\<exists>w3. w' = savePluginData P st' w3)
          \<and> \<not> inProgress (syncState st) \<and> fst (validateSettings P st w))
   \<and> (\<not> inProgress (syncState st) \<and> fst (validateSettings P st w) \<longrightarrow>
        (case syncPhases n P syncType f (st\<lparr>syncState := (syncState st)\<lparr>inProgress := True\<rparr>\<rparr>)
                (snd (validateSettings P st w)) of
           None \<Rightarrow> syncWithGitHub n P syncType f st w = None
         | Some (thrown, c, st2, w2) \<Rightarrow>
             \<exists>w3. syncWithGitHub n P syncType f st w
                    = Some ((case thrown of None \<Rightarrow> Completed | Some e \<Rightarrow> Failed e), c,
                            st2\<lparr>syncState := (syncState st2)\<lparr>inProgress := False\<rparr>\<rparr>,
                            savePluginData P
                              (st2\<lparr>syncState := (syncState st2)\<lparr>inProgress := False\<rparr>\<rparr>) w3)))"
proof -
  obtain valid w1 where v: "validateSettings P st w = (valid, w1)"
    by (cases "validateSettings P st w")
  have a: "inProgress (syncState st) \<longrightarrow>
      syncWithGitHub n P syncType f st w
        = Some (Refused, noChanges, st,
                showNotice P ''Sync in progress, please wait.'' (snd (validateSettings P st w)))"
    using v by (simp add: syncWithGitHub_def)
  have b: "\<forall>out c st' w'. syncWithGitHub n P syncType f st w = Some (out, c, st', w') \<and> out \<noteq> Refused \<longrightarrow>
          \<not> inProgress (syncState st') \<and> (\<exists>w3. w' = savePluginData P st' w3)
          \<and> \<not> inProgress (syncState st) \<and> fst (validateSettings P st w)"
    using v
    by (auto simp: syncWithGitHub_def Let_def split: if_splits option.splits prod.splits)
  have c: "\<not> inProgress (syncState st) \<and> fst (validateSettings P st w) \<longrightarrow>
        (case syncPhases n P syncType f (st\<lparr>syncState := (syncState st)\<lparr>inProgress := True\<rparr>\<rparr>)
                (snd (validateSettings P st w)) of
           None \<Rightarrow> syncWithGitHub n P syncType f st w = None
         | Some (thrown, c, st2, w2) \<Rightarrow>
             \<exists>w3. syncWithGitHub n P syncType f st w
                    = Some ((case thrown of None \<Rightarrow> Completed | Some e \<Rightarrow> Failed e), c,
                            st2\<lparr>syncState := (syncState st2)\<lparr>inProgress := False\<rparr>\<rparr>,
                            savePluginData P
                              (st2\<lparr>syncState := (syncState st2)\<lparr>inProgress := False\<rparr>\<rparr>) w3))"
    using v
    by (auto simp: syncWithGitHub_def Let_def split: if_splits option.splits prod.splits)
  show ?thesis using a b c by blast
qed

lemma guard_completed_run:
  "map_option (\<lambda>(out, c, st, w). (out, c, w_saves w))
     (syncWithGitHub 5 sim ManualSync None (configured [] Local)
        (simWorld [(''notes/a.md'', ''B'')] [(''x.md'', ''A'')]))
   = Some (Completed, \<lparr>pushedCount = 1, pulledCount = 1, deletedLocallyCount = 0,
                        deletedRemotelyCount = 0\<rparr>, 6)"
  by code_simp

lemma guard_failed_run:
  "map_option (\<lambda>(out, c, st, w). (out, c, w_saves w))
     (syncWithGitHub 5 simUndecodable ManualSync None (trackedAt ''x.md'' ''O'' (configured [] Local))
        (simWorld [(''x.md'', ''B'')] [(''x.md'', ''A'')]))
   = Some (Failed \<lparr>message = ''Failed to decode base64 string'', status = None\<rparr>, noChanges, 2)"
  by code_simp

lemma syncWithGitHub_guard_instance:
  "syncWithGitHub 5 sim ManualSync None (busy (configured [] Local))
       (simWorld [(''x.md'', ''B'')] [(''x.md'', ''A'')])
     = Some (Refused, noChanges, busy (configured [] Local),
             (simWorld [(''x.md'', ''B'')] [(''x.md'', ''A'')])
               \<lparr>w_notices := [''Sync in progress, please wait.'']\<rparr>)
   \<and> (\<exists>c st' w'. syncWithGitHub 5 sim ManualSync None (configured [] Local)
                      (simWorld [(''notes/a.md'', ''B'')] [(''x.md'', ''A'')])
                    = Some (Completed, c, st', w')
         \<and> \<not> inProgress (syncState st') \<and> (\<exists>w3. w' = savePluginData sim st' w3))
   \<and> (\<exists>e c st' w'. syncWithGitHub 5 simUndecodable ManualSync None
                        (trackedAt ''x.md'' ''O'' (configured [] Local))
                        (simWorld [(''x.md'', ''B'')] [(''x.md'', ''A'')])
                      = Some (Failed e, c, st', w')
         \<and> \<not> inProgress (syncState st') \<and> (\<exists>w3. w' = savePluginData simUndecodable st' w3))"
proof -
  let ?busy = "busy (configured [] Local)"
  let ?w = "simWorld [(''x.md'', ''B'')] [(''x.md'', ''A'')]"
  have ip: "inProgress (syncState ?busy)" by (simp add: busy_def)
  have "syncWithGitHub 5 sim ManualSync None ?busy ?w
        = Some (Refused, noChanges, ?busy,
                showNotice sim ''Sync in progress, please wait.'' (snd (validateSettings sim ?busy ?w)))"
    using syncWithGitHub_guard [where st = ?busy and n = 5 and P = sim and syncType = ManualSync
        and f = None and w = ?w] ip by blast
  then have a: "syncWithGitHub 5 sim ManualSync None ?busy ?w
        = Some (Refused, noChanges, ?busy, ?w\<lparr>w_notices := [''Sync in progress, please wait.'']\<rparr>)"
    by (simp add: validateSettings_def busy_def configured_def DEFAULT_SETTINGS_def sim_def
        simWorld_def)
  let ?st1 = "configured [] Local"
  let ?w1 = "simWorld [(''notes/a.md'', ''B'')] [(''x.md'', ''A'')]"
  obtain out c st' w' where run1: "syncWithGitHub 5 sim ManualSync None ?st1 ?w1 = Some (out, c, st', w')"
    using guard_completed_run by (cases "syncWithGitHub 5 sim ManualSync None ?st1 ?w1") auto
  have o1: "out = Completed" using guard_completed_run run1 by simp
  have b: "\<exists>c st' w'. syncWithGitHub 5 sim ManualSync None ?st1 ?w1 = Some (Completed, c, st', w')
         \<and> \<not> inProgress (syncState st') \<and> (\<exists>w3. w' = savePluginData sim st' w3)"
    using syncWithGitHub_guard [where st = ?st1 and n = 5 and P = sim and syncType = ManualSync
        and f = None and w = ?w1] run1 o1 by blast
  let ?st2 = "trackedAt ''x.md'' ''O'' (configured [] Local)"
  obtain out2 c2 st2 w2 where run2:
    "syncWithGitHub 5 simUndecodable ManualSync None ?st2 ?w = Some (out2, c2, st2, w2)"
    using guard_failed_run by (cases "syncWithGitHub 5 simUndecodable ManualSync None ?st2 ?w") auto
  have o2: "out2 = Failed \<lparr>message = ''Failed to decode base64 string'', status = None\<rparr>"
    using guard_failed_run run2 by simp
  have c: "\<exists>e c st' w'. syncWithGitHub 5 simUndecodable ManualSync None ?st2 ?w
                      = Some (Failed e, c, st', w')
         \<and> \<not> inProgress (syncState st') \<and> (\<exists>w3. w' = savePluginData simUndecodable st' w3)"
    using syncWithGitHub_guard [where st = ?st2 and n = 5 and P = simUndecodable
        and syncType = ManualSync and f = None and w = ?w] run2 o2 by blast
  show ?thesis using a b c by blast
qed

text \<open>
  Claim C5 fails on the code when the conflict dialog is dismissed. The policy is \<open>ask\<close>
  (the default), the document \<open>x.md\<close> changed on both sides, and a manual run is
  requested. With a user who answers the dialog the run completes and \<^verbatim>\<open>inProgress\<close> is
  false afterwards. With a user who dismisses the dialog the promise of
  \<^verbatim>\<open>askForResolution\<close> never settles: the run does not return, its \<^verbatim>\<open>finally\<close> block is
  never reached, and \<^verbatim>\<open>inProgress\<close>, set before the first phase, stays set; every later
  request is then refused.
\<close>

theorem dismissed_dialog_run_never_returns:
  "map_option (\<lambda>(out, c, st, w). out)
     (manualSync 5 simDismissed (trackedAt ''x.md'' ''O'' (configured [] Ask))
        (simWorld [(''x.md'', ''B'')] [(''x.md'', ''A'')]))
   = None
   \<and> map_option (\<lambda>(out, c, st, w). (out, inProgress (syncState st)))
       (manualSync 5 sim (trackedAt ''x.md'' ''O'' (configured [] Ask))
          (simWorld [(''x.md'', ''B'')] [(''x.md'', ''A'')]))
     = Some (Completed, False)
   \<and> map_option (\<lambda>(out, c, st, w). (out, w_notices w))
       (manualSync 5 simDismissed (busy (trackedAt ''x.md'' ''O'' (configured [] Ask)))
          (simWorld [(''x.md'', ''B'')] [(''x.md'', ''A'')]))
     = Some (Refused, [''Sync in progress, please wait.''])"
  by code_simp

section \<open>Two runs in a row\<close>

text \<open>
  C7 fails on the code. With the sync path \<open>notes\<close>, the remote file \<open>notes/a.md\<close> and an
  empty vault, the first run completes and pulls the file to the local path \<open>a.md\<close>
  (\<^verbatim>\<open>getLocalPath\<close> strips the sync path). \<^verbatim>\<open>shouldSyncFile\<close> accepts a local path only
  under \<open>notes/\<close>, so the second run does not see \<open>a.md\<close> among the local files and pulls
  it again, although neither side changed: its pulled count is 1.
\<close>

theorem second_run_pulls_again:
  "map_option
     (\<lambda>((out1, c1, w1), (out2, c2, w2)).
        (out1, c1, w_remote w1, w_local w1, out2, c2, w_remote w2, w_local w2))
     (twoRuns 5 sim ManualSync (configured ''notes'' Local) (simWorld [(''notes/a.md'', ''B'')] []))
   = Some (Completed,
           \<lparr>pushedCount = 0, pulledCount = 1, deletedLocallyCount = 0, deletedRemotelyCount = 0\<rparr>,
           [(''notes/a.md'', ''B'')], [(''a.md'', ''B'')],
           Completed,
           \<lparr>pushedCount = 0, pulledCount = 1, deletedLocallyCount = 0, deletedRemotelyCount = 0\<rparr>,
           [(''notes/a.md'', ''B'')], [(''a.md'', ''B'')])"
  by code_simp

section \<open>The conflict detector and the grace period\<close>

lemma setAdd_member [simp]: "x \<in> set (setAdd y xs) \<longleftrightarrow> x = y \<or> x \<in> set xs"
  by (auto simp: setAdd_def)

lemma setDelete_member [simp]: "x \<in> set (setDelete y xs) \<longleftrightarrow> x \<noteq> y \<and> x \<in> set xs"
  by (auto simp: setDelete_def)

lemma addPending_simps [simp]:
  "pendingFiles (syncState (addPending p st)) = setAdd p (pendingFiles (syncState st))"
  "fileMetadata (syncState (addPending p st)) = fileMetadata (syncState st)"
  "pendingDeletions (syncState (addPending p st)) = pendingDeletions (syncState st)"
  "recentlyPushedFiles (syncState (addPending p st)) = recentlyPushedFiles (syncState st)"
  "settings (addPending p st) = settings st"
  by (simp_all add: addPending_def)

lemma deletePending_simps [simp]:
  "pendingFiles (syncState (deletePending p st)) = setDelete p (pendingFiles (syncState st))"
  "fileMetadata (syncState (deletePending p st)) = fileMetadata (syncState st)"
  "pendingDeletions (syncState (deletePending p st)) = pendingDeletions (syncState st)"
  "recentlyPushedFiles (syncState (deletePending p st)) = recentlyPushedFiles (syncState st)"
  "settings (deletePending p st) = settings st"
  by (simp_all add: deletePending_def)

lemma setMetadata_simps [simp]:
  "pendingFiles (syncState (setMetadata p m st)) = pendingFiles (syncState st)"
  "fileMetadata (syncState (setMetadata p m st)) = (fileMetadata (syncState st))(p \<mapsto> m)"
  "pendingDeletions (syncState (setMetadata p m st)) = pendingDeletions (syncState st)"
  "recentlyPushedFiles (syncState (setMetadata p m st)) = recentlyPushedFiles (syncState st)"
  "settings (setMetadata p m st) = settings st"
  by (simp_all add: setMetadata_def)

lemma detectOne_conflict:
  assumes "map_of remoteFiles p = Some remote" and "fileMetadata (syncState st) p = Some metadata"
    and "lf_checksum localFile \<noteq> remoteContentChecksum metadata"
    and "rf_sha remote \<noteq> githubBlobSha metadata"
  shows "detectOne P remoteFiles p localFile conflicts st w =
     (case fetchRemoteContent P st (rf_path remote) w of
        (Inl error, w1) \<Rightarrow> (Inl error, st, w1)
      | (Inr remoteContent, w1) \<Rightarrow>
          (Inr (AList.update p
                  \<lparr>c_local = localFile, c_remote = remote, c_remoteContent = remoteContent,
                   c_metadata = metadata\<rparr> conflicts),
           addPending p st, w1))"
  using assms by (simp add: detectOne_def)

lemma detectOne_frame:
  assumes "detectOne P remoteFiles q localFile conflicts st w = (Inr conflicts1, st1, w1)"
    and "p \<noteq> q"
  shows "map_of conflicts1 p = map_of conflicts p
       \<and> (p \<in> set (pendingFiles (syncState st1)) \<longleftrightarrow> p \<in> set (pendingFiles (syncState st)))
       \<and> fileMetadata (syncState st1) p = fileMetadata (syncState st) p"
  using assms
  by (auto simp: detectOne_def Let_def update_conv' split: option.splits if_splits prod.splits sum.splits)

lemma detectLoop_frame:
  "detectLoop P remoteFiles xs conflicts st w = (Inr conflicts1, st1, w1) \<Longrightarrow>
   p \<notin> fst ` set xs \<Longrightarrow>
   map_of conflicts1 p = map_of conflicts p
   \<and> (p \<in> set (pendingFiles (syncState st1)) \<longleftrightarrow> p \<in> set (pendingFiles (syncState st)))
   \<and> fileMetadata (syncState st1) p = fileMetadata (syncState st) p"
proof (induction xs arbitrary: conflicts st w)
  case Nil
  then show ?case by simp
next
  case (Cons x xs)
  obtain q lf where x: "x = (q, lf)" by (cases x)
  from Cons.prems(1) obtain c2 st2 w2 where
    one: "detectOne P remoteFiles q lf conflicts st w = (Inr c2, st2, w2)"
    and rest: "detectLoop P remoteFiles xs c2 st2 w2 = (Inr conflicts1, st1, w1)"
    unfolding x by (auto split: prod.splits sum.splits)
  have "p \<noteq> q" using Cons.prems(2) x by auto
  from detectOne_frame [OF one this] Cons.IH [OF rest] Cons.prems(2)
  show ?case by auto
qed

lemma detectLoop_conflict:
  assumes "detectLoop P remoteFiles xs conflicts st w = (Inr conflicts1, st1, w1)"
    and "distinct (map fst xs)" and "(p, localFile) \<in> set xs"
    and "map_of remoteFiles p = Some remote" and "fileMetadata (syncState st) p = Some metadata"
    and "lf_checksum localFile \<noteq> remoteContentChecksum metadata"
    and "rf_sha remote \<noteq> githubBlobSha metadata"
  shows "(\<exists>remoteContent. map_of conflicts1 p
            = Some \<lparr>c_local = localFile, c_remote = remote, c_remoteContent = remoteContent,
                    c_metadata = metadata\<rparr>)
         \<and> p \<in> set (pendingFiles (syncState st1))"
  using assms
proof (induction xs arbitrary: conflicts st w)
  case Nil
  then show ?case by simp
next
  case (Cons x xs)
  obtain q lf where x: "x = (q, lf)" by (cases x)
  from Cons.prems(1) obtain c2 st2 w2 where
    one: "detectOne P remoteFiles q lf conflicts st w = (Inr c2, st2, w2)"
    and rest: "detectLoop P remoteFiles xs c2 st2 w2 = (Inr conflicts1, st1, w1)"
    unfolding x by (auto split: prod.splits sum.splits)
  show ?case
  proof (cases "q = p")
    case True
    then have lf: "lf = localFile" and notin: "p \<notin> fst ` set xs"
      using Cons.prems(2,3) x by (auto simp: rev_image_eqI)
    from one obtain remoteContent where
      "c2 = AList.update p \<lparr>c_local = localFile, c_remote = remote, c_remoteContent = remoteContent,
                   c_metadata = metadata\<rparr> conflicts" "st2 = addPending p st"
      unfolding True lf detectOne_conflict [OF Cons.prems(4-7)]
      by (auto split: prod.splits sum.splits)
    then have "map_of c2 p = Some \<lparr>c_local = localFile, c_remote = remote, c_remoteContent = remoteContent,
                   c_metadata = metadata\<rparr>" "p \<in> set (pendingFiles (syncState st2))"
      by (simp_all add: update_conv')
    with detectLoop_frame [OF rest notin] show ?thesis by auto
  next
    case False
    then have "p \<noteq> q" by simp
    from detectOne_frame [OF one this] have md: "fileMetadata (syncState st2) p = Some metadata"
      using Cons.prems(5) by simp
    have mem: "(p, localFile) \<in> set xs" using Cons.prems(3) False x by auto
    have d: "distinct (map fst xs)" using Cons.prems(2) by simp
    from Cons.IH [OF rest d mem Cons.prems(4) md Cons.prems(6,7)] show ?thesis .
  qed
qed


lemma detectOne_no_conflict:
  assumes "detectOne P remoteFiles p localFile conflicts st w = (Inr conflicts1, st1, w1)"
    and "map_of conflicts p = None"
    and "map_of remoteFiles p = None
         \<or> (\<exists>r m. map_of remoteFiles p = Some r \<and> fileMetadata (syncState st) p = Some m
                  \<and> rf_sha r = githubBlobSha m)"
  shows "map_of conflicts1 p = None"
  using assms
  by (auto simp: detectOne_def Let_def split: option.splits if_splits prod.splits sum.splits)

lemma detectLoop_no_conflict:
  assumes "detectLoop P remoteFiles xs conflicts st w = (Inr conflicts1, st1, w1)"
    and "distinct (map fst xs)" and "map_of conflicts p = None"
    and "map_of remoteFiles p = None
         \<or> (\<exists>r m. map_of remoteFiles p = Some r \<and> fileMetadata (syncState st) p = Some m
                  \<and> rf_sha r = githubBlobSha m)"
  shows "map_of conflicts1 p = None"
  using assms
proof (induction xs arbitrary: conflicts st w)
  case Nil
  then show ?case by simp
next
  case (Cons x xs)
  obtain q lf where x: "x = (q, lf)" by (cases x)
  from Cons.prems(1) obtain c2 st2 w2 where
    one: "detectOne P remoteFiles q lf conflicts st w = (Inr c2, st2, w2)"
    and rest: "detectLoop P remoteFiles xs c2 st2 w2 = (Inr conflicts1, st1, w1)"
    unfolding x by (auto split: prod.splits sum.splits)
  show ?case
  proof (cases "q = p")
    case True
    then have notin: "p \<notin> fst ` set xs" using Cons.prems(2) x by auto
    from detectOne_no_conflict [OF one [unfolded True] Cons.prems(3,4)]
      detectLoop_frame [OF rest notin]
    show ?thesis by simp
  next
    case False
    then have "p \<noteq> q" by simp
    note fr = detectOne_frame [OF one this]
    have d: "distinct (map fst xs)" using Cons.prems(2) by simp
    have c: "map_of c2 p = None" using fr Cons.prems(3) by simp
    have r: "map_of remoteFiles p = None
         \<or> (\<exists>r m. map_of remoteFiles p = Some r \<and> fileMetadata (syncState st2) p = Some m
                  \<and> rf_sha r = githubBlobSha m)"
      using fr Cons.prems(4) by simp
    from Cons.IH [OF rest d c r] show ?thesis .
  qed
qed

lemma finalRemoteStates_pushed:
  assumes "recentlyPushedAt st now p" and "fileMetadata (syncState st) p = Some m"
    and "githubBlobSha m \<noteq> []"
  shows "map_of acc p = None \<or> (\<exists>r. map_of acc p = Some r \<and> rf_sha r = githubBlobSha m) \<Longrightarrow>
         map_of (finalRemoteStates st now api acc) p = None
         \<or> (\<exists>r. map_of (finalRemoteStates st now api acc) p = Some r \<and> rf_sha r = githubBlobSha m)"
proof (induction api arbitrary: acc)
  case Nil
  then show ?case by simp
next
  case (Cons x api)
  obtain q i where x: "x = (q, i)" by (cases x)
  have "\<exists>acc'. finalRemoteStates st now (x # api) acc = finalRemoteStates st now api acc'
           \<and> (map_of acc' p = None \<or> (\<exists>r. map_of acc' p = Some r \<and> rf_sha r = githubBlobSha m))"
  proof (cases "q = p")
    case True
    show ?thesis
      unfolding x True using Cons.prems assms
      by (cases "recentlyDeletedAt st now p") (auto simp: update_conv')
  next
    case False
    show ?thesis
      unfolding x using Cons.prems False
      by (cases "fileMetadata (syncState st) q") (auto simp: update_conv')
  qed
  then obtain acc' where
    "finalRemoteStates st now (x # api) acc = finalRemoteStates st now api acc'"
    "map_of acc' p = None \<or> (\<exists>r. map_of acc' p = Some r \<and> rf_sha r = githubBlobSha m)"
    by blast
  with Cons.IH [of acc'] show ?case by simp
qed

lemma finalRemoteStates_map:
  "distinct (map fst api) \<Longrightarrow>
   map_of (finalRemoteStates st now api acc) p =
     (case map_of api p of
        None \<Rightarrow> map_of acc p
      | Some info \<Rightarrow>
          if recentlyDeletedAt st now p then map_of acc p
          else (case fileMetadata (syncState st) p of
                  Some m \<Rightarrow>
                    if recentlyPushedAt st now p \<and> githubBlobSha m \<noteq> []
                       \<and> githubBlobSha m \<noteq> rf_sha info
                    then Some (info\<lparr>rf_sha := githubBlobSha m\<rparr>)
                    else Some info
                | None \<Rightarrow> Some info))"
proof (induction api arbitrary: acc)
  case Nil
  then show ?case by simp
next
  case (Cons x api)
  obtain q i where x: "x = (q, i)" by (cases x)
  have d: "distinct (map fst api)" and nq: "map_of api q = None"
    using Cons.prems x by (auto simp: map_of_eq_None_iff)
  show ?case
    unfolding x using Cons.IH [OF d] nq
    by (auto simp: update_conv' split: option.splits)
qed

lemma deleteQueueLoop_subset:
  "f \<in> set (deleteQueueLoop st now remote xs acc) \<Longrightarrow>
   f \<in> set acc \<or> (\<exists>q lfs. (q, lfs) \<in> set xs \<and> f = lf_file lfs \<and> map_of remote q = None
                     \<and> wasTrackedRemotely st q \<and> \<not> wasRecentlyPushed st now q)"
proof (induction xs arbitrary: acc)
  case Nil
  then show ?case by simp
next
  case (Cons x xs)
  obtain q lfs where x: "x = (q, lfs)" by (cases x)
  from Cons.prems Cons.IH show ?case
    unfolding x by (fastforce simp: Let_def split: if_splits)
qed

lemma expireCaches_simps [simp]:
  "fileMetadata (syncState (expireCaches now st)) = fileMetadata (syncState st)"
  "pendingFiles (syncState (expireCaches now st)) = pendingFiles (syncState st)"
  "pendingDeletions (syncState (expireCaches now st)) = pendingDeletions (syncState st)"
  "settings (expireCaches now st) = settings st"
  by (simp_all add: expireCaches_def)

lemma localStatesLoop_distinct:
  "distinct (map fst acc) \<Longrightarrow> distinct (map fst (fst (localStatesLoop P st files acc w)))"
  by (induction P st files acc w rule: localStatesLoop.induct)
     (auto simp: distinct_update split: prod.splits sum.splits)

lemma getLocalFileStates_distinct: "distinct (map fst (fst (getLocalFileStates P st w)))"
  by (simp add: getLocalFileStates_def localStatesLoop_distinct)

text \<open>
  C1. Let a document be present locally and in the remote state, with a metadata entry,
  its local content hash different from \<^verbatim>\<open>remoteContentChecksum\<close> and the remote
  revision id different from \<^verbatim>\<open>githubBlobSha\<close>. Then its iteration of the detector
  fetches the remote content and either throws the error of that fetch, or records the
  conflict with the local state, the remote state, the fetched content and the metadata
  and marks the path pending; it takes neither the push branch nor the pull branch. When
  \<^verbatim>\<open>detectConflicts\<close> returns, the conflict map holds that entry for the document and
  the path is pending.
\<close>

theorem detectConflicts_conflict:
  "distinct (map fst localFiles) \<and> (p, localFile) \<in> set localFiles
   \<and> map_of remoteFiles p = Some remote \<and> fileMetadata (syncState st) p = Some metadata
   \<and> lf_checksum localFile \<noteq> remoteContentChecksum metadata
   \<and> rf_sha remote \<noteq> githubBlobSha metadata \<longrightarrow>
     (\<forall>conflicts st' w'.
         detectConflicts P localFiles (Some remoteFiles) st w = (Inr conflicts, st', w') \<longrightarrow>
           (\<exists>remoteContent. map_of conflicts p
               = Some \<lparr>c_local = localFile, c_remote = remote, c_remoteContent = remoteContent,
                       c_metadata = metadata\<rparr>)
           \<and> p \<in> set (pendingFiles (syncState st')))
     \<and> (\<forall>conflicts0 w0.
           detectOne P remoteFiles p localFile conflicts0 st w0 =
             (case fetchRemoteContent P st (rf_path remote) w0 of
                (Inl error, w1) \<Rightarrow> (Inl error, st, w1)
              | (Inr remoteContent, w1) \<Rightarrow>
                  (Inr (AList.update p
                          \<lparr>c_local = localFile, c_remote = remote,
                           c_remoteContent = remoteContent, c_metadata = metadata\<rparr> conflicts0),
                   addPending p st, w1)))"
proof (intro impI, elim conjE)
  assume h: "distinct (map fst localFiles)" "(p, localFile) \<in> set localFiles"
    "map_of remoteFiles p = Some remote" "fileMetadata (syncState st) p = Some metadata"
    "lf_checksum localFile \<noteq> remoteContentChecksum metadata"
    "rf_sha remote \<noteq> githubBlobSha metadata"
  have a: "\<forall>conflicts st' w'.
         detectConflicts P localFiles (Some remoteFiles) st w = (Inr conflicts, st', w') \<longrightarrow>
           (\<exists>remoteContent. map_of conflicts p
               = Some \<lparr>c_local = localFile, c_remote = remote, c_remoteContent = remoteContent,
                       c_metadata = metadata\<rparr>)
           \<and> p \<in> set (pendingFiles (syncState st'))"
  proof (intro allI impI)
    fix conflicts st' w'
    assume "detectConflicts P localFiles (Some remoteFiles) st w = (Inr conflicts, st', w')"
    then have "detectLoop P remoteFiles localFiles [] st w = (Inr conflicts, st', w')"
      by (simp add: detectConflicts_def)
    from detectLoop_conflict [OF this h]
    show "(\<exists>remoteContent. map_of conflicts p
               = Some \<lparr>c_local = localFile, c_remote = remote, c_remoteContent = remoteContent,
                       c_metadata = metadata\<rparr>)
           \<and> p \<in> set (pendingFiles (syncState st'))" .
  qed
  have b: "\<forall>conflicts0 w0.
           detectOne P remoteFiles p localFile conflicts0 st w0 =
             (case fetchRemoteContent P st (rf_path remote) w0 of
                (Inl error, w1) \<Rightarrow> (Inl error, st, w1)
              | (Inr remoteContent, w1) \<Rightarrow>
                  (Inr (AList.update p
                          \<lparr>c_local = localFile, c_remote = remote,
                           c_remoteContent = remoteContent, c_metadata = metadata\<rparr> conflicts0),
                   addPending p st, w1))"
    by (intro allI, rule detectOne_conflict [OF h(3-6)])
  show "(\<forall>conflicts st' w'.
         detectConflicts P localFiles (Some remoteFiles) st w = (Inr conflicts, st', w') \<longrightarrow>
           (\<exists>remoteContent. map_of conflicts p
               = Some \<lparr>c_local = localFile, c_remote = remote, c_remoteContent = remoteContent,
                       c_metadata = metadata\<rparr>)
           \<and> p \<in> set (pendingFiles (syncState st')))
     \<and> (\<forall>conflicts0 w0.
           detectOne P remoteFiles p localFile conflicts0 st w0 =
             (case fetchRemoteContent P st (rf_path remote) w0 of
                (Inl error, w1) \<Rightarrow> (Inl error, st, w1)
              | (Inr remoteContent, w1) \<Rightarrow>
                  (Inr (AList.update p
                          \<lparr>c_local = localFile, c_remote = remote,
                           c_remoteContent = remoteContent, c_metadata = metadata\<rparr> conflicts0),
                   addPending p st, w1)))"
    using a b by blast
qed

lemma conflict_instance_run:
  "fst (detectConflicts sim [localState ''x.md'' ''A''] (Some [remoteState ''x.md'' ''B''])
          (trackedAt ''x.md'' ''O'' (configured [] Local))
          (simWorld [(''x.md'', ''B'')] [(''x.md'', ''A'')]))
   = Inr [(''x.md'',
           \<lparr>c_local = snd (localState ''x.md'' ''A''), c_remote = snd (remoteState ''x.md'' ''B''),
            c_remoteContent = ''B'',
            c_metadata = \<lparr>md_path = ''x.md'', githubBlobSha = ''blob:O'', lastModified = 0,
                          localChecksum = ''sum:O'', remoteContentChecksum = ''sum:O'',
                          conflicted = False\<rparr>\<rparr>)]"
  by code_simp

theorem detectConflicts_conflict_witness:
  "\<exists>conflicts st' w'.
     detectConflicts sim [localState ''x.md'' ''A''] (Some [remoteState ''x.md'' ''B''])
       (trackedAt ''x.md'' ''O'' (configured [] Local))
       (simWorld [(''x.md'', ''B'')] [(''x.md'', ''A'')]) = (Inr conflicts, st', w')
     \<and> map_of conflicts ''x.md''
         = Some \<lparr>c_local = snd (localState ''x.md'' ''A''),
                 c_remote = snd (remoteState ''x.md'' ''B''), c_remoteContent = ''B'',
                 c_metadata = \<lparr>md_path = ''x.md'', githubBlobSha = ''blob:O'', lastModified = 0,
                               localChecksum = ''sum:O'', remoteContentChecksum = ''sum:O'',
                               conflicted = False\<rparr>\<rparr>
     \<and> ''x.md'' \<in> set (pendingFiles (syncState st'))"
proof -
  let ?lf = "[localState ''x.md'' ''A'']" and ?rf = "[remoteState ''x.md'' ''B'']"
  let ?st = "trackedAt ''x.md'' ''O'' (configured [] Local)"
  let ?w = "simWorld [(''x.md'', ''B'')] [(''x.md'', ''A'')]"
  let ?m = "\<lparr>md_path = ''x.md'', githubBlobSha = ''blob:O'', lastModified = 0,
             localChecksum = ''sum:O'', remoteContentChecksum = ''sum:O'', conflicted = False\<rparr>"
  obtain r st' w' where run: "detectConflicts sim ?lf (Some ?rf) ?st ?w = (r, st', w')"
    by (cases "detectConflicts sim ?lf (Some ?rf) ?st ?w")
  with conflict_instance_run have r: "r = Inr [(''x.md'',
           \<lparr>c_local = snd (localState ''x.md'' ''A''), c_remote = snd (remoteState ''x.md'' ''B''),
            c_remoteContent = ''B'', c_metadata = ?m\<rparr>)]"
    by simp
  have h: "distinct (map fst ?lf) \<and> (''x.md'', snd (localState ''x.md'' ''A'')) \<in> set ?lf
     \<and> map_of ?rf ''x.md'' = Some (snd (remoteState ''x.md'' ''B''))
     \<and> fileMetadata (syncState ?st) ''x.md'' = Some ?m
     \<and> lf_checksum (snd (localState ''x.md'' ''A'')) \<noteq> remoteContentChecksum ?m
     \<and> rf_sha (snd (remoteState ''x.md'' ''B'')) \<noteq> githubBlobSha ?m"
    by (simp add: localState_def remoteState_def trackedAt_def blobSha_def)
  from detectConflicts_conflict [where localFiles = ?lf and remoteFiles = ?rf and st = ?st
      and w = ?w and P = sim and p = "''x.md''" and localFile = "snd (localState ''x.md'' ''A'')"
      and remote = "snd (remoteState ''x.md'' ''B'')" and metadata = ?m] h run r
  have "''x.md'' \<in> set (pendingFiles (syncState st'))" by blast
  with run r show ?thesis by simp
qed

text \<open>
  C6. Let the push of a document be recorded at a time \<open>t\<close> and the metadata hold its
  new revision id. When the remote state is read at a moment within 90 seconds of \<open>t\<close>,
  the document is either left out (it was also deleted recently) or reported under the
  revision id of the metadata, whatever id the listing gave; a listing that reports it
  once under another id, and no recent deletion, gives exactly that replacement. A
  conflict detection on this remote state does not record a conflict for the document.
  And whenever the state records a push of the document at a time \<open>t2\<close> and the clock
  reads less than 90 seconds (90000 ms) more, the document is not scheduled for local
  deletion, whatever the remote state says, also when it is missing there.
\<close>

theorem grace_period_protects_pushed_document:
  "(recentlyPushedFiles (syncState st) p = Some t \<and> t \<noteq> 0
    \<and> fileMetadata (syncState st) p = Some m \<and> githubBlobSha m \<noteq> []
    \<and> listRemote n P st w = Some (Inr api, w1)
    \<and> dateNow P w1 - t < 90000 \<longrightarrow>
      (\<exists>R st'. getRemoteFileStates n P st w = Some (Some R, st', w1)
          \<and> (map_of R p = None \<or> (\<exists>r. map_of R p = Some r \<and> rf_sha r = githubBlobSha m))
          \<and> (\<forall>i. distinct (map fst api) \<and> map_of api p = Some i
                  \<and> rf_sha i \<noteq> githubBlobSha m
                  \<and> \<not> recentlyDeletedAt st (dateNow P w1) p \<longrightarrow>
                  map_of R p = Some (i\<lparr>rf_sha := githubBlobSha m\<rparr>))
          \<and> (\<forall>localFiles w2 conflicts st3 w3.
                distinct (map fst localFiles)
                \<and> detectConflicts P localFiles (Some R) st' w2 = (Inr conflicts, st3, w3) \<longrightarrow>
                map_of conflicts p = None)))
   \<and> (\<forall>st2 t2 now2 R2 localFiles f.
         recentlyPushedFiles (syncState st2) p = Some t2 \<and> now2 - t2 < 90000
         \<and> (\<forall>x \<in> set localFiles. tf_path (lf_file (snd x)) = fst x)
         \<and> f \<in> set (deleteQueueLoop st2 now2 R2 localFiles []) \<longrightarrow> tf_path f \<noteq> p)"
proof -
  have one: "\<exists>R st'. getRemoteFileStates n P st w = Some (Some R, st', w1)
          \<and> (map_of R p = None \<or> (\<exists>r. map_of R p = Some r \<and> rf_sha r = githubBlobSha m))
          \<and> (\<forall>i. distinct (map fst api) \<and> map_of api p = Some i
                  \<and> rf_sha i \<noteq> githubBlobSha m
                  \<and> \<not> recentlyDeletedAt st (dateNow P w1) p \<longrightarrow>
                  map_of R p = Some (i\<lparr>rf_sha := githubBlobSha m\<rparr>))
          \<and> (\<forall>localFiles w2 conflicts st3 w3.
                distinct (map fst localFiles)
                \<and> detectConflicts P localFiles (Some R) st' w2 = (Inr conflicts, st3, w3) \<longrightarrow>
                map_of conflicts p = None)"
    if h: "recentlyPushedFiles (syncState st) p = Some t" "t \<noteq> 0"
      "fileMetadata (syncState st) p = Some m" "githubBlobSha m \<noteq> []"
      "listRemote n P st w = Some (Inr api, w1)"
      "dateNow P w1 - t < 90000"
  proof -
    let ?now = "dateNow P w1"
    let ?R = "finalRemoteStates st ?now api []"
    let ?st' = "expireCaches ?now st"
    have rp: "recentlyPushedAt st ?now p"
      using h by (simp add: recentlyPushedAt_def RECENTLY_PUSHED_GRACE_PERIOD_MS_def)
    have g: "getRemoteFileStates n P st w = Some (Some ?R, ?st', w1)"
      using h(5) by (simp add: getRemoteFileStates_def Let_def)
    have sha: "map_of ?R p = None \<or> (\<exists>r. map_of ?R p = Some r \<and> rf_sha r = githubBlobSha m)"
      using finalRemoteStates_pushed [OF rp h(3,4), of "[]" api] by simp
    have repl: "\<forall>i. distinct (map fst api) \<and> map_of api p = Some i
                  \<and> rf_sha i \<noteq> githubBlobSha m
                  \<and> \<not> recentlyDeletedAt st ?now p \<longrightarrow>
                  map_of ?R p = Some (i\<lparr>rf_sha := githubBlobSha m\<rparr>)"
      using rp h(3,4) by (auto simp: finalRemoteStates_map)
    have md: "fileMetadata (syncState ?st') p = Some m" using h(3) by simp
    have nc: "\<forall>localFiles w2 conflicts st3 w3.
                distinct (map fst localFiles)
                \<and> detectConflicts P localFiles (Some ?R) ?st' w2 = (Inr conflicts, st3, w3) \<longrightarrow>
                map_of conflicts p = None"
    proof (intro allI impI, elim conjE)
      fix localFiles w2 conflicts st3 w3
      assume d: "distinct (map fst localFiles)"
        and run: "detectConflicts P localFiles (Some ?R) ?st' w2 = (Inr conflicts, st3, w3)"
      have r: "map_of ?R p = None
         \<or> (\<exists>r m'. map_of ?R p = Some r \<and> fileMetadata (syncState ?st') p = Some m'
                  \<and> rf_sha r = githubBlobSha m')"
        using sha md by auto
      from detectLoop_no_conflict [OF _ d _ r, of P "[]" w2 conflicts st3 w3] run
      show "map_of conflicts p = None" by (simp add: detectConflicts_def)
    qed
    show ?thesis using g sha repl nc by blast
  qed
  have two: "\<forall>st2 t2 now2 R2 localFiles f.
         recentlyPushedFiles (syncState st2) p = Some t2 \<and> now2 - t2 < 90000
         \<and> (\<forall>x \<in> set localFiles. tf_path (lf_file (snd x)) = fst x)
         \<and> f \<in> set (deleteQueueLoop st2 now2 R2 localFiles []) \<longrightarrow> tf_path f \<noteq> p"
  proof (intro allI impI, elim conjE)
    fix st2 t2 now2 R2 localFiles f
    assume pushed: "recentlyPushedFiles (syncState st2) p = Some t2" and window: "now2 - t2 < 90000"
      and keys: "\<forall>x \<in> set localFiles. tf_path (lf_file (snd x)) = fst x"
      and mem: "f \<in> set (deleteQueueLoop st2 now2 R2 localFiles [])"
    from pushed window have rp: "wasRecentlyPushed st2 now2 p"
      by (simp add: wasRecentlyPushed_def RECENTLY_PUSHED_GRACE_PERIOD_MS_def)
    from deleteQueueLoop_subset [OF mem] obtain q lfs where
      "(q, lfs) \<in> set localFiles" "f = lf_file lfs" "\<not> wasRecentlyPushed st2 now2 q"
      by auto
    with keys rp show "tf_path f \<noteq> p" by fastforce
  qed
  show ?thesis using one two by blast
qed

lemma grace_instance_listing:
  "listRemote 5 sim
     (pushedAt ''x.md'' 1699999990000 (trackedAt ''x.md'' ''NEW'' (configured [] Local)))
     (simWorld [(''x.md'', ''OLD'')] [(''x.md'', ''NEWER'')])
   = Some (Inr [remoteState ''x.md'' ''OLD''],
           (simWorld [(''x.md'', ''OLD'')] [(''x.md'', ''NEWER'')])\<lparr>w_now := 1700000000100\<rparr>)"
  by code_simp

lemma grace_instance_detect:
  "fst (detectConflicts sim [localState ''x.md'' ''NEWER'']
          (Some (finalRemoteStates
                   (pushedAt ''x.md'' 1699999990000
                      (trackedAt ''x.md'' ''NEW'' (configured [] Local)))
                   1700000000100 [remoteState ''x.md'' ''OLD''] []))
          (expireCaches 1700000000100
             (pushedAt ''x.md'' 1699999990000 (trackedAt ''x.md'' ''NEW'' (configured [] Local))))
          ((simWorld [(''x.md'', ''OLD'')] [(''x.md'', ''NEWER'')])\<lparr>w_now := 1700000000100\<rparr>))
   = Inr []"
  by code_simp

lemma grace_instance_queue:
  "deleteQueueLoop twoTracked 1700000000100 []
     [localState ''x.md'' ''NEWER'', localState ''y.md'' ''Y''] [] = [simFile ''y.md'']"
  by code_simp

lemma grace_instance_queue_late:
  "deleteQueueLoop twoTracked 1700000080000 []
     [localState ''x.md'' ''NEWER'', localState ''y.md'' ''Y''] []
   = [simFile ''x.md'', simFile ''y.md'']"
  by code_simp

theorem grace_period_protects_pushed_document_witness:
  "(\<exists>R st' w1.
     getRemoteFileStates 5 sim
       (pushedAt ''x.md'' 1699999990000 (trackedAt ''x.md'' ''NEW'' (configured [] Local)))
       (simWorld [(''x.md'', ''OLD'')] [(''x.md'', ''NEWER'')]) = Some (Some R, st', w1)
     \<and> map_of R ''x.md'' = Some \<lparr>rf_path = ''x.md'', rf_sha = ''blob:NEW'', rf_type = ''file''\<rparr>
     \<and> (\<exists>conflicts st3 w3.
           detectConflicts sim [localState ''x.md'' ''NEWER''] (Some R) st' w1
             = (Inr conflicts, st3, w3)
           \<and> map_of conflicts ''x.md'' = None))
   \<and> deleteQueueLoop twoTracked 1700000000100 []
         [localState ''x.md'' ''NEWER'', localState ''y.md'' ''Y''] [] = [simFile ''y.md'']
   \<and> tf_path (simFile ''y.md'') \<noteq> ''x.md''
   \<and> deleteQueueLoop twoTracked 1700000080000 []
         [localState ''x.md'' ''NEWER'', localState ''y.md'' ''Y''] []
       = [simFile ''x.md'', simFile ''y.md'']"
proof -
  let ?st = "pushedAt ''x.md'' 1699999990000 (trackedAt ''x.md'' ''NEW'' (configured [] Local))"
  let ?w = "simWorld [(''x.md'', ''OLD'')] [(''x.md'', ''NEWER'')]"
  let ?w1 = "?w\<lparr>w_now := 1700000000100\<rparr>"
  let ?m = "\<lparr>md_path = ''x.md'', githubBlobSha = ''blob:NEW'', lastModified = 0,
             localChecksum = ''sum:NEW'', remoteContentChecksum = ''sum:NEW'', conflicted = False\<rparr>"
  let ?lf = "[localState ''x.md'' ''NEWER'']"
  have now: "dateNow sim ?w1 = 1700000000100" by (simp add: sim_def)
  have h: "recentlyPushedFiles (syncState ?st) ''x.md'' = Some 1699999990000
    \<and> (1699999990000::int) \<noteq> 0
    \<and> fileMetadata (syncState ?st) ''x.md'' = Some ?m \<and> githubBlobSha ?m \<noteq> []
    \<and> listRemote 5 sim ?st ?w = Some (Inr [remoteState ''x.md'' ''OLD''], ?w1)
    \<and> dateNow sim ?w1 - 1699999990000 < 90000"
    using grace_instance_listing
    by (simp add: pushedAt_def trackedAt_def setMetadata_def blobSha_def now)
  from grace_period_protects_pushed_document [where st = ?st and p = "''x.md''"
      and t = 1699999990000 and m = ?m and n = 5 and P = sim and w = ?w
      and api = "[remoteState ''x.md'' ''OLD'']" and ?w1.0 = ?w1, THEN conjunct1] h
  obtain R st' where g: "getRemoteFileStates 5 sim ?st ?w = Some (Some R, st', ?w1)"
    and repl: "\<forall>i. distinct (map fst [remoteState ''x.md'' ''OLD''])
                  \<and> map_of [remoteState ''x.md'' ''OLD''] ''x.md'' = Some i
                  \<and> rf_sha i \<noteq> githubBlobSha ?m
                  \<and> \<not> recentlyDeletedAt ?st (dateNow sim ?w1) ''x.md'' \<longrightarrow>
                  map_of R ''x.md'' = Some (i\<lparr>rf_sha := githubBlobSha ?m\<rparr>)"
    and nc: "\<forall>localFiles w2 conflicts st3 w3.
                distinct (map fst localFiles)
                \<and> detectConflicts sim localFiles (Some R) st' w2 = (Inr conflicts, st3, w3) \<longrightarrow>
                map_of conflicts ''x.md'' = None"
    by blast
  have nd: "\<not> recentlyDeletedAt ?st (dateNow sim ?w1) ''x.md''"
    by (simp add: recentlyDeletedAt_def pushedAt_def trackedAt_def setMetadata_def configured_def
        initialSyncState_def)
  have r: "map_of R ''x.md'' = Some \<lparr>rf_path = ''x.md'', rf_sha = ''blob:NEW'', rf_type = ''file''\<rparr>"
    using repl nd by (simp add: remoteState_def blobSha_def)
  have g': "getRemoteFileStates 5 sim ?st ?w
      = Some (Some (finalRemoteStates ?st 1700000000100 [remoteState ''x.md'' ''OLD''] []),
              expireCaches 1700000000100 ?st, ?w1)"
    using grace_instance_listing by (simp add: getRemoteFileStates_def now Let_def)
  have R: "R = finalRemoteStates ?st 1700000000100 [remoteState ''x.md'' ''OLD''] []"
    and st': "st' = expireCaches 1700000000100 ?st"
    using g g' by simp_all
  obtain res st3 w3 where run: "detectConflicts sim ?lf (Some R) st' ?w1 = (res, st3, w3)"
    by (cases "detectConflicts sim ?lf (Some R) st' ?w1")
  have "res = Inr []" using grace_instance_detect run unfolding R st' by simp
  with run nc have "detectConflicts sim ?lf (Some R) st' ?w1 = (Inr [], st3, w3)
      \<and> map_of ([]::(string \<times> Conflict) list) ''x.md'' = None" by simp
  with g r have first: "\<exists>R st' w1.
     getRemoteFileStates 5 sim ?st ?w = Some (Some R, st', w1)
     \<and> map_of R ''x.md'' = Some \<lparr>rf_path = ''x.md'', rf_sha = ''blob:NEW'', rf_type = ''file''\<rparr>
     \<and> (\<exists>conflicts st3 w3.
           detectConflicts sim [localState ''x.md'' ''NEWER''] (Some R) st' w1
             = (Inr conflicts, st3, w3)
           \<and> map_of conflicts ''x.md'' = None)" by blast
  let ?lf2 = "[localState ''x.md'' ''NEWER'', localState ''y.md'' ''Y'']"
  have pushed: "recentlyPushedFiles (syncState twoTracked) ''x.md'' = Some 1699999990000"
    by (simp add: twoTracked_def pushedAt_def)
  have window: "(1700000000100::int) - 1699999990000 < 90000" by simp
  have keys: "\<forall>x \<in> set ?lf2. tf_path (lf_file (snd x)) = fst x"
    by (simp add: localState_def simFile_def)
  have mem: "simFile ''y.md'' \<in> set (deleteQueueLoop twoTracked 1700000000100 [] ?lf2 [])"
    by (simp add: grace_instance_queue)
  from grace_period_protects_pushed_document [THEN conjunct2, rule_format,
      of twoTracked "''x.md''" 1699999990000 1700000000100 ?lf2 "simFile ''y.md''" "[]"]
    pushed window keys mem
  have other: "tf_path (simFile ''y.md'') \<noteq> ''x.md''" by blast
  show ?thesis
    by (intro conjI first grace_instance_queue other grace_instance_queue_late)
qed

section \<open>The push protocol: properties\<close>

lemma last_retryTrace:
  "outs \<noteq> [] \<Longrightarrow> retryTrace q outs d \<noteq> [] \<and> last (retryTrace q outs d) = Requested q (last outs)"
  by (induction q outs d rule: retryTrace.induct) auto

lemma savePluginData_logged:
  "savePluginData (logged P) st (w, tr) = (savePluginData P st w, tr)"
  by (simp add: savePluginData_def logged_def)

lemma logged_pure [simp]:
  "calculateChecksum (logged P) = calculateChecksum P"
  "encodeBase64 (logged P) = encodeBase64 P"
  by (simp_all add: logged_def)

lemma submitUpload_success:
  assumes "submitUpload (logged P) file c sha md maxR k ch st (w, tr0) = Finished (Inr (), st', (w', tr))"
  shows "\<exists>r result newSha.
           tr \<noteq> [] \<and> last tr = Requested (putRequest st file (encodeBase64 P c) sha) r
         \<and> responseOutcome r = Inr result \<and> putResultSha result = Inr newSha
         \<and> st' = setMetadata (tf_path file)
                   (md\<lparr>githubBlobSha := newSha, lastModified := tf_mtime file,
                       localChecksum := calculateChecksum P c,
                       remoteContentChecksum := calculateChecksum P c,
                       conflicted := False\<rparr>) st"
proof -
  let ?q = "putRequest st file (encodeBase64 P c) sha"
  obtain outs w1 where m: "makeGitHubRequest (logged P) ?q 3 1000 (w, tr0)
       = (responseOutcome (last outs), (w1, tr0 @ retryTrace ?q outs 1000))" and ne: "outs \<noteq> []"
    using mgr_logged [of P ?q w tr0] by blast
  from assms m ne last_retryTrace [OF ne, of ?q 1000] show ?thesis
    unfolding submitUpload_def
    by (auto simp: Let_def savePluginData_logged split: sum.splits if_splits)
qed

lemma submitUpload_again:
  "submitUpload P file c sha md maxR k ch st w = Again ch1 st1 w1 \<Longrightarrow> k < maxR"
  unfolding submitUpload_def
  by (auto simp: Let_def split: sum.splits if_splits prod.splits)

lemma uploadAttempt_again:
  "uploadAttempt P file lc maxR k ch st w = Some (Again ch1 st1 w1) \<Longrightarrow> k < maxR"
  unfolding uploadAttempt_def
  by (auto split: option.splits sum.splits prod.splits dest: submitUpload_again)

lemma uploadAttempt_success:
  "uploadAttempt P file lc maxR k ch st w = Some (Finished (Inr (), st', w'))
   \<Longrightarrow> \<exists>c sha md ch1 st1 w1.
         prepareUpload P file lc ch st w = Some (Inr (c, sha, md, ch1, st1, w1))
       \<and> submitUpload P file c sha md maxR k ch1 st1 w1 = Finished (Inr (), st', w')"
  unfolding uploadAttempt_def
  by (auto split: option.splits sum.splits prod.splits)

lemma uploadLoop_success:
  "uploadLoop P file lc maxR k ch st w = Some (Inr (), st', w') \<Longrightarrow> k < maxR
   \<Longrightarrow> \<exists>c sha md ch0 ch1 k1 st0 w0 st1 w1.
         prepareUpload P file lc ch0 st0 w0 = Some (Inr (c, sha, md, ch1, st1, w1))
       \<and> submitUpload P file c sha md maxR k1 ch1 st1 w1 = Finished (Inr (), st', w')"
proof (induction "maxR - k" arbitrary: k ch st w)
  case 0
  then show ?case by simp
next
  case (Suc n)
  from Suc.prems obtain a where a: "uploadAttempt P file lc maxR (k + 1) ch st w = Some a"
    by (subst (asm) uploadLoop.simps) (auto split: option.splits)
  show ?case
  proof (cases a)
    case (Finished r)
    with Suc.prems a
    have "uploadAttempt P file lc maxR (k + 1) ch st w = Some (Finished (Inr (), st', w'))"
      by (subst (asm) uploadLoop.simps) simp
    from uploadAttempt_success [OF this] show ?thesis by blast
  next
    case (Again ch2 st2 w2)
    from uploadAttempt_again [OF a [unfolded Again]] have lt: "k + 1 < maxR" .
    from Suc.prems a Again
    have "uploadLoop P file lc maxR (k + 1) ch2 st2 w2 = Some (Inr (), st', w')"
      by (subst (asm) uploadLoop.simps) simp
    moreover from Suc.hyps(2) have "n = maxR - (k + 1)" by simp
    ultimately show ?thesis using Suc.hyps(1) lt by blast
  qed
qed

lemma putRequest_settings:
  "settings st = settings st' \<Longrightarrow> putRequest st file e sha = putRequest st' file e sha"
  by (simp add: putRequest_def contentsRequest_def)

text \<open>
  Claim C8. Whenever \<^verbatim>\<open>uploadFile\<close> (with a positive attempt bound) returns normally, the
  last exchange with the server is the PUT that carries the encoding of some content
  \<open>contentToPush\<close>, the server answered it with a result holding a revision id, and the
  metadata of the file then has that revision id as \<^verbatim>\<open>githubBlobSha\<close> and the hash of
  \<open>contentToPush\<close>, the content that was submitted, as both \<^verbatim>\<open>localChecksum\<close> and
  \<^verbatim>\<open>remoteContentChecksum\<close>, with the conflict flag cleared.
\<close>

theorem uploadFile_postcondition:
  assumes "uploadFile (logged P) file maxRetries st (w, tr0) = Some (Inr (), st', (w', tr))"
    and "0 < maxRetries"
  shows "\<exists>contentToPush shaForPut r result newSha m.
           tr \<noteq> []
         \<and> last tr = Requested (putRequest st' file (encodeBase64 P contentToPush) shaForPut) r
         \<and> responseOutcome r = Inr result \<and> putResultSha result = Inr newSha
         \<and> fileMetadata (syncState st') (tf_path file) = Some m
         \<and> githubBlobSha m = newSha
         \<and> localChecksum m = calculateChecksum P contentToPush
         \<and> remoteContentChecksum m = calculateChecksum P contentToPush
         \<and> \<not> conflicted m"
proof -
  from assms(1) obtain lc W1 where
    loop: "uploadLoop (logged P) file lc maxRetries 0 None st W1 = Some (Inr (), st', (w', tr))"
    unfolding uploadFile_def by (auto split: prod.splits sum.splits)
  from uploadLoop_success [OF loop assms(2)] obtain c sha md ch1 k1 st1 W2 where
    sub: "submitUpload (logged P) file c sha md maxRetries k1 ch1 st1 W2
            = Finished (Inr (), st', (w', tr))"
    by blast
  obtain w2 tr2 where W2: "W2 = (w2, tr2)" by (cases W2)
  from submitUpload_success [OF sub [unfolded W2]] obtain r result newSha where
    p: "tr \<noteq> []" "last tr = Requested (putRequest st1 file (encodeBase64 P c) sha) r"
       "responseOutcome r = Inr result" "putResultSha result = Inr newSha"
       "st' = setMetadata (tf_path file)
                (md\<lparr>githubBlobSha := newSha, lastModified := tf_mtime file,
                    localChecksum := calculateChecksum P c,
                    remoteContentChecksum := calculateChecksum P c,
                    conflicted := False\<rparr>) st1"
    by blast
  from p(5) have "settings st1 = settings st'" by simp
  from putRequest_settings [OF this] p(2)
  have q: "last tr = Requested (putRequest st' file (encodeBase64 P c) sha) r" by simp
  let ?m = "md\<lparr>githubBlobSha := newSha, lastModified := tf_mtime file,
                localChecksum := calculateChecksum P c,
                remoteContentChecksum := calculateChecksum P c, conflicted := False\<rparr>"
  from p(5) have m: "fileMetadata (syncState st') (tf_path file) = Some ?m" by simp
  show ?thesis
    by (rule exI [of _ c], rule exI [of _ sha], rule exI [of _ r], rule exI [of _ result],
        rule exI [of _ newSha], rule exI [of _ ?m]) (simp add: p(1,3,4) q m)
qed

lemma upload_instance_result:
  "map_option fst (uploadFile (logged sim) (simFile ''x.md'') 3 (configured [] Merge)
          (simWorld [(''x.md'', ''B'')] [(''x.md'', ''A'')], [])) = Some (Inr ())"
  by code_simp

lemma upload_instance_last:
  "map_option (\<lambda>(r, st, w, tr). last tr)
     (uploadFile (logged sim) (simFile ''x.md'') 3 (configured [] Merge)
        (simWorld [(''x.md'', ''B'')] [(''x.md'', ''A'')], []))
   = Some (Requested
       \<lparr>req_method = PUT, req_token = ''t'', req_owner = ''o'', req_repo = ''r'',
        req_path = ''x.md'', req_ref = None,
        req_body = Some \<lparr>b_message = ''Update x.md (Obsidian SyncMate)'',
                         b_content = Some (mergeContent ''A'' ''B''),
                         b_sha = Some ''blob:B'', b_branch = ''main''\<rparr>\<rparr>
       (simResponse 200
          (JObject \<lparr>o_type = ''file'', o_name = ''x.md'', o_path = ''x.md'', o_sha = None,
                    o_content = None,
                    o_content_sha = Some (blobSha (mergeContent ''A'' ''B''))\<rparr>)))"
  by code_simp

theorem uploadFile_postcondition_witness:
  "\<exists>st' w' tr m.
     uploadFile (logged sim) (simFile ''x.md'') 3 (configured [] Merge)
       (simWorld [(''x.md'', ''B'')] [(''x.md'', ''A'')], []) = Some (Inr (), st', (w', tr))
   \<and> fileMetadata (syncState st') ''x.md'' = Some m
   \<and> githubBlobSha m = blobSha (mergeContent ''A'' ''B'')
   \<and> localChecksum m = ''sum:'' @ mergeContent ''A'' ''B''
   \<and> remoteContentChecksum m = ''sum:'' @ mergeContent ''A'' ''B''"
proof -
  let ?run = "uploadFile (logged sim) (simFile ''x.md'') 3 (configured [] Merge)
       (simWorld [(''x.md'', ''B'')] [(''x.md'', ''A'')], [])"
  from upload_instance_result obtain r st' w' tr where run: "?run = Some (r, st', (w', tr))"
    by (cases ?run) auto
  with upload_instance_result have r: "r = Inr ()" by simp
  from uploadFile_postcondition [OF run [unfolded r]]
  obtain c sha a result newSha m where
    p: "last tr = Requested (putRequest st' (simFile ''x.md'') (encodeBase64 sim c) sha) a"
       "responseOutcome a = Inr result" "putResultSha result = Inr newSha"
       "fileMetadata (syncState st') (tf_path (simFile ''x.md'')) = Some m"
       "githubBlobSha m = newSha" "localChecksum m = calculateChecksum sim c"
       "remoteContentChecksum m = calculateChecksum sim c"
    by auto
  from upload_instance_last run p(1)
  have c: "c = mergeContent ''A'' ''B''"
    and a: "a = simResponse 200
          (JObject \<lparr>o_type = ''file'', o_name = ''x.md'', o_path = ''x.md'', o_sha = None,
                    o_content = None,
                    o_content_sha = Some (blobSha (mergeContent ''A'' ''B''))\<rparr>)"
    by (simp_all add: putRequest_def contentsRequest_def sim_def Let_def)
  from a p(2,3) have n: "newSha = blobSha (mergeContent ''A'' ''B'')"
    by (auto simp: simResponse_def responseOutcome_def putResultSha_def split: if_splits)
  from run r p(4-7) c n show ?thesis
    by (simp add: simFile_def sim_def)
qed

section \<open>Which documents a run touches\<close>

lemma listedItems_append [simp]: "listedItems (a @ b) = listedItems a @ listedItems b"
  by (simp add: listedItems_def)

lemma retryTrace_last_mem:
  "outs \<noteq> [] \<Longrightarrow> Requested q (last outs) \<in> set (retryTrace q outs d)"
  by (induction q outs d rule: retryTrace.induct) auto

lemma mgr_logged_ext:
  "makeGitHubRequest (logged P) req 3 1000 (w, tr0) = (r, (w', tr))
   \<Longrightarrow> \<exists>tr1. tr = tr0 @ tr1
          \<and> (\<forall>j. r = Inr j \<longrightarrow> (\<exists>resp. Requested req (Inr resp) \<in> set tr1 \<and> r_json resp = j))"
proof -
  assume a: "makeGitHubRequest (logged P) req 3 1000 (w, tr0) = (r, (w', tr))"
  obtain outs w1 where m: "makeGitHubRequest (logged P) req 3 1000 (w, tr0)
       = (responseOutcome (last outs), (w1, tr0 @ retryTrace req outs 1000))" and ne: "outs \<noteq> []"
    using mgr_logged [of P req w tr0] by blast
  from a m have r: "r = responseOutcome (last outs)" and tr: "tr = tr0 @ retryTrace req outs 1000"
    by simp_all
  have "\<forall>j. r = Inr j \<longrightarrow> (\<exists>resp. Requested req (Inr resp) \<in> set (retryTrace req outs 1000) \<and> r_json resp = j)"
  proof (intro allI impI)
    fix j assume "r = Inr j"
    with r obtain resp where "last outs = Inr resp" "r_json resp = j"
      by (auto simp: responseOutcome_def split: sum.splits if_splits)
    with retryTrace_last_mem [OF ne, of req 1000] show "\<exists>resp. Requested req (Inr resp) \<in> set (retryTrace req outs 1000) \<and> r_json resp = j"
      by auto
  qed
  with tr show ?thesis by blast
qed

lemma listed_array:
  "Requested q (Inr resp) \<in> set tr \<Longrightarrow> r_json resp = JArray items \<Longrightarrow> set items \<subseteq> set (listedItems tr)"
  by (force simp: listedItems_def)

lemma listed_object:
  "Requested q (Inr resp) \<in> set tr \<Longrightarrow> r_json resp = JObject obj \<Longrightarrow>
   \<lparr>ri_type = o_type obj, ri_name = o_name obj, ri_path = o_path obj, ri_sha = orEmpty (o_sha obj)\<rparr>
     \<in> set (listedItems tr)"
  by (force simp: listedItems_def)

lemma update_mem:
  "e \<in> set (AList.update k v al) \<Longrightarrow> e = (k, v) \<or> e \<in> set al"
  by (induction al) (auto split: if_splits)

lemma processRemoteDirectory_provenance:
  "processRemoteDirectory n (logged P) st items acc (w, tr0) = Some (res, (w', tr))
   \<Longrightarrow> \<exists>tr1. tr = tr0 @ tr1
        \<and> (\<forall>e \<in> set res. e \<in> set acc
               \<or> (\<exists>item \<in> set items \<union> set (listedItems tr1). recordedFrom st item e))"
proof (induction n arbitrary: items acc w tr0 res w' tr)
  case 0
  then show ?case
  proof (induction items arbitrary: acc w tr0)
    case Nil
    then show ?case by simp
  next
    case (Cons item items)
    show ?case
    proof (cases "ri_type item = ''file'' \<and> isMarkdownFile (ri_name item)")
      case True
      with Cons.prems have "processRemoteDirectory 0 (logged P) st items
             (AList.update (getLocalPath (syncPath (settings st)) (ri_path item))
                \<lparr>rf_path = ri_path item, rf_sha = ri_sha item, rf_type = ri_type item\<rparr> acc) (w, tr0)
             = Some (res, (w', tr))" by simp
      from Cons.IH [OF this] obtain tr1 where t: "tr = tr0 @ tr1"
        and h: "\<forall>e \<in> set res. e \<in> set (AList.update (getLocalPath (syncPath (settings st)) (ri_path item))
                \<lparr>rf_path = ri_path item, rf_sha = ri_sha item, rf_type = ri_type item\<rparr> acc)
               \<or> (\<exists>i \<in> set items \<union> set (listedItems tr1). recordedFrom st i e)" by blast
      have "\<forall>e \<in> set res. e \<in> set acc
               \<or> (\<exists>i \<in> set (item # items) \<union> set (listedItems tr1). recordedFrom st i e)"
      proof
        fix e assume "e \<in> set res"
        with h consider "e \<in> set (AList.update (getLocalPath (syncPath (settings st)) (ri_path item))
                \<lparr>rf_path = ri_path item, rf_sha = ri_sha item, rf_type = ri_type item\<rparr> acc)"
          | "\<exists>i \<in> set items \<union> set (listedItems tr1). recordedFrom st i e" by blast
        then show "e \<in> set acc \<or> (\<exists>i \<in> set (item # items) \<union> set (listedItems tr1). recordedFrom st i e)"
        proof cases
          case 1
          from update_mem [OF 1] True show ?thesis
            by (auto simp: recordedFrom_def)
        next
          case 2
          then show ?thesis by auto
        qed
      qed
      with t show ?thesis by blast
    next
      case False
      show ?thesis
      proof (cases "ri_type item = ''dir''")
        case True
        with Cons.prems show ?thesis by (simp add: False)
      next
        case nd: False
        with Cons.prems have "processRemoteDirectory 0 (logged P) st items acc (w, tr0)
             = Some (res, (w', tr))" by (simp add: False)
        from Cons.IH [OF this] show ?thesis by auto
      qed
    qed
  qed
next
  case (Suc m)
  note outer = Suc.IH
  from Suc.prems show ?case
  proof (induction items arbitrary: acc w tr0)
    case Nil
    then show ?case by simp
  next
    case (Cons item items)
    show ?case
    proof (cases "ri_type item = ''file'' \<and> isMarkdownFile (ri_name item)")
      case True
      with Cons.prems have "processRemoteDirectory (Suc m) (logged P) st items
             (AList.update (getLocalPath (syncPath (settings st)) (ri_path item))
                \<lparr>rf_path = ri_path item, rf_sha = ri_sha item, rf_type = ri_type item\<rparr> acc) (w, tr0)
             = Some (res, (w', tr))" by simp
      from Cons.IH [OF this] obtain tr1 where t: "tr = tr0 @ tr1"
        and h: "\<forall>e \<in> set res. e \<in> set (AList.update (getLocalPath (syncPath (settings st)) (ri_path item))
                \<lparr>rf_path = ri_path item, rf_sha = ri_sha item, rf_type = ri_type item\<rparr> acc)
               \<or> (\<exists>i \<in> set items \<union> set (listedItems tr1). recordedFrom st i e)" by blast
      have "\<forall>e \<in> set res. e \<in> set acc
               \<or> (\<exists>i \<in> set (item # items) \<union> set (listedItems tr1). recordedFrom st i e)"
      proof
        fix e assume "e \<in> set res"
        with h consider "e \<in> set (AList.update (getLocalPath (syncPath (settings st)) (ri_path item))
                \<lparr>rf_path = ri_path item, rf_sha = ri_sha item, rf_type = ri_type item\<rparr> acc)"
          | "\<exists>i \<in> set items \<union> set (listedItems tr1). recordedFrom st i e" by blast
        then show "e \<in> set acc \<or> (\<exists>i \<in> set (item # items) \<union> set (listedItems tr1). recordedFrom st i e)"
        proof cases
          case 1
          from update_mem [OF 1] True show ?thesis
            by (auto simp: recordedFrom_def)
        next
          case 2
          then show ?thesis by auto
        qed
      qed
      with t show ?thesis by blast
    next
      case False
      show ?thesis
      proof (cases "ri_type item = ''dir''")
        case nd: False
        with Cons.prems have "processRemoteDirectory (Suc m) (logged P) st items acc (w, tr0)
             = Some (res, (w', tr))" by (simp add: False)
        from Cons.IH [OF this] show ?thesis by auto
      next
        case True
        obtain r w1 tr1 where g: "makeGitHubRequest (logged P) (getContents st (ri_path item)) 3 1000 (w, tr0)
              = (r, (w1, tr1))"
          by (cases "makeGitHubRequest (logged P) (getContents st (ri_path item)) 3 1000 (w, tr0)") auto
        from mgr_logged_ext [OF g] obtain ta where ta: "tr1 = tr0 @ ta"
          and prov: "\<forall>j. r = Inr j \<longrightarrow> (\<exists>resp. Requested (getContents st (ri_path item)) (Inr resp) \<in> set ta \<and> r_json resp = j)"
          by blast
        show ?thesis
        proof (cases "\<exists>subContents. r = Inr (JArray subContents)")
          case no: False
          with True Cons.prems g have "processRemoteDirectory (Suc m) (logged P) st items acc (w1, tr1)
             = Some (res, (w', tr))"
            by (auto simp: False split: sum.splits Json.splits)
          from Cons.IH [OF this] obtain tb where "tr = tr1 @ tb"
            and "\<forall>e \<in> set res. e \<in> set acc \<or> (\<exists>i \<in> set items \<union> set (listedItems tb). recordedFrom st i e)"
            by blast
          with ta have "tr = tr0 @ (ta @ tb) \<and> (\<forall>e \<in> set res. e \<in> set acc
               \<or> (\<exists>i \<in> set (item # items) \<union> set (listedItems (ta @ tb)). recordedFrom st i e))"
            by auto
          then show ?thesis by blast
        next
          case yes: True
          then obtain subContents where r: "r = Inr (JArray subContents)" by blast
          with prov obtain resp where resp: "Requested (getContents st (ri_path item)) (Inr resp) \<in> set ta"
             "r_json resp = JArray subContents" by blast
          from listed_array [OF resp] have sub: "set subContents \<subseteq> set (listedItems ta)" .
          from True Cons.prems g r obtain res1 w2 tr2 where
            inner: "processRemoteDirectory m (logged P) st subContents acc (w1, tr1) = Some (res1, (w2, tr2))"
            and rest: "processRemoteDirectory (Suc m) (logged P) st items res1 (w2, tr2) = Some (res, (w', tr))"
            by (auto simp: False split: option.splits)
          from outer [OF inner] obtain tb where tb: "tr2 = tr1 @ tb"
            and hb: "\<forall>e \<in> set res1. e \<in> set acc \<or> (\<exists>i \<in> set subContents \<union> set (listedItems tb). recordedFrom st i e)"
            by blast
          from Cons.IH [OF rest] obtain tc where tc: "tr = tr2 @ tc"
            and hc: "\<forall>e \<in> set res. e \<in> set res1 \<or> (\<exists>i \<in> set items \<union> set (listedItems tc). recordedFrom st i e)"
            by blast
          have "\<forall>e \<in> set res. e \<in> set acc
               \<or> (\<exists>i \<in> set (item # items) \<union> set (listedItems (ta @ tb @ tc)). recordedFrom st i e)"
          proof
            fix e assume "e \<in> set res"
            with hc consider "e \<in> set res1" | "\<exists>i \<in> set items \<union> set (listedItems tc). recordedFrom st i e"
              by blast
            then show "e \<in> set acc \<or> (\<exists>i \<in> set (item # items) \<union> set (listedItems (ta @ tb @ tc)). recordedFrom st i e)"
            proof cases
              case 1
              with hb sub show ?thesis by auto
            next
              case 2
              then show ?thesis by auto
            qed
          qed
          moreover from ta tb tc have "tr = tr0 @ (ta @ tb @ tc)" by simp
          ultimately show ?thesis by blast
        qed
      qed
    qed
  qed
qed

lemma listRemote_provenance:
  assumes "listRemote n (logged P) st (w, tr0) = Some (Inr api, (w', tr))"
  shows "\<exists>tr1. tr = tr0 @ tr1
        \<and> (\<forall>e \<in> set api. \<exists>item \<in> set (listedItems tr1). recordedFrom st item e)"
proof -
  let ?q = "getContents st (stripSlashes (trim (syncPath (settings st))))"
  obtain r w1 tr1 where g: "makeGitHubRequest (logged P) ?q 3 1000 (w, tr0) = (r, (w1, tr1))"
    by (cases "makeGitHubRequest (logged P) ?q 3 1000 (w, tr0)") auto
  from mgr_logged_ext [OF g] obtain ta where ta: "tr1 = tr0 @ ta"
    and prov: "\<forall>j. r = Inr j \<longrightarrow> (\<exists>resp. Requested ?q (Inr resp) \<in> set ta \<and> r_json resp = j)"
    by blast
  show ?thesis
  proof (cases r)
    case (Inl e)
    with assms g show ?thesis by (simp add: listRemote_def)
  next
    case (Inr j)
    with prov obtain resp where resp: "Requested ?q (Inr resp) \<in> set ta" "r_json resp = j" by blast
    show ?thesis
    proof (cases j)
      case JNull
      with assms g Inr show ?thesis by (simp add: listRemote_def)
    next
      case (JArray contents)
      from listed_array [OF resp(1)] resp(2) JArray
      have sub: "set contents \<subseteq> set (listedItems ta)" by simp
      from assms g Inr JArray have
        "processRemoteDirectory n (logged P) st contents [] (w1, tr1) = Some (api, (w', tr))"
        by (auto simp: listRemote_def split: option.splits)
      from processRemoteDirectory_provenance [OF this] obtain tb where tb: "tr = tr1 @ tb"
        and h: "\<forall>e \<in> set api. e \<in> set []
               \<or> (\<exists>item \<in> set contents \<union> set (listedItems tb). recordedFrom st item e)"
        by blast
      from h sub have "\<forall>e \<in> set api. \<exists>item \<in> set (listedItems (ta @ tb)). recordedFrom st item e"
        by auto
      moreover from ta tb have "tr = tr0 @ (ta @ tb)" by simp
      ultimately show ?thesis by blast
    next
      case (JObject obj)
      let ?item = "\<lparr>ri_type = o_type obj, ri_name = o_name obj, ri_path = o_path obj,
                     ri_sha = orEmpty (o_sha obj)\<rparr>"
      from listed_object [OF resp(1)] resp(2) JObject
      have mem: "?item \<in> set (listedItems ta)" by simp
      from assms g Inr JObject have t: "tr = tr1"
        and api: "api = (if o_type obj = ''file'' \<and> isMarkdownFile (o_name obj)
                   then [(getLocalPath (syncPath (settings st)) (o_path obj),
                               \<lparr>rf_path = o_path obj,
                                rf_sha = (case o_sha obj of Some s \<Rightarrow> s | None \<Rightarrow> []),
                                rf_type = o_type obj\<rparr>)] else [])"
        by (auto simp: listRemote_def split: if_splits)
      from api mem have "\<forall>e \<in> set api. \<exists>item \<in> set (listedItems ta). recordedFrom st item e"
        by (auto simp: recordedFrom_def split: if_splits intro!: bexI [of _ ?item])
      with t ta show ?thesis by blast
    qed
  qed
qed

lemma finalRemoteStates_provenance:
  "e \<in> set (finalRemoteStates st now api final)
   \<Longrightarrow> e \<in> set final
       \<or> (\<exists>e0 \<in> set api. fst e = fst e0 \<and> rf_path (snd e) = rf_path (snd e0)
                           \<and> rf_type (snd e) = rf_type (snd e0))"
proof (induction api arbitrary: final)
  case Nil
  then show ?case by simp
next
  case (Cons x api)
  obtain p info where x: "x = (p, info)" by (cases x)
  show ?case
  proof (cases "recentlyDeletedAt st now p")
    case True
    with Cons.prems have "e \<in> set (finalRemoteStates st now api final)" unfolding x by simp
    from Cons.IH [OF this] show ?thesis by auto
  next
    case False
    define info' where "info' =
      (case fileMetadata (syncState st) p of
         Some m \<Rightarrow> if recentlyPushedAt st now p \<and> githubBlobSha m \<noteq> []
                      \<and> githubBlobSha m \<noteq> rf_sha info
                   then info\<lparr>rf_sha := githubBlobSha m\<rparr> else info
       | None \<Rightarrow> info)"
    have same: "rf_path info' = rf_path info" "rf_type info' = rf_type info"
      unfolding info'_def by (simp_all split: option.splits)
    from False have "finalRemoteStates st now ((p, info) # api) final
        = finalRemoteStates st now api (AList.update p info' final)"
      unfolding info'_def by (auto split: option.splits)
    with Cons.prems
    have "e \<in> set (finalRemoteStates st now api (AList.update p info' final))"
      unfolding x by simp
    from Cons.IH [OF this] same show ?thesis
      unfolding x by (auto dest!: update_mem)
  qed
qed

lemma getRemoteFileStates_provenance:
  assumes "getRemoteFileStates n (logged P) st (w, tr0) = Some (Some remote, st', (w', tr))"
  shows "\<exists>tr1. tr = tr0 @ tr1
        \<and> (\<forall>e \<in> set remote. \<exists>item \<in> set (listedItems tr1). recordedFrom st item e)"
proof -
  from assms obtain api W1 where l: "listRemote n (logged P) st (w, tr0) = Some (Inr api, W1)"
    and r: "remote = finalRemoteStates st (dateNow (logged P) W1) api []" and W: "W1 = (w', tr)"
    by (auto simp: getRemoteFileStates_def Let_def split: option.splits sum.splits prod.splits)
  from listRemote_provenance [OF l [unfolded W]] obtain tr1 where t: "tr = tr0 @ tr1"
    and h: "\<forall>e \<in> set api. \<exists>item \<in> set (listedItems tr1). recordedFrom st item e" by blast
  have "\<forall>e \<in> set remote. \<exists>item \<in> set (listedItems tr1). recordedFrom st item e"
  proof
    fix e assume "e \<in> set remote"
    with r finalRemoteStates_provenance [of e st "dateNow (logged P) W1" api "[]"]
    obtain e0 where e0: "e0 \<in> set api" "fst e = fst e0" "rf_path (snd e) = rf_path (snd e0)"
       "rf_type (snd e) = rf_type (snd e0)" by auto
    with h obtain item where "item \<in> set (listedItems tr1)" "recordedFrom st item e0" by blast
    with e0 show "\<exists>item \<in> set (listedItems tr1). recordedFrom st item e"
      by (auto simp: recordedFrom_def)
  qed
  with t show ?thesis by blast
qed

lemma localStatesLoop_tracked:
  "e \<in> set (fst (localStatesLoop P st files acc w))
   \<Longrightarrow> e \<in> set acc
       \<or> (fst e = tf_path (lf_file (snd e)) \<and> lf_file (snd e) \<in> set files
          \<and> shouldSyncFile (syncPath (settings st)) (lf_file (snd e)))"
proof (induction files arbitrary: acc w)
  case Nil
  then show ?case by simp
next
  case (Cons f files)
  show ?case
  proof (cases "shouldSyncFile (syncPath (settings st)) f")
    case False
    with Cons.prems have "e \<in> set (fst (localStatesLoop P st files acc w))" by simp
    from Cons.IH [OF this] show ?thesis by auto
  next
    case True
    obtain r w1 where c: "vaultCachedRead P f w = (r, w1)" by (cases "vaultCachedRead P f w")
    show ?thesis
    proof (cases r)
      case (Inl err)
      with Cons.prems True c have "e \<in> set (fst (localStatesLoop P st files acc w1))" by simp
      from Cons.IH [OF this] show ?thesis by auto
    next
      case (Inr content)
      with Cons.prems True c have "e \<in> set (fst (localStatesLoop P st files
             (AList.update (tf_path f)
                     \<lparr>lf_file = f, lf_content = content,
                      lf_checksum = calculateChecksum P content, lf_mtime = tf_mtime f\<rparr> acc) w1))"
        by simp
      from Cons.IH [OF this] True show ?thesis by (auto dest!: update_mem)
    qed
  qed
qed

lemma pushQueueLoop_subset:
  "f \<in> set (fst (pushQueueLoop localFiles pending acc st))
   \<Longrightarrow> f \<in> set acc \<or> (\<exists>p s. p \<in> set pending \<and> map_of localFiles p = Some s \<and> f = lf_file s)"
  by (induction localFiles pending acc st rule: pushQueueLoop.induct)
     (auto split: option.splits)

lemma pullQueueLoop_subset:
  "r \<in> set (fst (pullQueueLoop P filesToPush localFiles remote acc st w))
   \<Longrightarrow> r \<in> set acc \<or> r \<in> snd ` set remote"
  by (induction P filesToPush localFiles remote acc st w rule: pullQueueLoop.induct)
     (auto split: option.splits if_splits)

text \<open>
  The part of the tracking discipline that holds for every host and every state.
  \<^verbatim>\<open>shouldSyncFile\<close> accepts a file only if its name, and \<^verbatim>\<open>shouldSyncPath\<close> a path only
  if the path, ends in \<open>.md\<close> or \<open>.markdown\<close> and, when the sync path without its leading
  and trailing slash is not empty, the path without its leading slash starts with that
  prefix followed by a slash. Every local file that \<^verbatim>\<open>getLocalFileStates\<close> reads passes
  \<^verbatim>\<open>shouldSyncFile\<close>; the push queue and the queue of local deletions of \<^verbatim>\<open>performSync\<close>
  hold only files of that list. The pull queue holds only entries of the remote listing,
  and every entry of the listing was recorded from an item of type \<open>file\<close> with a
  Markdown name that the server sent during the walk, under the local path
  \<^verbatim>\<open>getLocalPath(item.path)\<close>.
\<close>

lemma tracking_predicates_and_queues:
  "(shouldSyncFile sp f \<longrightarrow>
      isMarkdownFile (tf_name f)
      \<and> (stripSlashes sp \<noteq> [] \<longrightarrow>
           startsWith (stripLeadingSlash (tf_path f)) (stripSlashes sp @ ''/'')))
   \<and> (shouldSyncPath sp path \<longrightarrow>
        isMarkdownFile path
        \<and> (stripSlashes sp \<noteq> [] \<longrightarrow>
             startsWith (stripLeadingSlash path) (stripSlashes sp @ ''/'')))
   \<and> (\<forall>e \<in> set (fst (getLocalFileStates P st w)).
         fst e = tf_path (lf_file (snd e))
         \<and> shouldSyncFile (syncPath (settings st)) (lf_file (snd e)))
   \<and> (\<forall>f \<in> set (fst (pushQueueLoop localFiles pending [] st)).
         f \<in> lf_file ` snd ` set localFiles)
   \<and> (\<forall>f \<in> set (deleteQueueLoop st now currentRemoteFiles localFiles []).
         f \<in> lf_file ` snd ` set localFiles)
   \<and> (\<forall>r \<in> set (fst (pullQueueLoop P filesToPush localFiles currentRemoteFiles [] st w)).
         r \<in> snd ` set currentRemoteFiles)
   \<and> (getRemoteFileStates n (logged P) st (w, tr0) = Some (Some listing, st', (w', tr)) \<longrightarrow>
        (\<exists>tr1. tr = tr0 @ tr1
           \<and> (\<forall>e \<in> set listing. \<exists>item \<in> set (listedItems tr1). recordedFrom st item e)))"
proof (intro conjI)
  show "shouldSyncFile sp f \<longrightarrow>
      isMarkdownFile (tf_name f)
      \<and> (stripSlashes sp \<noteq> [] \<longrightarrow>
           startsWith (stripLeadingSlash (tf_path f)) (stripSlashes sp @ ''/''))"
    by (simp add: shouldSyncFile_def Let_def)
  show "shouldSyncPath sp path \<longrightarrow>
        isMarkdownFile path
        \<and> (stripSlashes sp \<noteq> [] \<longrightarrow>
             startsWith (stripLeadingSlash path) (stripSlashes sp @ ''/''))"
    by (simp add: shouldSyncPath_def Let_def)
  show "\<forall>e \<in> set (fst (getLocalFileStates P st w)).
         fst e = tf_path (lf_file (snd e))
         \<and> shouldSyncFile (syncPath (settings st)) (lf_file (snd e))"
    unfolding getLocalFileStates_def
    using localStatesLoop_tracked [of _ P st "getMarkdownFiles P w" "[]" w] by auto
  show "\<forall>f \<in> set (fst (pushQueueLoop localFiles pending [] st)).
         f \<in> lf_file ` snd ` set localFiles"
  proof
    fix f assume "f \<in> set (fst (pushQueueLoop localFiles pending [] st))"
    from pushQueueLoop_subset [OF this] obtain p s where
      "map_of localFiles p = Some s" "f = lf_file s" by auto
    then show "f \<in> lf_file ` snd ` set localFiles"
      by (force dest: map_of_SomeD)
  qed
  show "\<forall>f \<in> set (deleteQueueLoop st now currentRemoteFiles localFiles []).
         f \<in> lf_file ` snd ` set localFiles"
  proof
    fix f assume "f \<in> set (deleteQueueLoop st now currentRemoteFiles localFiles [])"
    from deleteQueueLoop_subset [OF this] show "f \<in> lf_file ` snd ` set localFiles"
      by force
  qed
  show "\<forall>r \<in> set (fst (pullQueueLoop P filesToPush localFiles currentRemoteFiles [] st w)).
         r \<in> snd ` set currentRemoteFiles"
    using pullQueueLoop_subset [of _ P filesToPush localFiles currentRemoteFiles "[]" st w]
    by auto
  show "getRemoteFileStates n (logged P) st (w, tr0) = Some (Some listing, st', (w', tr)) \<longrightarrow>
        (\<exists>tr1. tr = tr0 @ tr1
           \<and> (\<forall>e \<in> set listing. \<exists>item \<in> set (listedItems tr1). recordedFrom st item e))"
  proof
    assume "getRemoteFileStates n (logged P) st (w, tr0) = Some (Some listing, st', (w', tr))"
    from getRemoteFileStates_provenance [OF this]
    show "\<exists>tr1. tr = tr0 @ tr1
           \<and> (\<forall>e \<in> set listing. \<exists>item \<in> set (listedItems tr1). recordedFrom st item e)" .
  qed
qed

text \<open>
  Claim C10 fails on the code for remote deletions. The tracked document \<open>x.md\<close> is
  renamed to \<open>x.txt\<close>: the listener runs because the old path is tracked, and
  \<^verbatim>\<open>onFileRenamed\<close> records metadata for \<open>x.txt\<close> with the revision id of \<open>x.md\<close>. The
  file is renamed to \<open>y.md\<close>: \<^verbatim>\<open>onFileRenamed\<close> finds that metadata and queues \<open>x.txt\<close>
  for remote deletion. The next run deletes the file \<open>x.txt\<close> of the repository, which
  is not a Markdown file and which neither \<^verbatim>\<open>shouldSyncPath\<close> nor \<^verbatim>\<open>shouldSyncFile\<close>
  accepts.
\<close>

theorem renamed_document_deleted_remotely:
  "pendingDeletions (syncState (fst renamedTwice)) = [(''x.md'', ''blob:A''), (''x.txt'', ''blob:A'')]
   \<and> map_of (w_remote (snd renamedTwice)) ''x.txt'' = Some ''T''
   \<and> map_option (\<lambda>(out, c, st, w). (out, deletedRemotelyCount c, w_remote w))
        (manualSync 5 sim (fst renamedTwice) (snd renamedTwice))
      = Some (Completed, 2, [(''y.md'', ''A'')])
   \<and> \<not> isMarkdownFile ''x.txt''
   \<and> \<not> shouldSyncPath [] ''x.txt''
   \<and> \<not> shouldSyncFile [] (simFile ''x.txt'')"
  by code_simp

lemma notes_local_states:
  "fst (getLocalFileStates sim notesPlugin notesWorld) = [localState ''notes/x.md'' ''X'']"
  by code_simp

lemma notes_listing:
  "map_option fst (getRemoteFileStates 5 (logged sim) notesPlugin (notesWorld, []))
   = Some (Some notesListing)"
  by code_simp

lemma notes_queues:
  "simFile ''notes/x.md''
     \<in> set (fst (pushQueueLoop [localState ''notes/x.md'' ''X''] [''notes/x.md''] [] notesPlugin))"
  "simFile ''notes/x.md''
     \<in> set (deleteQueueLoop notesPlugin 0 notesListing [localState ''notes/x.md'' ''X''] [])"
  "snd (hd notesListing)
     \<in> set (fst (pullQueueLoop sim [] [localState ''notes/x.md'' ''X''] notesListing []
                   notesPlugin notesWorld))"
  by code_simp+

lemma notes_predicates:
  "shouldSyncFile ''/notes/'' (simFile ''notes/x.md'')"
  "shouldSyncPath ''/notes/'' ''notes/sub/b.markdown''"
  "stripSlashes ''/notes/'' = ''notes''"
  by code_simp+

lemma tracking_predicates_and_queues_instance:
  "shouldSyncFile ''/notes/'' (simFile ''notes/x.md'')
   \<and> isMarkdownFile (tf_name (simFile ''notes/x.md''))
   \<and> startsWith (stripLeadingSlash (tf_path (simFile ''notes/x.md''))) ''notes/''
   \<and> shouldSyncPath ''/notes/'' ''notes/sub/b.markdown''
   \<and> isMarkdownFile ''notes/sub/b.markdown''
   \<and> startsWith (stripLeadingSlash ''notes/sub/b.markdown'') ''notes/''
   \<and> fst (getLocalFileStates sim notesPlugin notesWorld) = [localState ''notes/x.md'' ''X'']
   \<and> shouldSyncFile (syncPath (settings notesPlugin))
        (lf_file (snd (localState ''notes/x.md'' ''X'')))
   \<and> simFile ''notes/x.md''
        \<in> set (fst (pushQueueLoop [localState ''notes/x.md'' ''X''] [''notes/x.md''] []
                      notesPlugin))
   \<and> simFile ''notes/x.md''
        \<in> set (deleteQueueLoop notesPlugin 0 notesListing [localState ''notes/x.md'' ''X''] [])
   \<and> simFile ''notes/x.md'' \<in> lf_file ` snd ` set [localState ''notes/x.md'' ''X'']
   \<and> snd (hd notesListing)
        \<in> set (fst (pullQueueLoop sim [] [localState ''notes/x.md'' ''X''] notesListing []
                      notesPlugin notesWorld))
   \<and> snd (hd notesListing) \<in> snd ` set notesListing
   \<and> (\<exists>st' w' tr.
         getRemoteFileStates 5 (logged sim) notesPlugin (notesWorld, [])
           = Some (Some notesListing, st', (w', tr))
       \<and> (\<exists>item \<in> set (listedItems tr).
             ri_type item = ''file'' \<and> isMarkdownFile (ri_name item)
             \<and> rf_path (snd (hd notesListing)) = ri_path item
             \<and> fst (hd notesListing)
                 = getLocalPath (syncPath (settings notesPlugin)) (ri_path item)))"
proof -
  let ?lf = "[localState ''notes/x.md'' ''X'']"
  let ?run = "getRemoteFileStates 5 (logged sim) notesPlugin (notesWorld, [])"
  from notes_listing obtain st' w' tr where run: "?run = Some (Some notesListing, st', (w', tr))"
    by (cases ?run) auto
  note T = tracking_predicates_and_queues [where sp = "''/notes/''"
      and f = "simFile ''notes/x.md''" and path = "''notes/sub/b.markdown''" and P = sim
      and st = notesPlugin and w = notesWorld and localFiles = ?lf
      and pending = "[''notes/x.md'']" and now = 0 and currentRemoteFiles = notesListing
      and filesToPush = "[]" and n = 5 and ?tr0.0 = "[]" and listing = notesListing
      and st' = st' and w' = w' and tr = tr]
  note T1 = T [THEN conjunct1]
  note T2 = T [THEN conjunct2, THEN conjunct1]
  note T3 = T [THEN conjunct2, THEN conjunct2, THEN conjunct1]
  note T4 = T [THEN conjunct2, THEN conjunct2, THEN conjunct2, THEN conjunct1]
  note T5 = T [THEN conjunct2, THEN conjunct2, THEN conjunct2, THEN conjunct2, THEN conjunct1]
  note T6 = T [THEN conjunct2, THEN conjunct2, THEN conjunct2, THEN conjunct2, THEN conjunct2,
               THEN conjunct1]
  note T7 = T [THEN conjunct2, THEN conjunct2, THEN conjunct2, THEN conjunct2, THEN conjunct2,
               THEN conjunct2]
  from T1 [THEN mp, OF notes_predicates(1)] have a12:
    "isMarkdownFile (tf_name (simFile ''notes/x.md''))"
    "startsWith (stripLeadingSlash (tf_path (simFile ''notes/x.md''))) ''notes/''"
    by (simp_all add: notes_predicates(3))
  from T2 [THEN mp, OF notes_predicates(2)] have a34:
    "isMarkdownFile ''notes/sub/b.markdown''"
    "startsWith (stripLeadingSlash ''notes/sub/b.markdown'') ''notes/''"
    by (simp_all add: notes_predicates(3))
  note a = a12 a34
  have "localState ''notes/x.md'' ''X'' \<in> set (fst (getLocalFileStates sim notesPlugin notesWorld))"
    by (simp add: notes_local_states)
  from T3 [THEN bspec, OF this] have b:
    "shouldSyncFile (syncPath (settings notesPlugin)) (lf_file (snd (localState ''notes/x.md'' ''X'')))"
    by (rule conjunct2)
  note c = T4 [THEN bspec, OF notes_queues(1)] T6 [THEN bspec, OF notes_queues(3)]
  from T7 [THEN mp, OF run] obtain tr1 where t: "tr = [] @ tr1"
    and h: "\<forall>e \<in> set notesListing. \<exists>item \<in> set (listedItems tr1). recordedFrom notesPlugin item e"
    by (elim exE conjE)
  have "hd notesListing \<in> set notesListing" by (simp add: notesListing_def)
  from h [THEN bspec, OF this] obtain item where i: "item \<in> set (listedItems tr1)"
     "recordedFrom notesPlugin item (hd notesListing)"
    by blast
  from i(2) have j: "ri_type item = ''file''" "isMarkdownFile (ri_name item)"
     "rf_path (snd (hd notesListing)) = ri_path item"
     "fst (hd notesListing) = getLocalPath (syncPath (settings notesPlugin)) (ri_path item)"
    unfolding recordedFrom_def by blast+
  from t have "tr = tr1" by simp
  with i(1) j have d: "\<exists>item \<in> set (listedItems tr).
             ri_type item = ''file'' \<and> isMarkdownFile (ri_name item)
             \<and> rf_path (snd (hd notesListing)) = ri_path item
             \<and> fst (hd notesListing)
                 = getLocalPath (syncPath (settings notesPlugin)) (ri_path item)"
    by blast
  from run d have e: "\<exists>st' w' tr.
         getRemoteFileStates 5 (logged sim) notesPlugin (notesWorld, [])
           = Some (Some notesListing, st', (w', tr))
       \<and> (\<exists>item \<in> set (listedItems tr).
             ri_type item = ''file'' \<and> isMarkdownFile (ri_name item)
             \<and> rf_path (snd (hd notesListing)) = ri_path item
             \<and> fst (hd notesListing)
                 = getLocalPath (syncPath (settings notesPlugin)) (ri_path item))"
    by blast
  show ?thesis
    by (intro conjI notes_predicates(1,2) a b c notes_queues notes_local_states e)
qed

end
